theory Spec2Isabelle
  imports Main "HOL-Library.Word"
begin

unbundle bit_operations_syntax

section \<open>Bytes, buffers and big numbers\<close>

text \<open>
  A Node \<open>Buffer\<close> is a list of bytes. The big numbers (\<open>BN\<close>) that live on the EVM
  stack are never negative and are modelled as \<open>nat\<close>; the signed intermediate values
  of \<open>SDIV\<close>, \<open>SMOD\<close>, \<open>SLT\<close> and \<open>SGT\<close> (after \<open>fromTwos\<close>) are \<open>int\<close>.
  Nothing is reduced modulo \<open>2 ^ 256\<close> unless the handler does it.
\<close>

type_synonym byte = "8 word"
type_synonym Buffer = "byte list"

definition TWO_POW256 :: nat where
  "TWO_POW256 = 2 ^ 256"

definition MAX_INTEGER :: nat where
  "MAX_INTEGER = 2 ^ 256 - 1"

text \<open>The trap codes of the interpreter, \<open>REVERT\<close> for the controlled failure that
  ends a frame, and \<open>JS_ASSERT\<close> for an assertion of the number library (a plain
  JavaScript \<open>Error\<close>, not a VM trap).\<close>

datatype ERROR =
    STOP | REVERT | OUT_OF_GAS | INVALID_OPCODE | INVALID_JUMP | INVALID_JUMPSUB
  | INVALID_BEGINSUB | INVALID_RETURNSUB | STATIC_STATE_CHANGE | OUT_OF_RANGE
  | STACK_OVERFLOW | STACK_UNDERFLOW | JS_ASSERT

text \<open>\<open>new BN(buffer)\<close>: the bytes read big-endian; the empty buffer is 0.\<close>

definition bnOfBuffer :: "Buffer \<Rightarrow> nat" where
  "bnOfBuffer bs = foldl (\<lambda>acc b. acc * 256 + unat b) 0 bs"

text \<open>The shortest big-endian byte string of a number: no byte at all for 0.\<close>

fun beBytes :: "nat \<Rightarrow> Buffer" where
  "beBytes n = (if n = 0 then [] else beBytes (n div 256) @ [word_of_nat (n mod 256)])"

declare beBytes.simps [simp del]

definition byteLength :: "nat \<Rightarrow> nat" where
  "byteLength n = length (beBytes n)"

text \<open>\<open>bn.toArrayLike(Buffer)\<close> and \<open>bn.toArrayLike(Buffer, 'be')\<close>: no length is asked
  for, so the buffer has \<open>max 1 byteLength\<close> bytes (zero is the single byte 0).\<close>

definition toArrayLike :: "nat \<Rightarrow> Buffer" where
  "toArrayLike n =
     (let bl = byteLength n; reqLength = max 1 bl
      in replicate (reqLength - bl) 0 @ beBytes n)"

text \<open>\<open>bn.toArrayLike(Buffer, 'be', len)\<close>: left-padded to \<open>len\<close> bytes; the library
  asserts that the number fits.\<close>

definition toArrayLikeLen :: "nat \<Rightarrow> nat \<Rightarrow> ERROR + Buffer" where
  "toArrayLikeLen n len =
     (let bl = byteLength n
      in if bl \<le> len then Inr (replicate (len - bl) 0 @ beBytes n) else Inl JS_ASSERT)"

text \<open>\<open>bn.toNumber()\<close>: the library asserts that the number has at most 53 bits.\<close>

definition toNumber :: "nat \<Rightarrow> ERROR + nat" where
  "toNumber n = (if n < 2 ^ 53 then Inr n else Inl JS_ASSERT)"

text \<open>\<open>bn.notn(256)\<close> on a stack word: the low 256 bits flipped.\<close>

definition notn256 :: "nat \<Rightarrow> nat" where
  "notn256 n = MAX_INTEGER - n mod TWO_POW256"

text \<open>\<open>bn.fromTwos(256)\<close>: when bit 255 is set, \<open>-(notn(256) + 1)\<close>.\<close>

definition fromTwos :: "nat \<Rightarrow> int" where
  "fromTwos n = (if bit n 255 then - int (notn256 n + 1) else int n)"

text \<open>\<open>bn.toTwos(256)\<close>: a negative number becomes \<open>notn(256) |n| + 1\<close>.\<close>

definition toTwos :: "int \<Rightarrow> nat" where
  "toTwos i = (if i < 0 then notn256 (nat \<bar>i\<bar>) + 1 else nat i)"

text \<open>\<open>a.div(b)\<close> of the number library truncates towards zero.\<close>

definition bnDiv :: "int \<Rightarrow> int \<Rightarrow> int" where
  "bnDiv a b = sgn a * sgn b * (\<bar>a\<bar> div \<bar>b\<bar>)"

text \<open>\<open>buffer.toString('hex')\<close>: two lower-case digits per byte.\<close>

definition hexDigit :: "nat \<Rightarrow> char" where
  "hexDigit d = ''0123456789abcdef'' ! (d mod 16)"

definition toHex :: "Buffer \<Rightarrow> string" where
  "toHex bs = concat (map (\<lambda>b. [hexDigit (unat b div 16), hexDigit (unat b mod 16)]) bs)"

text \<open>\<open>new BN(str, 16)\<close>: the library asserts that every character is a hex digit.\<close>

definition hexValue :: "char \<Rightarrow> nat option" where
  "hexValue c =
     (let n = of_char c :: nat
      in if 48 \<le> n \<and> n \<le> 57 then Some (n - 48)
         else if 65 \<le> n \<and> n \<le> 70 then Some (n - 55)
         else if 97 \<le> n \<and> n \<le> 102 then Some (n - 87)
         else None)"

fun bnOfHexFrom :: "nat \<Rightarrow> string \<Rightarrow> ERROR + nat" where
  "bnOfHexFrom acc [] = Inr acc"
| "bnOfHexFrom acc (c # cs) =
     (case hexValue c of None \<Rightarrow> Inl JS_ASSERT | Some d \<Rightarrow> bnOfHexFrom (acc * 16 + d) cs)"

definition bnOfHex :: "string \<Rightarrow> ERROR + nat" where
  "bnOfHex str = bnOfHexFrom 0 str"

text \<open>\<open>setLengthRight(buf, n)\<close> and \<open>setLengthLeft(buf, n)\<close> of the utility library:
  zero-padded on that side up to \<open>n\<close> bytes, and cut to \<open>n\<close> bytes when longer.\<close>

definition setLengthRight :: "Buffer \<Rightarrow> nat \<Rightarrow> Buffer" where
  "setLengthRight buf n =
     (if length buf < n then buf @ replicate (n - length buf) 0 else take n buf)"

definition setLengthLeft :: "Buffer \<Rightarrow> nat \<Rightarrow> Buffer" where
  "setLengthLeft buf n =
     (if length buf < n then replicate (n - length buf) 0 @ buf
      else drop (length buf - n) buf)"

text \<open>\<open>buffer.slice(start, end)\<close> with \<open>0 \<le> start \<le> end\<close>: both ends are clamped to
  the buffer, so a slice that runs past the end is shorter than asked.\<close>

definition slice :: "Buffer \<Rightarrow> nat \<Rightarrow> nat \<Rightarrow> Buffer" where
  "slice buf start end = take (end - start) (drop start buf)"

section \<open>Run state and environment\<close>

text \<open>One call of \<open>vcm.computeFunctionCounters(name, params)\<close>: the counter's name and
  the fields of the object literal it was given, in the order they are written.\<close>

datatype pval = PBool bool | PNum nat

record Counter =
  fname :: string
  params :: "(string \<times> pval) list"

text \<open>The calls of the environment interface (EEI) that change something outside the
  run state, with their arguments. The gas limit of a sub-call is
  \<open>runState.messageGasLimit\<close>, which may be undefined.\<close>

datatype eei_call =
    StorageStore Buffer Buffer
  | Log Buffer nat "Buffer list"
  | Finish Buffer
  | Revert Buffer
  | SelfDestruct Buffer
  | Create "nat option" nat Buffer
  | Create2 "nat option" nat Buffer Buffer
  | Call "nat option" Buffer nat Buffer nat
  | CallCode "nat option" Buffer nat Buffer nat
  | CallDelegate "nat option" Buffer nat Buffer nat
  | CallStatic "nat option" Buffer nat Buffer nat

text \<open>What a sub-call gives back: \<open>{returnCode, results}\<close>, and the return data the
  EEI exposes afterwards through \<open>getReturnData\<close>.\<close>

record 'r call_ret =
  returnCode :: nat
  results :: 'r
  lastReturned :: Buffer

text \<open>
  The frame environment (\<open>runState.eei._env\<close>), the answers of the EEI and of the
  external libraries during one handler invocation, the chain parameter the handlers
  read, and the helpers of \<open>./util\<close> whose bodies the spec does not describe
  (\<open>getDataSlice\<close>, which may fail, \<open>addressToBuffer\<close>, and the precomputed jump
  bitmaps behind \<open>jumpIsValid\<close> and \<open>jumpSubIsValid\<close>) are parameters of the model.
\<close>

record 'r Env =
  isCreate :: bool
  isDeploy :: bool
  isStatic :: bool
  depth :: nat
  contractNonce :: nat
  getAddress :: Buffer
  getTxOrigin :: nat
  getCaller :: nat
  getCallValue :: nat
  getCallData :: Buffer
  getCode :: Buffer
  getTxGasPrice :: nat
  getChainId :: nat
  getSelfBalance :: nat
  getBlockCoinbase :: nat
  getBlockTimestamp :: nat
  getBlockDifficulty :: nat
  getBlockGasLimit :: nat
  getBlockBaseFee :: nat
  getBlockNum :: nat
  getBatchHash :: "nat \<Rightarrow> nat"
  getExternalBalance :: "Buffer \<Rightarrow> nat"
  getExternalCode :: "nat \<Rightarrow> Buffer"
  getExternalCodeSize :: "nat \<Rightarrow> nat"
  storageLoad :: "Buffer \<Rightarrow> Buffer"
  subCall :: "eei_call \<Rightarrow> 'r call_ret"
  keccak256 :: "Buffer \<Rightarrow> Buffer"
  hashContractBytecode :: "string \<Rightarrow> string"
  expByte :: nat
  getDataSlice :: "Buffer \<Rightarrow> nat \<Rightarrow> nat \<Rightarrow> ERROR + Buffer"
  addressToBuffer :: "nat \<Rightarrow> Buffer"
  jumpIsValid :: "nat \<Rightarrow> bool"
  jumpSubIsValid :: "nat \<Rightarrow> bool"

text \<open>The mutable run state of a frame. \<open>stack\<close> has its top first; \<open>vcm\<close> and
  \<open>eeiCalls\<close> grow at the end, in the order of the calls. \<open>gasLeft\<close> and
  \<open>returnData\<close> are the two pieces of EEI state the handlers read back.\<close>

record RunState =
  stack :: "nat list"
  memory :: Buffer
  memoryWordCount :: nat
  programCounter :: nat
  opCode :: nat
  returnStack :: "nat list"
  messageGasLimit :: "nat option"
  vcm :: "Counter list"
  gasLeft :: nat
  returnData :: Buffer
  eeiCalls :: "eei_call list"

section \<open>Handlers as state transformers that may trap\<close>

text \<open>A JavaScript exception leaves every mutation made before it in place, so a
  computation returns the state together with either the trap or its value.\<close>

type_synonym 'a M = "RunState \<Rightarrow> (ERROR + 'a) \<times> RunState"

definition returnM :: "'a \<Rightarrow> 'a M" where
  "returnM x = (\<lambda>s. (Inr x, s))"

definition trap :: "ERROR \<Rightarrow> 'a M" where
  "trap e = (\<lambda>s. (Inl e, s))"

definition bindM :: "'a M \<Rightarrow> ('a \<Rightarrow> 'b M) \<Rightarrow> 'b M" where
  "bindM m f = (\<lambda>s. case m s of (Inl e, s') \<Rightarrow> (Inl e, s') | (Inr x, s') \<Rightarrow> f x s')"

definition thenM :: "unit M \<Rightarrow> 'b M \<Rightarrow> 'b M" where
  "thenM m k = bindM m (\<lambda>_. k)"

definition liftE :: "ERROR + 'a \<Rightarrow> 'a M" where
  "liftE r = (\<lambda>s. (r, s))"

definition whenM :: "bool \<Rightarrow> unit M \<Rightarrow> unit M" where
  "whenM c m = (if c then m else returnM ())"

definition getS :: "(RunState \<Rightarrow> 'a) \<Rightarrow> 'a M" where
  "getS f = (\<lambda>s. (Inr (f s), s))"

definition modifyS :: "(RunState \<Rightarrow> RunState) \<Rightarrow> unit M" where
  "modifyS f = (\<lambda>s. (Inr (), f s))"

subsection \<open>Virtual counters\<close>

definition computeFunctionCounters :: "string \<Rightarrow> (string \<times> pval) list \<Rightarrow> unit M" where
  "computeFunctionCounters name ps =
     modifyS (\<lambda>s. s\<lparr>vcm := vcm s @ [\<lparr>fname = name, params = ps\<rparr>]\<rparr>)"

text \<open>The two fields every self-counter carries:
  \<open>isCreate: runState.eei._env.isCreate, isDeploy: runState.eei._env.isDeploy\<close>.\<close>

definition envFlags :: "'r Env \<Rightarrow> (string \<times> pval) list" where
  "envFlags env = [(''isCreate'', PBool (isCreate env)), (''isDeploy'', PBool (isDeploy env))]"

subsection \<open>Stack\<close>

text \<open>Modelled from the spec: the stack class is not among the sources. \<open>push\<close> fails
  with stack overflow when it would exceed depth 1024; \<open>pop\<close> and \<open>popN k\<close> fail with
  stack underflow when fewer than \<open>k\<close> items are there, and \<open>popN\<close> returns the items
  top first; \<open>dup n\<close> duplicates the \<open>n\<close>-th element from the top; \<open>swap n\<close> swaps the
  top with the \<open>(n+1)\<close>-th.\<close>

definition push :: "nat \<Rightarrow> unit M" where
  "push v = (\<lambda>s. if 1024 \<le> length (stack s) then (Inl STACK_OVERFLOW, s)
                  else (Inr (), s\<lparr>stack := v # stack s\<rparr>))"

definition popN :: "nat \<Rightarrow> nat list M" where
  "popN k = (\<lambda>s. if length (stack s) < k then (Inl STACK_UNDERFLOW, s)
                  else (Inr (take k (stack s)), s\<lparr>stack := drop k (stack s)\<rparr>))"

definition pop :: "nat M" where
  "pop = (\<lambda>s. case stack s of [] \<Rightarrow> (Inl STACK_UNDERFLOW, s)
                 | v # rest \<Rightarrow> (Inr v, s\<lparr>stack := rest\<rparr>))"

definition dup :: "nat \<Rightarrow> unit M" where
  "dup n = (\<lambda>s. if n = 0 \<or> length (stack s) < n then (Inl STACK_UNDERFLOW, s)
                 else push (stack s ! (n - 1)) s)"

definition swap :: "nat \<Rightarrow> unit M" where
  "swap n = (\<lambda>s. if n = 0 \<or> length (stack s) \<le> n then (Inl STACK_UNDERFLOW, s)
                  else (Inr (), s\<lparr>stack := (stack s)[0 := stack s ! n, n := stack s ! 0]\<rparr>))"

subsection \<open>Memory\<close>

text \<open>Modelled from the spec: the memory class is not among the sources.
  \<open>extend offset length\<close> rounds \<open>offset + length\<close> up to the next multiple of 32 and
  grows the buffer with zero bytes; \<open>read offset length\<close> returns that slice, zero-padded
  beyond the current size; \<open>write offset length data\<close> overwrites.\<close>

definition memExtend :: "nat \<Rightarrow> nat \<Rightarrow> unit M" where
  "memExtend offset len =
     modifyS (\<lambda>s. let newSize = ((offset + len + 31) div 32) * 32
                  in if length (memory s) < newSize
                     then s\<lparr>memory := memory s @ replicate (newSize - length (memory s)) 0\<rparr>
                     else s)"

definition memRead :: "nat \<Rightarrow> nat \<Rightarrow> Buffer M" where
  "memRead offset len = getS (\<lambda>s. setLengthRight (slice (memory s) offset (offset + len)) len)"

definition memWrite :: "nat \<Rightarrow> nat \<Rightarrow> Buffer \<Rightarrow> unit M" where
  "memWrite offset len data =
     modifyS (\<lambda>s. s\<lparr>memory := take offset (memory s) @ take len data
                                  @ drop (offset + len) (memory s)\<rparr>)"

subsection \<open>Environment calls\<close>

text \<open>Modelled from the spec: \<open>useGas\<close> is a method of the EEI, which is not among the
  sources. An opcode that needs more gas than is left traps \<open>OUT_OF_GAS\<close> and all the
  remaining gas is consumed.\<close>

definition useGas :: "nat \<Rightarrow> unit M" where
  "useGas amount = (\<lambda>s. if gasLeft s < amount then (Inl OUT_OF_GAS, s\<lparr>gasLeft := 0\<rparr>)
                         else (Inr (), s\<lparr>gasLeft := gasLeft s - amount\<rparr>))"

text \<open>Modelled from the spec: \<open>storageStore\<close> and \<open>log\<close> are methods of the EEI, which
  is not among the sources. They are side effects on the world outside the run state:
  the call is appended to \<open>eeiCalls\<close> and the handler goes on.\<close>

definition eeiDo :: "eei_call \<Rightarrow> unit M" where
  "eeiDo c = modifyS (\<lambda>s. s\<lparr>eeiCalls := eeiCalls s @ [c]\<rparr>)"

text \<open>Modelled from the spec: \<open>finish\<close>, \<open>revert\<close> and \<open>selfDestruct\<close> are methods of the
  EEI, which is not among the sources. \<open>RETURN\<close> hands its data to the EEI as success
  return data and \<open>REVERT\<close> as failure return data, \<open>SELFDESTRUCT\<close> queues the
  beneficiary, and each terminates the frame: the call is appended to \<open>eeiCalls\<close> and
  the frame halts, with \<open>STOP\<close> for the two successes and \<open>REVERT\<close> for the failure.\<close>

definition eeiFinish :: "Buffer \<Rightarrow> unit M" where
  "eeiFinish returnData' =
     (\<lambda>s. (Inl STOP, s\<lparr>eeiCalls := eeiCalls s @ [Finish returnData']\<rparr>))"

definition eeiRevert :: "Buffer \<Rightarrow> unit M" where
  "eeiRevert returnData' =
     (\<lambda>s. (Inl REVERT, s\<lparr>eeiCalls := eeiCalls s @ [Revert returnData']\<rparr>))"

definition eeiSelfDestruct :: "Buffer \<Rightarrow> unit M" where
  "eeiSelfDestruct toAddress =
     (\<lambda>s. (Inl STOP, s\<lparr>eeiCalls := eeiCalls s @ [SelfDestruct toAddress]\<rparr>))"

text \<open>Modelled from the spec: \<open>create\<close>, \<open>create2\<close>, \<open>call\<close>, \<open>callCode\<close>, \<open>callDelegate\<close>
  and \<open>callStatic\<close> are methods of the EEI, which is not among the sources. Each
  returns \<open>{returnCode, results}\<close>; a failing sub-call never traps in the caller. The
  sub-call is appended to \<open>eeiCalls\<close>, its answer comes from the environment, and the
  return data the EEI exposes is replaced by the sub-call's.\<close>

definition eeiSubCall :: "'r Env \<Rightarrow> eei_call \<Rightarrow> 'r call_ret M" where
  "eeiSubCall env c =
     (\<lambda>s. (Inr (subCall env c),
           s\<lparr>eeiCalls := eeiCalls s @ [c], returnData := lastReturned (subCall env c)\<rparr>))"

text \<open>Modelled from the spec: \<open>writeCallOutput\<close> is a helper of \<open>./util\<close>, which is not
  among the sources. It writes up to \<open>outLength\<close> bytes of the sub-call's return data
  into memory at \<open>outOffset\<close>, truncating if necessary.\<close>

definition writeCallOutput :: "nat \<Rightarrow> nat \<Rightarrow> unit M" where
  "writeCallOutput outOffset outLength =
     bindM (getS returnData) (\<lambda>rd.
     whenM (0 < length rd)
       (bindM (liftE (toNumber outOffset)) (\<lambda>memOffset.
        bindM (liftE (toNumber outLength)) (\<lambda>outLen.
        let dataLength = min outLen (length rd) in
        thenM (memExtend memOffset dataLength)
              (memWrite memOffset dataLength (take dataLength rd))))))"

type_synonym 'r handler = "'r Env \<Rightarrow> 'r option M"

section \<open>The opcode handlers\<close>

text \<open>Each handler follows its source function statement by statement. \<open>const [a, b] =
  runState.stack.popN(2)\<close> reads the items of the returned list by index. A handler
  that returns nothing gives \<open>None\<close>; the call and create handlers return
  \<open>ret.results\<close>.\<close>

definition retVoid :: "'r option M" where
  "retVoid = returnM None"

definition pushRet :: "nat \<Rightarrow> 'r option M" where
  "pushRet r = thenM (push r) retVoid"

subsection \<open>0x00 range: arithmetic\<close>

definition op_STOP :: "'r handler" where
  "op_STOP env =
     thenM (computeFunctionCounters ''opStop'' (envFlags env))
           (trap STOP)"

definition op_ADD :: "'r handler" where
  "op_ADD env =
     thenM (computeFunctionCounters ''opAdd'' (envFlags env))
    (bindM (popN 2) (\<lambda>xs. let a = xs ! 0; b = xs ! 1;
                               r = (a + b) mod TWO_POW256
                           in pushRet r))"

definition op_MUL :: "'r handler" where
  "op_MUL env =
     thenM (computeFunctionCounters ''opMul'' (envFlags env))
    (bindM (popN 2) (\<lambda>xs. let a = xs ! 0; b = xs ! 1;
                               r = (a * b) mod TWO_POW256
                           in pushRet r))"

definition op_SUB :: "'r handler" where
  "op_SUB env =
     thenM (computeFunctionCounters ''opSub'' (envFlags env))
    (bindM (popN 2) (\<lambda>xs. let a = xs ! 0; b = xs ! 1;
                               r = toTwos (int a - int b)
                           in pushRet r))"

definition op_DIV :: "'r handler" where
  "op_DIV env =
     thenM (computeFunctionCounters ''opDiv'' (envFlags env))
    (bindM (popN 2) (\<lambda>xs. let a = xs ! 0; b = xs ! 1;
                               r = (if b = 0 then b else a div b)
                           in pushRet r))"

definition op_SDIV :: "'r handler" where
  "op_SDIV env =
     thenM (computeFunctionCounters ''opSDiv'' (envFlags env))
    (bindM (popN 2) (\<lambda>xs. let a = xs ! 0; b = xs ! 1;
                               r = (if b = 0 then b
                                    else toTwos (bnDiv (fromTwos a) (fromTwos b)))
                           in pushRet r))"

definition op_MOD :: "'r handler" where
  "op_MOD env =
     thenM (computeFunctionCounters ''opMod'' (envFlags env))
    (bindM (popN 2) (\<lambda>xs. let a = xs ! 0; b = xs ! 1;
                               r = (if b = 0 then b else a mod b)
                           in pushRet r))"

definition op_SMOD :: "'r handler" where
  "op_SMOD env =
     thenM (computeFunctionCounters ''opSMod'' (envFlags env))
    (bindM (popN 2) (\<lambda>xs. let a = xs ! 0; b = xs ! 1;
                               r = (if b = 0 then b
                                    else let a' = fromTwos a; b' = fromTwos b;
                                             m = \<bar>a'\<bar> mod \<bar>b'\<bar>
                                         in toTwos (if a' < 0 then - m else m))
                           in pushRet r))"

definition op_ADDMOD :: "'r handler" where
  "op_ADDMOD env =
     thenM (computeFunctionCounters ''opAddMod'' (envFlags env))
    (bindM (popN 3) (\<lambda>xs. let a = xs ! 0; b = xs ! 1; c = xs ! 2;
                               r = (if c = 0 then c else (a + b) mod c)
                           in pushRet r))"

definition op_MULMOD :: "'r handler" where
  "op_MULMOD env =
     thenM (computeFunctionCounters ''opMulMod'' (envFlags env))
    (bindM (popN 3) (\<lambda>xs. let a = xs ! 0; b = xs ! 1; c = xs ! 2;
                               r = (if c = 0 then c else (a * b) mod c)
                           in pushRet r))"

definition op_EXP :: "'r handler" where
  "op_EXP env =
     bindM (popN 2) (\<lambda>xs. let base = xs ! 0; exponent = xs ! 1 in
     thenM (computeFunctionCounters ''opExp''
              ((''bytesExponentLength'', PNum (length (toArrayLike exponent))) # envFlags env))
       (if exponent = 0 then pushRet 1
        else let bl = byteLength exponent in
          thenM (whenM (bl < 1 \<or> 32 < bl) (trap OUT_OF_RANGE))
         (let gasPrice = expByte env; amount = bl * gasPrice in
          thenM (useGas amount)
            (if base = 0 then pushRet 0
             else pushRet ((base mod TWO_POW256) ^ exponent mod TWO_POW256)))))"

definition op_SIGNEXTEND :: "'r handler" where
  "op_SIGNEXTEND env =
     thenM (computeFunctionCounters ''opSignExtend'' (envFlags env))
    (bindM (popN 2) (\<lambda>xs. let k = xs ! 0; val = xs ! 1 in
       if k < 31
       then let signBit = k * 8 + 7; mask = 2 ^ signBit - 1
            in if bit val signBit then pushRet (val OR notn256 mask)
               else pushRet (val AND mask)
       else pushRet val))"

subsection \<open>0x10 range: comparison and bit operations\<close>

definition op_LT :: "'r handler" where
  "op_LT env =
     thenM (computeFunctionCounters ''opLT'' (envFlags env))
    (bindM (popN 2) (\<lambda>xs. let a = xs ! 0; b = xs ! 1
                           in pushRet (if a < b then 1 else 0)))"

definition op_GT :: "'r handler" where
  "op_GT env =
     thenM (computeFunctionCounters ''opGT'' (envFlags env))
    (bindM (popN 2) (\<lambda>xs. let a = xs ! 0; b = xs ! 1
                           in pushRet (if b < a then 1 else 0)))"

definition op_SLT :: "'r handler" where
  "op_SLT env =
     thenM (computeFunctionCounters ''opSLT'' (envFlags env))
    (bindM (popN 2) (\<lambda>xs. let a = xs ! 0; b = xs ! 1
                           in pushRet (if fromTwos a < fromTwos b then 1 else 0)))"

definition op_SGT :: "'r handler" where
  "op_SGT env =
     thenM (computeFunctionCounters ''opSGT'' (envFlags env))
    (bindM (popN 2) (\<lambda>xs. let a = xs ! 0; b = xs ! 1
                           in pushRet (if fromTwos b < fromTwos a then 1 else 0)))"

definition op_EQ :: "'r handler" where
  "op_EQ env =
     thenM (computeFunctionCounters ''opEq'' (envFlags env))
    (bindM (popN 2) (\<lambda>xs. let a = xs ! 0; b = xs ! 1
                           in pushRet (if a = b then 1 else 0)))"

definition op_ISZERO :: "'r handler" where
  "op_ISZERO env =
     thenM (computeFunctionCounters ''opIsZero'' (envFlags env))
    (bindM pop (\<lambda>a. pushRet (if a = 0 then 1 else 0)))"

definition op_AND :: "'r handler" where
  "op_AND env =
     thenM (computeFunctionCounters ''opAnd'' (envFlags env))
    (bindM (popN 2) (\<lambda>xs. let a = xs ! 0; b = xs ! 1 in pushRet (a AND b)))"

definition op_OR :: "'r handler" where
  "op_OR env =
     thenM (computeFunctionCounters ''opOr'' (envFlags env))
    (bindM (popN 2) (\<lambda>xs. let a = xs ! 0; b = xs ! 1 in pushRet (a OR b)))"

definition op_XOR :: "'r handler" where
  "op_XOR env =
     thenM (computeFunctionCounters ''opXor'' (envFlags env))
    (bindM (popN 2) (\<lambda>xs. let a = xs ! 0; b = xs ! 1 in pushRet (a XOR b)))"

definition op_NOT :: "'r handler" where
  "op_NOT env =
     thenM (computeFunctionCounters ''opNot'' (envFlags env))
    (bindM pop (\<lambda>a. pushRet (notn256 a)))"

definition op_BYTE :: "'r handler" where
  "op_BYTE env =
     thenM (computeFunctionCounters ''opByte'' (envFlags env))
    (bindM (popN 2) (\<lambda>xs. let pos = xs ! 0; word = xs ! 1 in
       if 32 \<le> pos then pushRet 0
       else bindM (liftE (toNumber pos)) (\<lambda>posNum.
            pushRet (drop_bit ((31 - posNum) * 8) word AND 255))))"

definition op_SHL :: "'r handler" where
  "op_SHL env =
     thenM (computeFunctionCounters ''opSHL'' (envFlags env))
    (bindM (popN 2) (\<lambda>xs. let a = xs ! 0; b = xs ! 1 in
       if 256 \<le> a then pushRet 0
       else bindM (liftE (toNumber a)) (\<lambda>aNum.
            pushRet (push_bit aNum b AND MAX_INTEGER))))"

definition op_SHR :: "'r handler" where
  "op_SHR env =
     thenM (computeFunctionCounters ''opSHR'' (envFlags env))
    (bindM (popN 2) (\<lambda>xs. let a = xs ! 0; b = xs ! 1 in
       if 256 \<le> a then pushRet 0
       else bindM (liftE (toNumber a)) (\<lambda>aNum.
            pushRet (drop_bit aNum b))))"

definition op_SAR :: "'r handler" where
  "op_SAR env =
     thenM (computeFunctionCounters ''opSAR'' (envFlags env))
    (bindM (popN 2) (\<lambda>xs. let a = xs ! 0; b = xs ! 1;
                               isSigned = bit b 255 in
       if 256 \<le> a then pushRet (if isSigned then MAX_INTEGER else 0)
       else bindM (liftE (toNumber a)) (\<lambda>aNum.
            let c = drop_bit aNum b in
            if isSigned
            then let shiftedOutWidth = 255 - aNum;
                     mask = push_bit shiftedOutWidth (drop_bit shiftedOutWidth MAX_INTEGER)
                 in pushRet (c OR mask)
            else pushRet c)))"

subsection \<open>0x20 and 0x30 ranges: hashing and closure state\<close>

text \<open>The sizes the EEI reports are the lengths of the buffers it holds.\<close>

definition getCallDataSize :: "'r Env \<Rightarrow> nat" where
  "getCallDataSize env = length (getCallData env)"

definition getCodeSize :: "'r Env \<Rightarrow> nat" where
  "getCodeSize env = length (getCode env)"

text \<open>The pattern \<open>let data = Buffer.alloc(0); if (!length.isZero()) data =
  runState.memory.read(offset.toNumber(), length.toNumber())\<close> of the handlers that
  read a memory slice.\<close>

definition readSlice :: "nat \<Rightarrow> nat \<Rightarrow> Buffer M" where
  "readSlice offset len =
     (if len \<noteq> 0
      then bindM (liftE (toNumber offset)) (\<lambda>offsetNum.
           bindM (liftE (toNumber len)) (\<lambda>lenNum. memRead offsetNum lenNum))
      else returnM [])"

text \<open>The common end of the four copy handlers: \<open>extend\<close> then \<open>write\<close> at
  \<open>memOffset.toNumber()\<close> with \<open>dataLength.toNumber()\<close>.\<close>

definition writeCopied :: "nat \<Rightarrow> nat \<Rightarrow> Buffer \<Rightarrow> unit M" where
  "writeCopied memOffset dataLength data =
     bindM (liftE (toNumber memOffset)) (\<lambda>memOffsetNum.
     bindM (liftE (toNumber dataLength)) (\<lambda>dataLengthNum.
     thenM (memExtend memOffsetNum dataLengthNum)
           (memWrite memOffsetNum dataLengthNum data)))"

definition op_SHA3 :: "'r handler" where
  "op_SHA3 env =
     bindM (popN 2) (\<lambda>xs. let offset = xs ! 0; len = xs ! 1 in
     bindM (liftE (toNumber len)) (\<lambda>inputSize.
     thenM (computeFunctionCounters ''opSha3''
              ((''inputSize'', PNum inputSize) # envFlags env))
    (bindM (readSlice offset len) (\<lambda>data.
     pushRet (bnOfBuffer (keccak256 env data))))))"

definition op_ADDRESS :: "'r handler" where
  "op_ADDRESS env =
     thenM (computeFunctionCounters ''opAddress'' (envFlags env))
           (pushRet (bnOfBuffer (getAddress env)))"

definition op_BALANCE :: "'r handler" where
  "op_BALANCE env =
     thenM (computeFunctionCounters ''opBalance'' (envFlags env))
    (bindM pop (\<lambda>addressBN.
       let address = addressToBuffer env addressBN;
           balance = getExternalBalance env address
       in pushRet balance))"

definition op_ORIGIN :: "'r handler" where
  "op_ORIGIN env =
     thenM (computeFunctionCounters ''opOrigin'' (envFlags env))
           (pushRet (getTxOrigin env))"

definition op_CALLER :: "'r handler" where
  "op_CALLER env =
     thenM (computeFunctionCounters ''opCaller'' (envFlags env))
           (pushRet (getCaller env))"

definition op_CALLVALUE :: "'r handler" where
  "op_CALLVALUE env =
     thenM (computeFunctionCounters ''opCallValue'' (envFlags env))
           (pushRet (getCallValue env))"

definition op_CALLDATALOAD :: "'r handler" where
  "op_CALLDATALOAD env =
     thenM (computeFunctionCounters ''opCalldataLoad'' (envFlags env))
    (bindM pop (\<lambda>pos.
       if getCallDataSize env < pos then pushRet 0
       else bindM (liftE (toNumber pos)) (\<lambda>i.
            let loaded = slice (getCallData env) i (i + 32);
                loaded' = (if length loaded \<noteq> 0 then loaded else [0]);
                r = bnOfBuffer (setLengthRight loaded' 32)
            in pushRet r)))"

definition op_CALLDATASIZE :: "'r handler" where
  "op_CALLDATASIZE env =
     thenM (computeFunctionCounters ''opCalldataSize'' (envFlags env))
           (pushRet (getCallDataSize env))"

definition op_CALLDATACOPY :: "'r handler" where
  "op_CALLDATACOPY env =
     bindM (popN 3) (\<lambda>xs. let memOffset = xs ! 0; dataOffset = xs ! 1; dataLength = xs ! 2 in
       if dataLength \<noteq> 0
       then bindM (liftE (getDataSlice env (getCallData env) dataOffset dataLength)) (\<lambda>data.
            thenM (computeFunctionCounters ''opCalldataCopy''
                     ((''inputSize'', PNum (length data)) # envFlags env))
           (thenM (writeCopied memOffset dataLength data) retVoid))
       else retVoid)"

definition op_CODESIZE :: "'r handler" where
  "op_CODESIZE env =
     thenM (computeFunctionCounters ''opCodeSize'' (envFlags env))
           (pushRet (getCodeSize env))"

definition op_CODECOPY :: "'r handler" where
  "op_CODECOPY env =
     bindM (popN 3) (\<lambda>xs. let memOffset = xs ! 0; codeOffset = xs ! 1; dataLength = xs ! 2 in
       if dataLength \<noteq> 0
       then bindM (liftE (getDataSlice env (getCode env) codeOffset dataLength)) (\<lambda>data.
            thenM (computeFunctionCounters ''opCodeCopy''
                     ((''inputSize'', PNum (length data)) # envFlags env))
           (thenM (writeCopied memOffset dataLength data) retVoid))
       else retVoid)"

definition op_EXTCODESIZE :: "'r handler" where
  "op_EXTCODESIZE env =
     thenM (computeFunctionCounters ''opExtCodeSize'' (envFlags env))
    (bindM pop (\<lambda>addressBN.
       let size = getExternalCodeSize env addressBN in pushRet size))"

definition op_EXTCODECOPY :: "'r handler" where
  "op_EXTCODECOPY env =
     bindM (popN 4) (\<lambda>xs. let addressBN = xs ! 0; memOffset = xs ! 1;
                               codeOffset = xs ! 2; dataLength = xs ! 3 in
       if dataLength \<noteq> 0
       then let code = getExternalCode env addressBN in
            bindM (liftE (getDataSlice env code codeOffset dataLength)) (\<lambda>data.
            thenM (computeFunctionCounters ''opExtCodeCopy''
                     ((''inputSize'', PNum (length data))
                      # (''bytecodeLen'', PNum (length code)) # envFlags env))
           (thenM (writeCopied memOffset dataLength data) retVoid))
       else retVoid)"

text \<open>\<open>smtUtils.hashContractBytecode\<close> is given the code as a hex string and answers
  with a hex string that starts with \<open>0x\<close>; \<open>lpCode.slice(2)\<close> drops the prefix.\<close>

definition op_EXTCODEHASH :: "'r handler" where
  "op_EXTCODEHASH env =
     thenM (computeFunctionCounters ''opExtCodeHash'' (envFlags env))
    (bindM pop (\<lambda>addressBN.
       let code = getExternalCode env addressBN in
       if length code = 0 then pushRet 0
       else let lpCode = hashContractBytecode env (toHex code) in
            bindM (liftE (bnOfHex (drop 2 lpCode))) (\<lambda>h. pushRet h)))"

definition op_RETURNDATASIZE :: "'r handler" where
  "op_RETURNDATASIZE env =
     thenM (computeFunctionCounters ''opReturnDataSize'' (envFlags env))
    (bindM (getS returnData) (\<lambda>rd. pushRet (length rd)))"

definition op_RETURNDATACOPY :: "'r handler" where
  "op_RETURNDATACOPY env =
     bindM (popN 3) (\<lambda>xs. let memOffset = xs ! 0; returnDataOffset = xs ! 1;
                               dataLength = xs ! 2 in
       if dataLength \<noteq> 0
       then bindM (getS returnData) (\<lambda>rd.
            bindM (liftE (getDataSlice env rd returnDataOffset dataLength)) (\<lambda>data.
            thenM (computeFunctionCounters ''opReturnDataCopy''
                     ((''inputSize'', PNum (length data)) # envFlags env))
           (thenM (writeCopied memOffset dataLength data) retVoid)))
       else retVoid)"

definition op_GASPRICE :: "'r handler" where
  "op_GASPRICE env =
     thenM (computeFunctionCounters ''opGasPrice'' (envFlags env))
           (pushRet (getTxGasPrice env))"

subsection \<open>0x40 range: block operations\<close>

definition op_BLOCKHASH :: "'r handler" where
  "op_BLOCKHASH env =
     thenM (computeFunctionCounters ''opBlockHash'' (envFlags env))
    (bindM pop (\<lambda>number.
       let hash = getBatchHash env number in pushRet hash))"

definition op_COINBASE :: "'r handler" where
  "op_COINBASE env =
     thenM (computeFunctionCounters ''opCoinbase'' (envFlags env))
           (pushRet (getBlockCoinbase env))"

definition op_TIMESTAMP :: "'r handler" where
  "op_TIMESTAMP env =
     thenM (computeFunctionCounters ''opTimestamp'' (envFlags env))
           (pushRet (getBlockTimestamp env))"

definition op_NUMBER :: "'r handler" where
  "op_NUMBER env =
     thenM (computeFunctionCounters ''opNumber'' (envFlags env))
           (let num = getBlockNum env in pushRet num)"

definition op_DIFFICULTY :: "'r handler" where
  "op_DIFFICULTY env =
     thenM (computeFunctionCounters ''opDifficulty'' (envFlags env))
           (pushRet (getBlockDifficulty env))"

definition op_GASLIMIT :: "'r handler" where
  "op_GASLIMIT env =
     thenM (computeFunctionCounters ''opGasLimit'' (envFlags env))
           (pushRet (getBlockGasLimit env))"

definition op_CHAINID :: "'r handler" where
  "op_CHAINID env =
     thenM (computeFunctionCounters ''opChainId'' (envFlags env))
           (pushRet (getChainId env))"

definition op_SELFBALANCE :: "'r handler" where
  "op_SELFBALANCE env =
     thenM (computeFunctionCounters ''opSelfBalance'' (envFlags env))
           (pushRet (getSelfBalance env))"

definition op_BASEFEE :: "'r handler" where
  "op_BASEFEE env =
     thenM (computeFunctionCounters ''opBaseFee'' (envFlags env))
           (pushRet (getBlockBaseFee env))"

subsection \<open>0x50 range: storage and execution\<close>

definition op_POP :: "'r handler" where
  "op_POP env =
     thenM (computeFunctionCounters ''opPop'' (envFlags env))
    (bindM pop (\<lambda>_. retVoid))"

definition op_MLOAD :: "'r handler" where
  "op_MLOAD env =
     thenM (computeFunctionCounters ''opMLoad'' (envFlags env))
    (bindM pop (\<lambda>pos.
     bindM (liftE (toNumber pos)) (\<lambda>posNum.
     bindM (memRead posNum 32) (\<lambda>word.
     pushRet (bnOfBuffer word)))))"

definition op_MSTORE :: "'r handler" where
  "op_MSTORE env =
     thenM (computeFunctionCounters ''opMStore'' (envFlags env))
    (bindM (popN 2) (\<lambda>xs. let offset = xs ! 0; word = xs ! 1 in
     bindM (liftE (toArrayLikeLen word 32)) (\<lambda>buf.
     bindM (liftE (toNumber offset)) (\<lambda>offsetNum.
     thenM (memExtend offsetNum 32)
    (thenM (memWrite offsetNum 32 buf) retVoid)))))"

definition op_MSTORE8 :: "'r handler" where
  "op_MSTORE8 env =
     thenM (computeFunctionCounters ''opMStore8'' (envFlags env))
    (bindM (popN 2) (\<lambda>xs. let offset = xs ! 0; byte = xs ! 1;
                               buf = [word_of_nat (byte AND 255)] in
     bindM (liftE (toNumber offset)) (\<lambda>offsetNum.
     thenM (memExtend offsetNum 1)
    (thenM (memWrite offsetNum 1 buf) retVoid))))"

definition op_SLOAD :: "'r handler" where
  "op_SLOAD env =
     thenM (computeFunctionCounters ''opSLoad'' (envFlags env))
    (bindM pop (\<lambda>key.
     bindM (liftE (toArrayLikeLen key 32)) (\<lambda>keyBuf.
       let value = storageLoad env keyBuf;
           valueBN = (if length value \<noteq> 0 then bnOfBuffer value else 0)
       in pushRet valueBN)))"

definition op_SSTORE :: "'r handler" where
  "op_SSTORE env =
     thenM (computeFunctionCounters ''opSStore'' (envFlags env))
    (bindM (popN 2) (\<lambda>xs. let key = xs ! 0; val = xs ! 1 in
     bindM (liftE (toArrayLikeLen key 32)) (\<lambda>keyBuf.
       let value = (if val = 0 then [] else toArrayLike val)
       in thenM (eeiDo (StorageStore keyBuf value)) retVoid)))"

definition op_JUMP :: "'r handler" where
  "op_JUMP env =
     thenM (computeFunctionCounters ''opJump'' (envFlags env))
    (bindM pop (\<lambda>dest.
     thenM (whenM (getCodeSize env < dest) (trap INVALID_JUMP))
    (bindM (liftE (toNumber dest)) (\<lambda>destNum.
     thenM (whenM (\<not> jumpIsValid env destNum) (trap INVALID_JUMP))
    (thenM (modifyS (\<lambda>s. s\<lparr>programCounter := destNum\<rparr>)) retVoid)))))"

definition op_JUMPI :: "'r handler" where
  "op_JUMPI env =
     thenM (computeFunctionCounters ''opJumpI'' (envFlags env))
    (bindM (popN 2) (\<lambda>xs. let dest = xs ! 0; cond = xs ! 1 in
       if cond \<noteq> 0
       then thenM (whenM (getCodeSize env < dest) (trap INVALID_JUMP))
           (bindM (liftE (toNumber dest)) (\<lambda>destNum.
            thenM (whenM (\<not> jumpIsValid env destNum) (trap INVALID_JUMP))
           (thenM (modifyS (\<lambda>s. s\<lparr>programCounter := destNum\<rparr>)) retVoid)))
       else retVoid))"

text \<open>The dispatcher has advanced the program counter past the opcode, so it is at
  least 1 when a handler runs.\<close>

definition op_PC :: "'r handler" where
  "op_PC env =
     thenM (computeFunctionCounters ''opPC'' (envFlags env))
    (bindM (getS programCounter) (\<lambda>pc. pushRet (pc - 1)))"

definition op_MSIZE :: "'r handler" where
  "op_MSIZE env =
     thenM (computeFunctionCounters ''opMSize'' (envFlags env))
    (bindM (getS memoryWordCount) (\<lambda>wc. pushRet (wc * 32)))"

definition op_GAS :: "'r handler" where
  "op_GAS env =
     thenM (computeFunctionCounters ''opGas'' (envFlags env))
    (bindM (getS gasLeft) (\<lambda>g. pushRet g))"

definition op_JUMPDEST :: "'r handler" where
  "op_JUMPDEST env =
     thenM (computeFunctionCounters ''opJumpDest'' (envFlags env)) retVoid"

definition op_BEGINSUB :: "'r handler" where
  "op_BEGINSUB env = trap INVALID_BEGINSUB"

text \<open>The return stack has its top first. Modelled from the spec: it is bounded at
  1023 entries.\<close>

definition op_RETURNSUB :: "'r handler" where
  "op_RETURNSUB env =
     bindM (getS returnStack) (\<lambda>rs.
       case rs of
         [] \<Rightarrow> trap INVALID_RETURNSUB
       | dest # rest \<Rightarrow>
           thenM (modifyS (\<lambda>s. s\<lparr>returnStack := rest\<rparr>))
          (bindM (liftE (toNumber dest)) (\<lambda>destNum.
           thenM (modifyS (\<lambda>s. s\<lparr>programCounter := destNum\<rparr>)) retVoid)))"

definition op_JUMPSUB :: "'r handler" where
  "op_JUMPSUB env =
     bindM pop (\<lambda>dest.
     thenM (whenM (getCodeSize env < dest) (trap INVALID_JUMPSUB))
    (bindM (liftE (toNumber dest)) (\<lambda>destNum.
     thenM (whenM (\<not> jumpSubIsValid env destNum) (trap INVALID_JUMPSUB))
    (bindM (getS returnStack) (\<lambda>rs.
     thenM (whenM (1023 \<le> length rs) (trap STACK_OVERFLOW))
    (thenM (modifyS (\<lambda>s. s\<lparr>returnStack := programCounter s # returnStack s,
                            programCounter := destNum + 1\<rparr>)) retVoid))))))"

definition op_PUSH0 :: "'r handler" where
  "op_PUSH0 env =
     thenM (computeFunctionCounters ''opPush0'' (envFlags env)) (pushRet 0)"

subsection \<open>The PUSH, DUP, SWAP and LOG families\<close>

text \<open>One function serves a whole family and reads \<open>runState.opCode\<close>, which the
  dispatcher has set to the opcode it fetched, to find the member.\<close>

definition op_PUSH :: "'r handler" where
  "op_PUSH env =
     bindM (getS opCode) (\<lambda>oc. let numToPush = oc - 0x5f in
     thenM (computeFunctionCounters ''_opPush''
              ((''pushBytes'', PNum numToPush) # envFlags env))
    (bindM (getS programCounter) (\<lambda>pc.
       let loaded = bnOfBuffer (slice (getCode env) pc (pc + numToPush)) in
       thenM (modifyS (\<lambda>s. s\<lparr>programCounter := programCounter s + numToPush\<rparr>))
             (pushRet loaded))))"

definition op_DUP :: "'r handler" where
  "op_DUP env =
     thenM (computeFunctionCounters ''_opDup'' (envFlags env))
    (bindM (getS opCode) (\<lambda>oc. let stackPos = oc - 0x7f in
     thenM (dup stackPos) retVoid))"

definition op_SWAP :: "'r handler" where
  "op_SWAP env =
     thenM (computeFunctionCounters ''_opSwap'' (envFlags env))
    (bindM (getS opCode) (\<lambda>oc. let stackPos = oc - 0x8f in
     thenM (swap stackPos) retVoid))"

fun mapE :: "('a \<Rightarrow> ERROR + 'b) \<Rightarrow> 'a list \<Rightarrow> ERROR + 'b list" where
  "mapE f [] = Inr []"
| "mapE f (x # xs) =
     (case f x of Inl e \<Rightarrow> Inl e
      | Inr y \<Rightarrow> (case mapE f xs of Inl e \<Rightarrow> Inl e | Inr ys \<Rightarrow> Inr (y # ys)))"

definition op_LOG :: "'r handler" where
  "op_LOG env =
     bindM (popN 2) (\<lambda>xs. let memOffset = xs ! 0; memLength = xs ! 1 in
     bindM (liftE (toNumber memLength)) (\<lambda>inputSize.
     thenM (computeFunctionCounters ''_opLog''
              ((''inputSize'', PNum inputSize) # envFlags env))
    (bindM (getS opCode) (\<lambda>oc. let topicsCount = oc - 0xa0 in
     bindM (popN topicsCount) (\<lambda>topics.
     bindM (liftE (mapE (\<lambda>a. toArrayLikeLen a 32) topics)) (\<lambda>topicsBuf.
     bindM (readSlice memOffset memLength) (\<lambda>mem.
     thenM (eeiDo (Log mem topicsCount topicsBuf)) retVoid)))))))"

subsection \<open>0xf0 range: closures\<close>

text \<open>The object literal every call and create handler gives to
  \<open>_processContractCall\<close>.\<close>

definition processContractCallParams :: "nat \<Rightarrow> bool \<Rightarrow> bool \<Rightarrow> bool \<Rightarrow> (string \<times> pval) list" where
  "processContractCallParams bytecodeLength isDeploy' isCreate' isCreate2' =
     [(''bytecodeLength'', PNum bytecodeLength), (''isDeploy'', PBool isDeploy'),
      (''isCreate'', PBool isCreate'), (''isCreate2'', PBool isCreate2')]"

text \<open>\<open>const gasLimit = runState.messageGasLimit!; runState.messageGasLimit =
  undefined\<close>.\<close>

definition takeMessageGasLimit :: "nat option M" where
  "takeMessageGasLimit =
     (\<lambda>s. (Inr (messageGasLimit s), s\<lparr>messageGasLimit := None\<rparr>))"

definition op_CREATE :: "'r handler" where
  "op_CREATE env =
     bindM (popN 3) (\<lambda>xs. let value = xs ! 0; offset = xs ! 1; len = xs ! 2 in
     thenM (computeFunctionCounters ''opCreate''
              ((''bytesNonceLength'', PNum (length (toArrayLike (contractNonce env + 1))))
               # envFlags env))
    (bindM (liftE (toNumber len)) (\<lambda>bytecodeLength.
     thenM (computeFunctionCounters ''_processContractCall''
              (processContractCallParams bytecodeLength False True False))
    (bindM takeMessageGasLimit (\<lambda>gasLimit.
     bindM (readSlice offset len) (\<lambda>data.
     bindM (eeiSubCall env (Create gasLimit value data)) (\<lambda>ret.
     thenM (push (returnCode ret))
           (returnM (Some (results ret))))))))))"

definition op_CREATE2 :: "'r handler" where
  "op_CREATE2 env =
     thenM (whenM (isStatic env) (trap STATIC_STATE_CHANGE))
    (bindM (popN 4) (\<lambda>xs. let value = xs ! 0; offset = xs ! 1; len = xs ! 2; salt = xs ! 3 in
     thenM (computeFunctionCounters ''opCreate2''
              ((''bytesNonceLength'', PNum (length (toArrayLike (contractNonce env + 1))))
               # envFlags env))
    (bindM (liftE (toNumber len)) (\<lambda>bytecodeLength.
     thenM (computeFunctionCounters ''_processContractCall''
              (processContractCallParams bytecodeLength False False True))
    (bindM takeMessageGasLimit (\<lambda>gasLimit.
     bindM (readSlice offset len) (\<lambda>data.
     bindM (liftE (toArrayLikeLen salt 32)) (\<lambda>saltBuf.
     bindM (eeiSubCall env (Create2 gasLimit value data saltBuf)) (\<lambda>ret.
     thenM (push (returnCode ret))
           (returnM (Some (results ret))))))))))))"

definition op_CALL :: "'r handler" where
  "op_CALL env =
     thenM (computeFunctionCounters ''opCall'' (envFlags env))
    (bindM (popN 7) (\<lambda>xs. let toAddr = xs ! 1; value = xs ! 2; inOffset = xs ! 3;
                               inLength = xs ! 4; outOffset = xs ! 5; outLength = xs ! 6;
                               toAddress = addressToBuffer env toAddr;
                               bytecodeLength = getExternalCodeSize env toAddr in
     bindM (liftE (toNumber bytecodeLength)) (\<lambda>bytecodeLengthNum.
     thenM (computeFunctionCounters ''_processContractCall''
              (processContractCallParams bytecodeLengthNum False False False))
    (bindM (readSlice inOffset inLength) (\<lambda>data.
     bindM takeMessageGasLimit (\<lambda>gasLimit.
     bindM (eeiSubCall env (Call gasLimit toAddress value data outLength)) (\<lambda>ret.
     thenM (writeCallOutput outOffset outLength)
    (thenM (push (returnCode ret))
           (returnM (Some (results ret)))))))))))"

definition op_CALLCODE :: "'r handler" where
  "op_CALLCODE env =
     thenM (computeFunctionCounters ''opCallCode'' (envFlags env))
    (bindM (popN 7) (\<lambda>xs. let toAddr = xs ! 1; value = xs ! 2; inOffset = xs ! 3;
                               inLength = xs ! 4; outOffset = xs ! 5; outLength = xs ! 6;
                               toAddress = addressToBuffer env toAddr;
                               bytecodeLength = getExternalCodeSize env toAddr in
     bindM (liftE (toNumber bytecodeLength)) (\<lambda>bytecodeLengthNum.
     thenM (computeFunctionCounters ''_processContractCall''
              (processContractCallParams bytecodeLengthNum False False False))
    (bindM takeMessageGasLimit (\<lambda>gasLimit.
     bindM (readSlice inOffset inLength) (\<lambda>data.
     bindM (eeiSubCall env (CallCode gasLimit toAddress value data outLength)) (\<lambda>ret.
     thenM (writeCallOutput outOffset outLength)
    (thenM (push (returnCode ret))
           (returnM (Some (results ret)))))))))))"

definition op_DELEGATECALL :: "'r handler" where
  "op_DELEGATECALL env =
     thenM (computeFunctionCounters ''opDelegateCall'' (envFlags env))
    (let value = getCallValue env in
     bindM (popN 6) (\<lambda>xs. let toAddr = xs ! 1; inOffset = xs ! 2; inLength = xs ! 3;
                               outOffset = xs ! 4; outLength = xs ! 5;
                               toAddress = addressToBuffer env toAddr;
                               bytecodeLength = getExternalCodeSize env toAddr in
     bindM (liftE (toNumber bytecodeLength)) (\<lambda>bytecodeLengthNum.
     thenM (computeFunctionCounters ''_processContractCall''
              (processContractCallParams bytecodeLengthNum False False False))
    (bindM (readSlice inOffset inLength) (\<lambda>data.
     bindM takeMessageGasLimit (\<lambda>gasLimit.
     bindM (eeiSubCall env (CallDelegate gasLimit toAddress value data outLength)) (\<lambda>ret.
     thenM (writeCallOutput outOffset outLength)
    (thenM (push (returnCode ret))
           (returnM (Some (results ret)))))))))))"

definition op_STATICCALL :: "'r handler" where
  "op_STATICCALL env =
     thenM (computeFunctionCounters ''opStaticCall'' (envFlags env))
    (let value = 0 in
     bindM (popN 6) (\<lambda>xs. let toAddr = xs ! 1; inOffset = xs ! 2; inLength = xs ! 3;
                               outOffset = xs ! 4; outLength = xs ! 5;
                               toAddress = addressToBuffer env toAddr;
                               bytecodeLength = getExternalCodeSize env toAddr in
     bindM (liftE (toNumber bytecodeLength)) (\<lambda>bytecodeLengthNum.
     thenM (computeFunctionCounters ''_processContractCall''
              (processContractCallParams bytecodeLengthNum False False False))
    (bindM takeMessageGasLimit (\<lambda>gasLimit.
     bindM (readSlice inOffset inLength) (\<lambda>data.
     bindM (eeiSubCall env (CallStatic gasLimit toAddress value data outLength)) (\<lambda>ret.
     thenM (writeCallOutput outOffset outLength)
    (thenM (push (returnCode ret))
           (returnM (Some (results ret)))))))))))"

definition op_RETURN :: "'r handler" where
  "op_RETURN env =
     bindM (popN 2) (\<lambda>xs. let offset = xs ! 0; len = xs ! 1 in
     bindM (liftE (toNumber len)) (\<lambda>returnLength.
     thenM (computeFunctionCounters ''opReturn''
              ((''returnLength'', PNum returnLength) # envFlags env
               @ [(''depth'', PNum (depth env))]))
    (bindM (readSlice offset len) (\<lambda>returnData'.
     thenM (eeiFinish returnData') retVoid))))"

definition op_REVERT :: "'r handler" where
  "op_REVERT env =
     bindM (popN 2) (\<lambda>xs. let offset = xs ! 0; len = xs ! 1 in
     bindM (liftE (toNumber len)) (\<lambda>revertSize.
     thenM (computeFunctionCounters ''opRevert''
              ((''revertSize'', PNum revertSize) # envFlags env))
    (bindM (readSlice offset len) (\<lambda>returnData'.
     thenM (eeiRevert returnData') retVoid))))"

definition op_SELFDESTRUCT :: "'r handler" where
  "op_SELFDESTRUCT env =
     thenM (computeFunctionCounters ''opSendAll'' (envFlags env))
    (bindM pop (\<lambda>selfdestructToAddressBN.
       let selfdestructToAddress = addressToBuffer env selfdestructToAddressBN
       in thenM (eeiSelfDestruct selfdestructToAddress) retVoid))"

section \<open>The handler table\<close>

text \<open>The entries of \<open>new Map([...])\<close>, in the order of the source.\<close>

definition handlers_init :: "(nat \<times> 'r handler) list" where
  "handlers_init =
     [(0x00, op_STOP), (0x01, op_ADD), (0x02, op_MUL), (0x03, op_SUB), (0x04, op_DIV),
      (0x05, op_SDIV), (0x06, op_MOD), (0x07, op_SMOD), (0x08, op_ADDMOD),
      (0x09, op_MULMOD), (0x0a, op_EXP), (0x0b, op_SIGNEXTEND),
      (0x10, op_LT), (0x11, op_GT), (0x12, op_SLT), (0x13, op_SGT), (0x14, op_EQ),
      (0x15, op_ISZERO), (0x16, op_AND), (0x17, op_OR), (0x18, op_XOR), (0x19, op_NOT),
      (0x1a, op_BYTE), (0x1b, op_SHL), (0x1c, op_SHR), (0x1d, op_SAR),
      (0x20, op_SHA3),
      (0x30, op_ADDRESS), (0x31, op_BALANCE), (0x32, op_ORIGIN), (0x33, op_CALLER),
      (0x34, op_CALLVALUE), (0x35, op_CALLDATALOAD), (0x36, op_CALLDATASIZE),
      (0x37, op_CALLDATACOPY), (0x38, op_CODESIZE), (0x39, op_CODECOPY),
      (0x3b, op_EXTCODESIZE), (0x3c, op_EXTCODECOPY), (0x3f, op_EXTCODEHASH),
      (0x3d, op_RETURNDATASIZE), (0x3e, op_RETURNDATACOPY), (0x3a, op_GASPRICE),
      (0x40, op_BLOCKHASH), (0x41, op_COINBASE), (0x42, op_TIMESTAMP), (0x43, op_NUMBER),
      (0x44, op_DIFFICULTY), (0x45, op_GASLIMIT), (0x46, op_CHAINID),
      (0x47, op_SELFBALANCE), (0x48, op_BASEFEE),
      (0x50, op_POP), (0x51, op_MLOAD), (0x52, op_MSTORE), (0x53, op_MSTORE8),
      (0x54, op_SLOAD), (0x55, op_SSTORE), (0x56, op_JUMP), (0x57, op_JUMPI),
      (0x58, op_PC), (0x59, op_MSIZE), (0x5a, op_GAS), (0x5b, op_JUMPDEST),
      (0x5c, op_BEGINSUB), (0x5d, op_RETURNSUB), (0x5e, op_JUMPSUB), (0x5f, op_PUSH0),
      (0x60, op_PUSH), (0x80, op_DUP), (0x90, op_SWAP), (0xa0, op_LOG),
      (0xf0, op_CREATE), (0xf5, op_CREATE2), (0xf1, op_CALL), (0xf2, op_CALLCODE),
      (0xf4, op_DELEGATECALL), (0xfa, op_STATICCALL), (0xf3, op_RETURN),
      (0xfd, op_REVERT), (0xff, op_SELFDESTRUCT)]"

text \<open>\<open>const fn = handlers.get(base)!; for (let i = lo; i <= hi; i++) handlers.set(i,
  fn)\<close>: every opcode of the range gets the handler of the family's first member.\<close>

definition fillFamily :: "nat \<Rightarrow> nat list \<Rightarrow> (nat \<rightharpoonup> 'r handler) \<Rightarrow> (nat \<rightharpoonup> 'r handler)" where
  "fillFamily base codes m =
     (case m base of None \<Rightarrow> m | Some fn \<Rightarrow> fold (\<lambda>i m'. m'(i \<mapsto> fn)) codes m)"

definition handlers :: "nat \<rightharpoonup> 'r handler" where
  "handlers =
     fillFamily 0xa0 [0xa1 ..< 0xa5]
    (fillFamily 0x90 [0x91 ..< 0xa0]
    (fillFamily 0x80 [0x81 ..< 0x90]
    (fillFamily 0x60 [0x61 ..< 0x80]
    (map_of handlers_init))))"

section \<open>The P-256 verification precompile\<close>

text \<open>What the precompile reads: \<open>opts.data\<close> and \<open>opts.gasLimit\<close>.\<close>

record PrecompileInput =
  inputData :: Buffer
  gasLimit :: nat

record ExecResult =
  gasUsed :: nat
  returnValue :: Buffer
  exceptionError :: "ERROR option"

text \<open>
  The parameters of the precompile: the chain parameter \<open>gasPrices.p256verify\<close>; the
  curve library, as one function from a public key \<open>{x, y}\<close>, a message hash and a
  signature \<open>{r, s}\<close> (all hex strings) to the answer of \<open>ec.keyFromPublic(key,
  'hex').verify(msgHash, signature)\<close>, \<open>None\<close> when the library throws; and
  \<open>OOGResult\<close>, which is defined outside the sources.
\<close>

record P256Env =
  p256verifyGas :: nat
  ecVerify :: "string \<times> string \<Rightarrow> string \<Rightarrow> string \<times> string \<Rightarrow> bool option"
  OOGResult :: "nat \<Rightarrow> ExecResult"

text \<open>\<open>function verifyP256Signature(msgHash, r, s, pubKeyX, pubKeyY)\<close>; \<open>None\<close>
  stands for a thrown error.\<close>

definition verifyP256Signature ::
  "P256Env \<Rightarrow> Buffer \<Rightarrow> Buffer \<Rightarrow> Buffer \<Rightarrow> Buffer \<Rightarrow> Buffer \<Rightarrow> bool option" where
  "verifyP256Signature penv msgHash r s pubKeyX pubKeyY =
     (if length pubKeyX \<noteq> 32 \<or> length pubKeyY \<noteq> 32 \<or> length r \<noteq> 32
         \<or> length s \<noteq> 32 \<or> length msgHash \<noteq> 32
      then None
      else let key = (toHex pubKeyX, toHex pubKeyY);
               signature = (toHex r, toHex s)
           in ecVerify penv key (toHex msgHash) signature)"

text \<open>The default export. The call is \<open>verifyP256Signature(pubKeyX, pubKeyY, r, s,
  msg)\<close>, with the arguments in this order.\<close>

definition p256verify :: "P256Env \<Rightarrow> PrecompileInput \<Rightarrow> ExecResult" where
  "p256verify penv opts =
     (let gasUsed' = p256verifyGas penv in
      if gasLimit opts < gasUsed' then OOGResult penv (gasLimit opts)
      else
        let data = setLengthRight (inputData opts) 160;
            msg = slice data 0 32;
            r = slice data 32 64;
            s = slice data 64 96;
            pubKeyX = slice data 96 128;
            pubKeyY = slice data 128 160
        in case verifyP256Signature penv pubKeyX pubKeyY r s msg of
             None \<Rightarrow> \<lparr>gasUsed = gasUsed', returnValue = [], exceptionError = None\<rparr>
           | Some isValid \<Rightarrow>
               \<lparr>gasUsed = gasUsed',
                returnValue = (if isValid then setLengthLeft [1] 32 else []),
                exceptionError = None\<rparr>)"

section \<open>A sample frame\<close>

text \<open>A concrete environment and run state on which the handlers can be evaluated:
  an ordinary (non-static, non-create) frame with an empty stack and memory. The
  helper \<open>getDataSlice\<close> cuts the slice and pads it with zeros on the right;
  \<open>addressToBuffer\<close> gives the low 20 bytes.\<close>

definition env0 :: "unit Env" where
  "env0 = \<lparr>
     isCreate = False, isDeploy = False, isStatic = False, depth = 0, contractNonce = 0,
     getAddress = [], getTxOrigin = 0, getCaller = 0, getCallValue = 0,
     getCallData = [], getCode = [], getTxGasPrice = 0, getChainId = 0,
     getSelfBalance = 0, getBlockCoinbase = 0, getBlockTimestamp = 0,
     getBlockDifficulty = 0, getBlockGasLimit = 0, getBlockBaseFee = 0, getBlockNum = 0,
     getBatchHash = (\<lambda>_. 0), getExternalBalance = (\<lambda>_. 0),
     getExternalCode = (\<lambda>_. []), getExternalCodeSize = (\<lambda>_. 0),
     storageLoad = (\<lambda>_. []),
     subCall = (\<lambda>_. \<lparr>returnCode = 1, results = (), lastReturned = []\<rparr>),
     keccak256 = (\<lambda>_. []), hashContractBytecode = (\<lambda>_. ''0x''), expByte = 50,
     getDataSlice = (\<lambda>buf offset len.
        Inr (setLengthRight (slice buf offset (offset + len)) len)),
     addressToBuffer = (\<lambda>a. setLengthLeft (beBytes (a mod 2 ^ 160)) 20),
     jumpIsValid = (\<lambda>_. False), jumpSubIsValid = (\<lambda>_. False)\<rparr>"

definition s0 :: RunState where
  "s0 = \<lparr>stack = [], memory = [], memoryWordCount = 0, programCounter = 1, opCode = 0,
          returnStack = [], messageGasLimit = None, vcm = [], gasLeft = 1000000,
          returnData = [], eeiCalls = []\<rparr>"

section \<open>A sample precompile call\<close>

text \<open>
  A 160-byte input that carries a valid P-256 signature: the message hash is 1, the
  public key is the base point \<open>G\<close> of the curve (private key 1), and with nonce 1 the
  signature is \<open>r = G\<^sub>x\<close>, \<open>s = 1 + r\<close> (both below the group order).
\<close>

definition sample_msgHash :: Buffer where
  "sample_msgHash = replicate 31 0 @ [1]"

definition sample_r :: Buffer where
  "sample_r =
     [0x6b, 0x17, 0xd1, 0xf2, 0xe1, 0x2c, 0x42, 0x47,
      0xf8, 0xbc, 0xe6, 0xe5, 0x63, 0xa4, 0x40, 0xf2,
      0x77, 0x03, 0x7d, 0x81, 0x2d, 0xeb, 0x33, 0xa0,
      0xf4, 0xa1, 0x39, 0x45, 0xd8, 0x98, 0xc2, 0x96]"

definition sample_s :: Buffer where
  "sample_s =
     [0x6b, 0x17, 0xd1, 0xf2, 0xe1, 0x2c, 0x42, 0x47,
      0xf8, 0xbc, 0xe6, 0xe5, 0x63, 0xa4, 0x40, 0xf2,
      0x77, 0x03, 0x7d, 0x81, 0x2d, 0xeb, 0x33, 0xa0,
      0xf4, 0xa1, 0x39, 0x45, 0xd8, 0x98, 0xc2, 0x97]"

definition sample_pubKeyX :: Buffer where
  "sample_pubKeyX =
     [0x6b, 0x17, 0xd1, 0xf2, 0xe1, 0x2c, 0x42, 0x47,
      0xf8, 0xbc, 0xe6, 0xe5, 0x63, 0xa4, 0x40, 0xf2,
      0x77, 0x03, 0x7d, 0x81, 0x2d, 0xeb, 0x33, 0xa0,
      0xf4, 0xa1, 0x39, 0x45, 0xd8, 0x98, 0xc2, 0x96]"

definition sample_pubKeyY :: Buffer where
  "sample_pubKeyY =
     [0x4f, 0xe3, 0x42, 0xe2, 0xfe, 0x1a, 0x7f, 0x9b,
      0x8e, 0xe7, 0xeb, 0x4a, 0x7c, 0x0f, 0x9e, 0x16,
      0x2b, 0xce, 0x33, 0x57, 0x6b, 0x31, 0x5e, 0xce,
      0xcb, 0xb6, 0x40, 0x68, 0x37, 0xbf, 0x51, 0xf5]"

definition sample_input :: Buffer where
  "sample_input = sample_msgHash @ sample_r @ sample_s @ sample_pubKeyX @ sample_pubKeyY"

text \<open>A stand-in for the curve library that knows this one signature: it answers
  \<open>true\<close> for the sample key, hash and signature and \<open>false\<close> for anything else.
  The gas price is 3450, and \<open>OOGResult\<close> uses up the gas limit.\<close>

definition penv0 :: P256Env where
  "penv0 = \<lparr>
     p256verifyGas = 3450,
     ecVerify = (\<lambda>key msgHash signature.
        Some (key = (toHex sample_pubKeyX, toHex sample_pubKeyY)
              \<and> msgHash = toHex sample_msgHash
              \<and> signature = (toHex sample_r, toHex sample_s))),
     OOGResult = (\<lambda>g. \<lparr>gasUsed = g, returnValue = [],
                         exceptionError = Some OUT_OF_GAS\<rparr>)\<rparr>"

text \<open>The counter a handler records for itself: its name with the two flags of the
  frame.\<close>

definition selfCounter :: "string \<Rightarrow> 'r Env \<Rightarrow> Counter" where
  "selfCounter name env = \<lparr>fname = name, params = envFlags env\<rparr>"

section \<open>What the handlers record\<close>

text \<open>The \<open>{isCreate, isDeploy}\<close> pair stored with a counter: the two fields of its
  parameter object, when they are there.\<close>

definition counterFlags :: "Counter \<Rightarrow> pval option \<times> pval option" where
  "counterFlags c = (map_of (params c) ''isCreate'', map_of (params c) ''isDeploy'')"

text \<open>The flags a counter carries by design: a self-counter has the two flags of the
  frame environment; a \<open>_processContractCall\<close> counter describes the sub-call instead,
  with \<open>isDeploy\<close> false and \<open>isCreate\<close> as given by \<open>subCreate\<close>.\<close>

definition flagsAsDesigned :: "'r Env \<Rightarrow> bool \<Rightarrow> Counter \<Rightarrow> bool" where
  "flagsAsDesigned env subCreate c =
     (if fname c = ''_processContractCall''
      then counterFlags c = (Some (PBool subCreate), Some (PBool False))
      else counterFlags c = (Some (PBool (isCreate env)), Some (PBool (isDeploy env))))"

text \<open>A computation only appends counters to \<open>vcm\<close>, whether it returns or traps, and
  every counter it appends satisfies \<open>G\<close>.\<close>

definition recordsOnly :: "(Counter \<Rightarrow> bool) \<Rightarrow> 'a M \<Rightarrow> bool" where
  "recordsOnly G m \<longleftrightarrow> (\<forall>s. \<exists>cs. vcm (snd (m s)) = vcm s @ cs \<and> list_all G cs)"

text \<open>A computation that never touches \<open>vcm\<close> and traps with nothing but a code of \<open>X\<close>.\<close>

definition quiet :: "ERROR set \<Rightarrow> 'a M \<Rightarrow> bool" where
  "quiet X m \<longleftrightarrow> (\<forall>s. vcm (snd (m s)) = vcm s \<and> (\<forall>e. fst (m s) = Inl e \<longrightarrow> e \<in> X))"

text \<open>Whether the computation returns or traps, it has appended counters to \<open>vcm\<close>
  whose names, put after \<open>pre\<close>, make up \<open>ns\<close> up to a remainder \<open>rest\<close> that was not
  recorded; the remainder is empty unless the computation trapped with a code of \<open>E\<close>.\<close>

definition emitsAfter :: "string list \<Rightarrow> string list \<Rightarrow> ERROR set \<Rightarrow> 'a M \<Rightarrow> bool" where
  "emitsAfter pre ns E m \<longleftrightarrow>
     (\<forall>s r s'. m s = (r, s') \<longrightarrow>
        (\<exists>cs rest. vcm s' = vcm s @ cs \<and> pre @ map fname cs @ rest = ns
                  \<and> (rest = [] \<or> (\<exists>e. r = Inl e \<and> e \<in> E))))"

text \<open>The \<open>k\<close>-th word from the top of the stack (0 when the stack is shorter).\<close>

definition operand :: "nat \<Rightarrow> RunState \<Rightarrow> nat" where
  "operand k s = (if k < length (stack s) then stack s ! k else 0)"

text \<open>The call family and the create family: \<open>CREATE\<close>, \<open>CALL\<close>, \<open>CALLCODE\<close>,
  \<open>DELEGATECALL\<close>, \<open>CREATE2\<close>, \<open>STATICCALL\<close>.\<close>

definition isCallOrCreate :: "nat \<Rightarrow> bool" where
  "isCallOrCreate op \<longleftrightarrow> op \<in> {0xf0, 0xf1, 0xf2, 0xf4, 0xf5, 0xfa}"

text \<open>The number of counters an opcode records: none for the sub-procedure opcodes
  \<open>BEGINSUB\<close>, \<open>RETURNSUB\<close>, \<open>JUMPSUB\<close>; for the copy opcodes \<open>CALLDATACOPY\<close>,
  \<open>CODECOPY\<close>, \<open>RETURNDATACOPY\<close> (length operand third) and \<open>EXTCODECOPY\<close> (length
  operand fourth) none when the length is zero and one otherwise; two for the call
  and create families; one for every other opcode.\<close>

definition expectedCounters :: "nat \<Rightarrow> RunState \<Rightarrow> nat" where
  "expectedCounters op s =
     (if op \<in> {0x5c, 0x5d, 0x5e} then 0
      else if op \<in> {0x37, 0x39, 0x3e} then (if operand 2 s = 0 then 0 else 1)
      else if op = 0x3c then (if operand 3 s = 0 then 0 else 1)
      else if isCallOrCreate op then 2
      else 1)"

text \<open>The traps a handler can raise before it has recorded all its counters. \<open>EXP\<close>
  pops its two operands first. \<open>SHA3\<close>, \<open>RETURN\<close>, \<open>REVERT\<close> and \<open>LOG\<close> pop two operands
  and convert the length with \<open>toNumber\<close> first. \<open>CREATE\<close> pops before its self-counter
  and converts the length before \<open>_processContractCall\<close>; the call handlers pop and
  convert the code size between their two counters; \<open>CREATE2\<close> tests the static flag
  before anything else. The copy handlers pop and cut the slice with \<open>getDataSlice\<close>
  (a helper that is not among the sources, so any trap is allowed for) first. Every
  other handler records its counter as its first statement.\<close>

definition earlyTraps :: "nat \<Rightarrow> ERROR set" where
  "earlyTraps op =
     (if op = 0x0a then {STACK_UNDERFLOW}
      else if op \<in> {0x20, 0xf0, 0xf1, 0xf2, 0xf3, 0xf4, 0xfa, 0xfd} \<or> (0xa0 \<le> op \<and> op \<le> 0xa4)
        then {STACK_UNDERFLOW, JS_ASSERT}
      else if op = 0xf5 then {STATIC_STATE_CHANGE, STACK_UNDERFLOW, JS_ASSERT}
      else if op \<in> {0x37, 0x39, 0x3c, 0x3e} then UNIV
      else {})"

text \<open>Whether a handler returns or traps, it has appended exactly the expected number
  of counters, or fewer when it trapped with one of its early traps; the first
  counter of a call or create handler is its self-counter and the second is
  \<open>_processContractCall\<close>.\<close>

definition countsAsDesigned :: "nat \<Rightarrow> 'r handler \<Rightarrow> bool" where
  "countsAsDesigned op h \<longleftrightarrow>
     (\<forall>env s r s'. h env s = (r, s') \<longrightarrow>
        (\<exists>cs. vcm s' = vcm s @ cs
              \<and> (length cs = expectedCounters op s
                   \<or> (\<exists>e. r = Inl e \<and> e \<in> earlyTraps op
                           \<and> length cs < expectedCounters op s))
              \<and> (isCallOrCreate op \<longrightarrow>
                    list_all (\<lambda>c. fname c \<noteq> ''_processContractCall'') (take 1 cs)
                    \<and> list_all (\<lambda>c. fname c = ''_processContractCall'') (drop 1 cs))))"

section \<open>The dispatch of an opcode\<close>




section \<open>Basic facts\<close>

lemmas monad_defs =
  thenM_def bindM_def returnM_def trap_def liftE_def whenM_def getS_def modifyS_def
  computeFunctionCounters_def push_def popN_def pop_def pushRet_def retVoid_def

lemma beBytes_0 [simp]: "beBytes 0 = []"
  by (simp add: beBytes.simps)

lemma beBytes_pos: "0 < n \<Longrightarrow> beBytes n = beBytes (n div 256) @ [word_of_nat (n mod 256)]"
  by (subst beBytes.simps) simp

lemma bnOfBuffer_snoc: "bnOfBuffer (bs @ [b]) = bnOfBuffer bs * 256 + unat b"
  by (simp add: bnOfBuffer_def)

lemma bnOfBuffer_Nil [simp]: "bnOfBuffer [] = 0"
  by (simp add: bnOfBuffer_def)

lemma unat_byte_of_mod: "unat (word_of_nat (n mod 256) :: byte) = n mod 256"
  by (simp add: unat_of_nat)

text \<open>Reading back the shortest encoding gives the number.\<close>

lemma bnOfBuffer_beBytes: "bnOfBuffer (beBytes n) = n"
proof (induction n rule: beBytes.induct)
  case (1 n)
  show ?case
  proof (cases "n = 0")
    case True
    then show ?thesis by simp
  next
    case False
    then have "bnOfBuffer (beBytes n) = bnOfBuffer (beBytes (n div 256)) * 256 + n mod 256"
      by (simp add: beBytes_pos bnOfBuffer_snoc unat_byte_of_mod)
    with False 1 show ?thesis by simp
  qed
qed

text \<open>A number needs at most \<open>k\<close> bytes exactly when it is below \<open>256 ^ k\<close>.\<close>

lemma length_beBytes_le: "length (beBytes n) \<le> k \<longleftrightarrow> n < 256 ^ k"
proof (induction n arbitrary: k rule: beBytes.induct)
  case (1 n)
  show ?case
  proof (cases "n = 0")
    case True
    then show ?thesis by simp
  next
    case False
    show ?thesis
    proof (cases k)
      case 0
      with False show ?thesis by (simp add: beBytes_pos)
    next
      case (Suc j)
      have "length (beBytes n) \<le> Suc j \<longleftrightarrow> length (beBytes (n div 256)) \<le> j"
        using False by (simp add: beBytes_pos)
      also have "\<dots> \<longleftrightarrow> n div 256 < 256 ^ j"
        using 1 [OF False] by simp
      also have "\<dots> \<longleftrightarrow> n < 256 ^ Suc j"
        by (simp add: less_mult_imp_div_less div_less_iff_less_mult mult.commute)
      finally show ?thesis using Suc by simp
    qed
  qed
qed

text \<open>The shortest encoding of a positive number does not start with a zero byte.\<close>

lemma hd_beBytes: "0 < n \<Longrightarrow> hd (beBytes n) \<noteq> 0"
proof (induction n rule: beBytes.induct)
  case (1 n)
  show ?case
  proof (cases "n div 256 = 0")
    case True
    with 1(2) have "n < 256" "n mod 256 = n" by (auto simp: div_eq_0_iff)
    with 1(2) True show ?thesis
      by (simp add: beBytes_pos unat_eq_0 [symmetric] unat_of_nat del: unat_eq_0)
  next
    case False
    then have ne: "beBytes (n div 256) \<noteq> []"
      using beBytes_pos [of "n div 256"] by simp
    have "beBytes n = beBytes (n div 256) @ [word_of_nat (n mod 256)]"
      using 1(2) by (rule beBytes_pos)
    then have "hd (beBytes n) = hd (beBytes (n div 256))"
      using ne by simp
    with 1 False show ?thesis by simp
  qed
qed

lemma bnOfBuffer_less: "bnOfBuffer bs < 256 ^ length bs"
proof (induction bs rule: rev_induct)
  case Nil
  then show ?case by simp
next
  case (snoc b bs)
  have "unat b < 256" using unsigned_less [of b] by simp
  with snoc show ?case by (simp add: bnOfBuffer_snoc)
qed

text \<open>The table after the four fill loops: every opcode of a family has the
  family's handler, every other opcode the entry of the initial map.\<close>

lemma fold_upd_apply:
  "fold (\<lambda>i m'. m'(i \<mapsto> fn)) codes m op = (if op \<in> set codes then Some fn else m op)"
  by (induction codes arbitrary: m) auto

lemma fillFamily_apply:
  "m base = Some fn \<Longrightarrow>
     fillFamily base codes m op = (if op \<in> set codes then Some fn else m op)"
  by (simp add: fillFamily_def fold_upd_apply)

lemma handlers_init_families:
  "map_of (handlers_init :: (nat \<times> 'r handler) list) 0x60 = Some op_PUSH"
  "map_of (handlers_init :: (nat \<times> 'r handler) list) 0x80 = Some op_DUP"
  "map_of (handlers_init :: (nat \<times> 'r handler) list) 0x90 = Some op_SWAP"
  "map_of (handlers_init :: (nat \<times> 'r handler) list) 0xa0 = Some op_LOG"
  by (simp_all add: handlers_init_def)

lemma handlers_apply:
  "(handlers :: nat \<rightharpoonup> 'r handler) op =
     (if 0xa1 \<le> op \<and> op < 0xa5 then Some op_LOG
      else if 0x91 \<le> op \<and> op < 0xa0 then Some op_SWAP
      else if 0x81 \<le> op \<and> op < 0x90 then Some op_DUP
      else if 0x61 \<le> op \<and> op < 0x80 then Some op_PUSH
      else map_of handlers_init op)"
proof -
  let ?m0 = "map_of (handlers_init :: (nat \<times> 'r handler) list)"
  let ?m1 = "fillFamily 0x60 [0x61 ..< 0x80] ?m0"
  let ?m2 = "fillFamily 0x80 [0x81 ..< 0x90] ?m1"
  let ?m3 = "fillFamily 0x90 [0x91 ..< 0xa0] ?m2"
  have m1: "?m1 x = (if 0x61 \<le> x \<and> x < 0x80 then Some op_PUSH else ?m0 x)" for x
    by (simp only: fillFamily_apply [where m = ?m0 and base = "0x60", OF handlers_init_families(1)] set_upt atLeastLessThan_iff)
  have b2: "?m1 0x80 = Some op_DUP"
    by (simp only: m1 handlers_init_families) simp
  have m2: "?m2 x = (if 0x81 \<le> x \<and> x < 0x90 then Some op_DUP else ?m1 x)" for x
    by (simp only: fillFamily_apply [where m = ?m1 and base = "0x80", OF b2] set_upt atLeastLessThan_iff)
  have b3: "?m2 0x90 = Some op_SWAP"
    by (simp only: m2 m1 handlers_init_families) simp
  have m3: "?m3 x = (if 0x91 \<le> x \<and> x < 0xa0 then Some op_SWAP else ?m2 x)" for x
    by (simp only: fillFamily_apply [where m = ?m2 and base = "0x90", OF b3] set_upt atLeastLessThan_iff)
  have b4: "?m3 0xa0 = Some op_LOG"
    by (simp only: m3 m2 m1 handlers_init_families) simp
  have m4: "fillFamily 0xa0 [0xa1 ..< 0xa5] ?m3 x
              = (if 0xa1 \<le> x \<and> x < 0xa5 then Some op_LOG else ?m3 x)" for x
    by (simp only: fillFamily_apply [where m = ?m3 and base = "0xa0", OF b4] set_upt atLeastLessThan_iff)
  show ?thesis
    by (simp only: handlers_def m4 m3 m2 m1)
qed

lemma handlers_push:
  assumes "0x60 \<le> op" "op \<le> 0x7f"
  shows "(handlers :: nat \<rightharpoonup> 'r handler) op = Some op_PUSH"
proof (cases "op = 0x60")
  case True
  then show ?thesis by (simp add: handlers_apply handlers_init_families)
next
  case False
  with assms show ?thesis by (simp add: handlers_apply)
qed


section \<open>Division and modulus by zero\<close>

text \<open>
  Claim C7. For all words \<open>a\<close> and \<open>b\<close>, \<open>DIV(a, 0)\<close>, \<open>MOD(a, 0)\<close>, \<open>SDIV(a, 0)\<close>,
  \<open>SMOD(a, 0)\<close>, \<open>ADDMOD(a, b, 0)\<close> and \<open>MULMOD(a, b, 0)\<close> are 0: with a zero divisor
  or modulus on the stack, each handler records its counter, pops its operands and
  pushes 0, whatever the other operands are. The stack below the operands holds fewer
  than 1024 words, as it does for every stack of at most 1024 words.
\<close>

theorem zero_divisor_pushes_zero:
  assumes "length rest < 1024"
  shows "op_DIV env (s\<lparr>stack := a # 0 # rest\<rparr>)
           = (Inr None, s\<lparr>stack := 0 # rest, vcm := vcm s @ [selfCounter ''opDiv'' env]\<rparr>)
       \<and> op_MOD env (s\<lparr>stack := a # 0 # rest\<rparr>)
           = (Inr None, s\<lparr>stack := 0 # rest, vcm := vcm s @ [selfCounter ''opMod'' env]\<rparr>)
       \<and> op_SDIV env (s\<lparr>stack := a # 0 # rest\<rparr>)
           = (Inr None, s\<lparr>stack := 0 # rest, vcm := vcm s @ [selfCounter ''opSDiv'' env]\<rparr>)
       \<and> op_SMOD env (s\<lparr>stack := a # 0 # rest\<rparr>)
           = (Inr None, s\<lparr>stack := 0 # rest, vcm := vcm s @ [selfCounter ''opSMod'' env]\<rparr>)
       \<and> op_ADDMOD env (s\<lparr>stack := a # b # 0 # rest\<rparr>)
           = (Inr None, s\<lparr>stack := 0 # rest, vcm := vcm s @ [selfCounter ''opAddMod'' env]\<rparr>)
       \<and> op_MULMOD env (s\<lparr>stack := a # b # 0 # rest\<rparr>)
           = (Inr None, s\<lparr>stack := 0 # rest, vcm := vcm s @ [selfCounter ''opMulMod'' env]\<rparr>)"
  using assms
  by (simp add: op_DIV_def op_MOD_def op_SDIV_def op_SMOD_def op_ADDMOD_def op_MULMOD_def
        monad_defs selfCounter_def)

theorem zero_divisor_pushes_zero_witness:
  "stack (snd (op_DIV env0 (s0\<lparr>stack := [7, 0]\<rparr>))) = [0]
   \<and> stack (snd (op_MOD env0 (s0\<lparr>stack := [7, 0]\<rparr>))) = [0]
   \<and> stack (snd (op_SDIV env0 (s0\<lparr>stack := [7, 0]\<rparr>))) = [0]
   \<and> stack (snd (op_SMOD env0 (s0\<lparr>stack := [7, 0]\<rparr>))) = [0]
   \<and> stack (snd (op_ADDMOD env0 (s0\<lparr>stack := [7, 5, 0]\<rparr>))) = [0]
   \<and> stack (snd (op_MULMOD env0 (s0\<lparr>stack := [7, 5, 0]\<rparr>))) = [0]"
  using zero_divisor_pushes_zero [where rest = "[]" and env = env0 and s = s0 and a = 7 and b = 5]
  by simp

section \<open>Shifts\<close>

lemma MAX_INTEGER_mask: "MAX_INTEGER = mask 256"
  by (simp add: MAX_INTEGER_def mask_eq_exp_minus_1)

lemma toNumber_small: "n < 256 \<Longrightarrow> toNumber n = Inr n"
  by (simp add: toNumber_def)

lemma not_bit_ge: "(b::nat) < 2 ^ 256 \<Longrightarrow> 256 \<le> n \<Longrightarrow> \<not> bit b n"
  by (metis bit_take_bit_iff leD take_bit_nat_eq_self)

text \<open>The value \<open>SAR\<close> computes for a shift below 256, bit by bit: the bits of \<open>b\<close>
  moved down by \<open>a\<close>, and bit 255 of \<open>b\<close> in each of the top \<open>a\<close> positions.\<close>

lemma sar_bits:
  assumes "a < 256" "b < 2 ^ 256"
  shows "bit (drop_bit a b OR (if bit b 255
                                then push_bit (255 - a) (drop_bit (255 - a) MAX_INTEGER)
                                else 0)) i
         \<longleftrightarrow> (if i < 256 - a then bit b (i + a) else i < 256 \<and> bit b 255)"
proof -
  have top: "a + i = 255" if "i < 256 - a" "255 - a \<le> i"
    using that assms by arith
  show ?thesis
    using assms not_bit_ge [of b] top
    by (auto simp add: MAX_INTEGER_mask bit_simps add.commute)
qed

text \<open>The same value is the arithmetic right shift of the 256-bit word.\<close>

lemma sar_word:
  assumes "a < 256" "b < 2 ^ 256"
  shows "drop_bit a b OR (if bit b 255
                          then push_bit (255 - a) (drop_bit (255 - a) MAX_INTEGER)
                          else 0)
         = unat (signed_drop_bit a (word_of_nat b :: 256 word))"
proof (rule bit_eqI)
  fix i
  let ?w = "word_of_nat b :: 256 word"
  have L: "LENGTH(256) = 256" by simp
  have w: "bit ?w j \<longleftrightarrow> j < 256 \<and> bit b j" for j
    by (simp only: bit_of_nat_iff possible_bit_word L)
  have u: "bit (unat x) i \<longleftrightarrow> bit x i" for x :: "256 word"
    by (simp add: bit_unsigned_iff)
  have "bit (unat (signed_drop_bit a ?w)) i
          \<longleftrightarrow> bit ?w (if 256 - a \<le> i \<and> i < 256 then 256 - 1 else a + i)"
    by (simp only: u bit_signed_drop_bit_iff L)
  also have "\<dots> \<longleftrightarrow> (if i < 256 - a then bit b (i + a) else i < 256 \<and> bit b 255)"
    using assms by (auto simp add: w add.commute)
  finally show "bit (drop_bit a b OR (if bit b 255
                          then push_bit (255 - a) (drop_bit (255 - a) MAX_INTEGER)
                          else 0)) i
          \<longleftrightarrow> bit (unat (signed_drop_bit a ?w)) i"
    using assms by (simp only: sar_bits)
qed

lemma op_SAR_small:
  assumes "length rest < 1024" "a < 256"
  shows "op_SAR env (s\<lparr>stack := a # b # rest\<rparr>)
           = (Inr None,
              s\<lparr>stack := (drop_bit a b OR (if bit b 255
                                then push_bit (255 - a) (drop_bit (255 - a) MAX_INTEGER)
                                else 0)) # rest,
                vcm := vcm s @ [selfCounter ''opSAR'' env]\<rparr>)"
  using assms
  by (simp add: op_SAR_def monad_defs selfCounter_def toNumber_small Let_def)

text \<open>
  Claim C8. For every shift amount \<open>a \<ge> 256\<close> and every word \<open>b\<close>, \<open>SHL\<close> and \<open>SHR\<close>
  push 0, and \<open>SAR\<close> pushes 0 when bit 255 of \<open>b\<close> is clear and the all-ones word
  \<open>2^256 - 1\<close> when it is set. For \<open>a < 256\<close> and a word \<open>b < 2^256\<close>, \<open>SAR\<close> pushes the
  arithmetic right shift of the 256-bit word \<open>b\<close>: bit \<open>i\<close> of the result is bit \<open>i + a\<close>
  of \<open>b\<close> below position \<open>256 - a\<close>, and the sign bit (bit 255 of \<open>b\<close>) in the top \<open>a\<close>
  positions.
\<close>

theorem shift_results:
  assumes "length rest < 1024"
  shows "(256 \<le> a \<longrightarrow>
            op_SHL env (s\<lparr>stack := a # b # rest\<rparr>)
              = (Inr None, s\<lparr>stack := 0 # rest, vcm := vcm s @ [selfCounter ''opSHL'' env]\<rparr>)
          \<and> op_SHR env (s\<lparr>stack := a # b # rest\<rparr>)
              = (Inr None, s\<lparr>stack := 0 # rest, vcm := vcm s @ [selfCounter ''opSHR'' env]\<rparr>)
          \<and> op_SAR env (s\<lparr>stack := a # b # rest\<rparr>)
              = (Inr None, s\<lparr>stack := (if bit b 255 then 2 ^ 256 - 1 else 0) # rest,
                            vcm := vcm s @ [selfCounter ''opSAR'' env]\<rparr>))
       \<and> (a < 256 \<and> b < 2 ^ 256 \<longrightarrow>
            op_SAR env (s\<lparr>stack := a # b # rest\<rparr>)
              = (Inr None,
                 s\<lparr>stack := unat (signed_drop_bit a (word_of_nat b :: 256 word)) # rest,
                   vcm := vcm s @ [selfCounter ''opSAR'' env]\<rparr>)
          \<and> (\<forall>i. bit (unat (signed_drop_bit a (word_of_nat b :: 256 word))) i
                   \<longleftrightarrow> (if i < 256 - a then bit b (i + a) else i < 256 \<and> bit b 255)))"
proof (intro conjI impI)
  assume "256 \<le> a"
  with assms show "op_SHL env (s\<lparr>stack := a # b # rest\<rparr>)
      = (Inr None, s\<lparr>stack := 0 # rest, vcm := vcm s @ [selfCounter ''opSHL'' env]\<rparr>)"
    by (simp add: op_SHL_def monad_defs selfCounter_def)
next
  assume "256 \<le> a"
  with assms show "op_SHR env (s\<lparr>stack := a # b # rest\<rparr>)
      = (Inr None, s\<lparr>stack := 0 # rest, vcm := vcm s @ [selfCounter ''opSHR'' env]\<rparr>)"
    by (simp add: op_SHR_def monad_defs selfCounter_def)
next
  assume "256 \<le> a"
  with assms show "op_SAR env (s\<lparr>stack := a # b # rest\<rparr>)
      = (Inr None, s\<lparr>stack := (if bit b 255 then 2 ^ 256 - 1 else 0) # rest,
                    vcm := vcm s @ [selfCounter ''opSAR'' env]\<rparr>)"
    by (simp add: op_SAR_def monad_defs selfCounter_def MAX_INTEGER_def)
next
  assume ab: "a < 256 \<and> b < 2 ^ 256"
  then show "op_SAR env (s\<lparr>stack := a # b # rest\<rparr>)
      = (Inr None,
         s\<lparr>stack := unat (signed_drop_bit a (word_of_nat b :: 256 word)) # rest,
           vcm := vcm s @ [selfCounter ''opSAR'' env]\<rparr>)"
    using assms op_SAR_small [where rest = rest and a = a and env = env and s = s and b = b]
      sar_word [of a b] by simp
next
  assume ab: "a < 256 \<and> b < 2 ^ 256"
  then show "\<forall>i. bit (unat (signed_drop_bit a (word_of_nat b :: 256 word))) i
                   \<longleftrightarrow> (if i < 256 - a then bit b (i + a) else i < 256 \<and> bit b 255)"
    using sar_word [of a b, symmetric] sar_bits [of a b] by simp
qed

theorem shift_results_witness:
  "stack (snd (op_SHL env0 (s0\<lparr>stack := [256, 2 ^ 255]\<rparr>))) = [0]
   \<and> stack (snd (op_SHR env0 (s0\<lparr>stack := [256, 2 ^ 255]\<rparr>))) = [0]
   \<and> stack (snd (op_SAR env0 (s0\<lparr>stack := [256, 2 ^ 255]\<rparr>))) = [2 ^ 256 - 1]
   \<and> stack (snd (op_SAR env0 (s0\<lparr>stack := [1, 2 ^ 255]\<rparr>))) = [2 ^ 255 + 2 ^ 254]"
  using shift_results [where rest = "[]" and a = 256 and b = "2 ^ 255" and env = env0 and s = s0]
        shift_results [where rest = "[]" and a = 1 and b = "2 ^ 255" and env = env0 and s = s0]
  by (simp add: bit_0)

section \<open>EXP\<close>

lemma byteLength_le_32: "n < 2 ^ 256 \<Longrightarrow> byteLength n \<le> 32"
  using length_beBytes_le [of n 32] by (simp add: byteLength_def)

lemma byteLength_eq_0 [simp]: "byteLength n = 0 \<longleftrightarrow> n = 0"
  using length_beBytes_le [of n 0] by (simp add: byteLength_def)

lemma length_toArrayLike: "length (toArrayLike n) = max 1 (byteLength n)"
  by (simp add: toArrayLike_def Let_def byteLength_def)

lemma toArrayLike_pos: "0 < n \<Longrightarrow> toArrayLike n = beBytes n"
  using byteLength_eq_0 [of n] by (simp add: toArrayLike_def Let_def max_def Suc_le_eq)

text \<open>
  Claim C4. For every base and exponent (a word below \<open>2^256\<close>), the \<open>EXP\<close> handler
  pops both operands and records the \<open>opExp\<close> counter with \<open>bytesExponentLength\<close> equal
  to the length of the exponent's byte array (at least one byte, also for exponent 0)
  before any short-circuit: the counter is there whatever happens next. Then, if the
  exponent is 0 it pushes 1; otherwise it charges \<open>byteLength exponent * expByte\<close> gas
  and, when that much gas is left, pushes 0 for base 0 and \<open>base ^ exponent mod 2^256\<close>
  for any other base. When the gas does not suffice the handler traps \<open>OUT_OF_GAS\<close>
  with both operands popped and the counter recorded.
\<close>

theorem exp_handler:
  assumes "length rest < 1024" and "exponent < 2 ^ 256"
  shows "vcm (snd (op_EXP env (s\<lparr>stack := base # exponent # rest\<rparr>)))
           = vcm s @ [\<lparr>fname = ''opExp'',
                        params = (''bytesExponentLength'', PNum (length (toArrayLike exponent)))
                                 # envFlags env\<rparr>]
       \<and> length (toArrayLike exponent) = max 1 (byteLength exponent)
       \<and> (exponent = 0 \<longrightarrow>
            fst (op_EXP env (s\<lparr>stack := base # exponent # rest\<rparr>)) = Inr None
          \<and> stack (snd (op_EXP env (s\<lparr>stack := base # exponent # rest\<rparr>))) = 1 # rest)
       \<and> (exponent \<noteq> 0 \<and> byteLength exponent * expByte env \<le> gasLeft s \<longrightarrow>
            fst (op_EXP env (s\<lparr>stack := base # exponent # rest\<rparr>)) = Inr None
          \<and> stack (snd (op_EXP env (s\<lparr>stack := base # exponent # rest\<rparr>)))
              = (if base = 0 then 0 else base ^ exponent mod 2 ^ 256) # rest)
       \<and> (exponent \<noteq> 0 \<and> gasLeft s < byteLength exponent * expByte env \<longrightarrow>
            fst (op_EXP env (s\<lparr>stack := base # exponent # rest\<rparr>)) = Inl OUT_OF_GAS
          \<and> stack (snd (op_EXP env (s\<lparr>stack := base # exponent # rest\<rparr>))) = rest)"
  using assms byteLength_le_32 [of exponent]
  by (auto simp add: op_EXP_def monad_defs useGas_def Let_def length_toArrayLike
        TWO_POW256_def power_mod)

lemma byteLength_small: "0 < n \<Longrightarrow> n < 256 \<Longrightarrow> byteLength n = 1"
  using length_beBytes_le [of n 1] length_beBytes_le [of n 0]
  by (cases "beBytes n") (auto simp add: byteLength_def)

theorem exp_handler_witness:
  "map fname (vcm (snd (op_EXP env0 (s0\<lparr>stack := [2, 0]\<rparr>)))) = [''opExp'']
   \<and> stack (snd (op_EXP env0 (s0\<lparr>stack := [2, 0]\<rparr>))) = [1]
   \<and> stack (snd (op_EXP env0 (s0\<lparr>stack := [0, 5]\<rparr>))) = [0]
   \<and> stack (snd (op_EXP env0 (s0\<lparr>stack := [2, 10]\<rparr>))) = [1024]
   \<and> fst (op_EXP env0 (s0\<lparr>stack := [2, 10], gasLeft := 49\<rparr>)) = Inl OUT_OF_GAS"
  using exp_handler [where rest = "[]" and exponent = 0 and base = 2 and env = env0 and s = s0]
        exp_handler [where rest = "[]" and exponent = 5 and base = 0 and env = env0 and s = s0]
        exp_handler [where rest = "[]" and exponent = 10 and base = 2 and env = env0 and s = s0]
        exp_handler [where rest = "[]" and exponent = 10 and base = 2 and env = env0
                       and s = "s0\<lparr>gasLeft := 49\<rparr>"]
  by (simp add: byteLength_small env0_def s0_def)

section \<open>SSTORE\<close>

lemma bnOfBuffer_foldl:
  "foldl (\<lambda>acc b. acc * 256 + unat b) acc bs = acc * 256 ^ length bs + bnOfBuffer bs"
proof (induction bs arbitrary: acc)
  case Nil
  then show ?case by simp
next
  case (Cons b bs)
  show ?case
    using Cons [of "acc * 256 + unat b"] Cons [of "unat b"]
    by (simp add: bnOfBuffer_def algebra_simps)
qed

lemma bnOfBuffer_append:
  "bnOfBuffer (xs @ ys) = bnOfBuffer xs * 256 ^ length ys + bnOfBuffer ys"
  by (simp add: bnOfBuffer_def bnOfBuffer_foldl [of "foldl _ _ _"])

lemma bnOfBuffer_Cons: "bnOfBuffer (b # bs) = unat b * 256 ^ length bs + bnOfBuffer bs"
  using bnOfBuffer_append [of "[b]" bs] by (simp add: bnOfBuffer_def)

lemma bnOfBuffer_zeros [simp]: "bnOfBuffer (replicate k 0) = 0"
  by (induction k) (simp_all add: bnOfBuffer_Cons)

lemma bnOfBuffer_pad_left: "bnOfBuffer (replicate k 0 @ bs) = bnOfBuffer bs"
  by (simp add: bnOfBuffer_append)

lemma bnOfBuffer_pad_right: "bnOfBuffer (bs @ replicate k 0) = bnOfBuffer bs * 256 ^ k"
  by (simp add: bnOfBuffer_append)

lemma beBytes_shortest: "bnOfBuffer w = n \<Longrightarrow> length (beBytes n) \<le> length w"
  using bnOfBuffer_less [of w] by (simp add: length_beBytes_le)

lemma toArrayLikeLen_32:
  assumes "key < 2 ^ 256"
  shows "\<exists>keyBuf. toArrayLikeLen key 32 = Inr keyBuf \<and> length keyBuf = 32 \<and> bnOfBuffer keyBuf = key"
  using byteLength_le_32 [OF assms]
  by (simp add: toArrayLikeLen_def Let_def bnOfBuffer_pad_left bnOfBuffer_beBytes byteLength_def)

text \<open>
  Claim C5. For every key (a word below \<open>2^256\<close>) and every value, \<open>SSTORE\<close> passes
  the value to the environment's \<open>storageStore\<close> in its shortest big-endian
  representation: the empty byte string when the value is zero, and otherwise the
  byte string that reads back as the value, does not start with a zero byte and is no
  longer than any other byte string with that value. The key is passed as 32 bytes.
\<close>

theorem sstore_shortest:
  assumes "key < 2 ^ 256"
  shows "\<exists>keyBuf value.
           op_SSTORE env (s\<lparr>stack := key # val # rest\<rparr>)
             = (Inr None, s\<lparr>stack := rest,
                           vcm := vcm s @ [selfCounter ''opSStore'' env],
                           eeiCalls := eeiCalls s @ [StorageStore keyBuf value]\<rparr>)
         \<and> length keyBuf = 32 \<and> bnOfBuffer keyBuf = key
         \<and> bnOfBuffer value = val
         \<and> (val = 0 \<longrightarrow> value = [])
         \<and> (val \<noteq> 0 \<longrightarrow> value \<noteq> [] \<and> hd value \<noteq> 0)
         \<and> (\<forall>w. bnOfBuffer w = val \<longrightarrow> length value \<le> length w)"
proof -
  obtain keyBuf where k: "toArrayLikeLen key 32 = Inr keyBuf" "length keyBuf = 32"
      "bnOfBuffer keyBuf = key"
    using toArrayLikeLen_32 [OF assms] by blast
  let ?stored = "if val = 0 then [] else toArrayLike val"
  have run: "op_SSTORE env (s\<lparr>stack := key # val # rest\<rparr>)
             = (Inr None, s\<lparr>stack := rest,
                           vcm := vcm s @ [selfCounter ''opSStore'' env],
                           eeiCalls := eeiCalls s @ [StorageStore keyBuf ?stored]\<rparr>)"
    using k(1) by (simp add: op_SSTORE_def monad_defs eeiDo_def selfCounter_def Let_def)
  have v: "?stored = beBytes val"
    by (simp add: toArrayLike_pos)
  have ne: "beBytes val \<noteq> []" if "val \<noteq> 0"
    using that byteLength_eq_0 [of val] by (simp add: byteLength_def del: byteLength_eq_0)
  show ?thesis
    apply (rule exI [of _ keyBuf], rule exI [of _ ?stored])
    apply (simp only: run v)
    using k(2,3) ne hd_beBytes [of val] beBytes_shortest [of _ val]
    apply (simp add: bnOfBuffer_beBytes)
    done
qed


theorem sstore_shortest_witness:
  "eeiCalls (snd (op_SSTORE env0 (s0\<lparr>stack := [0, 1]\<rparr>)))
     = [StorageStore (replicate 32 0) [1]]
   \<and> eeiCalls (snd (op_SSTORE env0 (s0\<lparr>stack := [0, 0]\<rparr>)))
     = [StorageStore (replicate 32 0) []]"
proof -
  have run: "eeiCalls (snd (op_SSTORE env0 (s0\<lparr>stack := [0, 1]\<rparr>)))
               = [StorageStore (replicate 32 0) [1]]"
            "eeiCalls (snd (op_SSTORE env0 (s0\<lparr>stack := [0, 0]\<rparr>)))
               = [StorageStore (replicate 32 0) []]"
    by (simp_all add: op_SSTORE_def monad_defs eeiDo_def toArrayLikeLen_def toArrayLike_pos
          beBytes_pos byteLength_def Let_def s0_def)
  have "(0::nat) < 2 ^ 256" by simp
  from sstore_shortest [OF this, where val = 1 and rest = "[]" and env = env0 and s = s0]
       sstore_shortest [OF this, where val = 0 and rest = "[]" and env = env0 and s = s0]
       run
  show ?thesis by blast
qed

section \<open>EXTCODEHASH\<close>

text \<open>
  Claim C6. For every address, \<open>EXTCODEHASH\<close> pushes 0 when the external code fetched
  for it is empty, and otherwise pushes the number that \<open>smtUtils.hashContractBytecode\<close>
  (the linear-Poseidon bytecode hash of the zkEVM library) returns for the code, read
  from its hex string. The Keccak-256 function plays no part: replacing it in the
  environment leaves the handler as it is.
\<close>

theorem extcodehash_poseidon:
  assumes "length rest < 1024"
  shows "(getExternalCode env addressBN = [] \<longrightarrow>
            op_EXTCODEHASH env (s\<lparr>stack := addressBN # rest\<rparr>)
              = (Inr None, s\<lparr>stack := 0 # rest,
                            vcm := vcm s @ [selfCounter ''opExtCodeHash'' env]\<rparr>))
       \<and> (getExternalCode env addressBN \<noteq> []
            \<and> bnOfHex (drop 2 (hashContractBytecode env (toHex (getExternalCode env addressBN))))
                = Inr h \<longrightarrow>
            op_EXTCODEHASH env (s\<lparr>stack := addressBN # rest\<rparr>)
              = (Inr None, s\<lparr>stack := h # rest,
                            vcm := vcm s @ [selfCounter ''opExtCodeHash'' env]\<rparr>))
       \<and> op_EXTCODEHASH (env\<lparr>keccak256 := k\<rparr>) = op_EXTCODEHASH env"
proof (intro conjI)
  show "op_EXTCODEHASH (env\<lparr>keccak256 := k\<rparr>) = op_EXTCODEHASH env"
    by (simp add: op_EXTCODEHASH_def envFlags_def Let_def cong: if_cong)
qed (use assms in \<open>simp_all add: op_EXTCODEHASH_def monad_defs selfCounter_def Let_def\<close>)

theorem extcodehash_poseidon_witness:
  "stack (snd (op_EXTCODEHASH env0 (s0\<lparr>stack := [5]\<rparr>))) = [0]
   \<and> stack (snd (op_EXTCODEHASH
         (env0\<lparr>getExternalCode := (\<lambda>_. [0x60, 0x00]),
               hashContractBytecode := (\<lambda>c. if c = ''6000'' then ''0x1f'' else ''0x'')\<rparr>)
         (s0\<lparr>stack := [5]\<rparr>))) = [31]"
proof -
  have h: "bnOfHex (drop 2 (hashContractBytecode
             (env0\<lparr>getExternalCode := (\<lambda>_. [0x60, 0x00]),
               hashContractBytecode := (\<lambda>c. if c = ''6000'' then ''0x1f'' else ''0x'')\<rparr>)
             (toHex (getExternalCode (env0\<lparr>getExternalCode := (\<lambda>_. [0x60, 0x00]),
               hashContractBytecode := (\<lambda>c. if c = ''6000'' then ''0x1f'' else ''0x'')\<rparr>) 5)))) = Inr 31"
    by (simp add: toHex_def hexDigit_def bnOfHex_def hexValue_def)
  have e: "getExternalCode env0 5 = []"
    by (simp add: env0_def)
  have l: "length ([] :: nat list) < 1024" by simp
  show ?thesis
    using extcodehash_poseidon [OF l, where env = env0 and addressBN = 5 and s = s0] e
          extcodehash_poseidon [OF l, where env = "env0\<lparr>getExternalCode := (\<lambda>_. [0x60, 0x00]),
               hashContractBytecode := (\<lambda>c. if c = ''6000'' then ''0x1f'' else ''0x'')\<rparr>"
             and addressBN = 5 and s = s0 and h = 31] h
    by simp
qed

section \<open>PUSH past the end of the code\<close>

text \<open>
  Claim C10, as amended. For every \<open>PUSHn\<close> opcode (\<open>0x60 \<le> op \<le> 0x7f\<close>, \<open>n = op -
  0x5f\<close>) whose \<open>n\<close> immediate bytes extend past the end of the code buffer, the
  handler the table gives it records \<open>_opPush\<close> with \<open>pushBytes = n\<close>, pushes the
  integer value of only the bytes that exist, read big-endian with no zero-padding on
  the right, and still advances the program counter by \<open>n\<close>. The pushed value times
  \<open>256\<close> to the number of missing bytes is the value of the immediate right-padded
  with zeros to \<open>n\<close> bytes (the Yellow-Paper value); so the pushed value is never larger
  than that value, and it is smaller exactly when it is not 0.
\<close>

theorem push_past_end:
  assumes "0x60 \<le> op" "op \<le> 0x7f" "handlers op = Some (h :: 'r handler)"
    and "opCode s = op" "length (stack s) < 1024"
    and "length (getCode env) < programCounter s + (op - 0x5f)"
  shows "h env s
           = (Inr None,
              s\<lparr>vcm := vcm s @ [\<lparr>fname = ''_opPush'',
                                     params = (''pushBytes'', PNum (op - 0x5f)) # envFlags env\<rparr>],
                programCounter := programCounter s + (op - 0x5f),
                stack := bnOfBuffer (drop (programCounter s) (getCode env)) # stack s\<rparr>)
       \<and> bnOfBuffer (drop (programCounter s) (getCode env))
             * 256 ^ (op - 0x5f - (length (getCode env) - programCounter s))
           = bnOfBuffer (setLengthRight (drop (programCounter s) (getCode env)) (op - 0x5f))
       \<and> bnOfBuffer (drop (programCounter s) (getCode env))
           \<le> bnOfBuffer (setLengthRight (drop (programCounter s) (getCode env)) (op - 0x5f))
       \<and> (bnOfBuffer (drop (programCounter s) (getCode env))
            < bnOfBuffer (setLengthRight (drop (programCounter s) (getCode env)) (op - 0x5f))
          \<longleftrightarrow> bnOfBuffer (drop (programCounter s) (getCode env)) \<noteq> 0)"
proof -
  let ?n = "op - 0x5f"
  let ?pc = "programCounter s"
  let ?rest = "drop ?pc (getCode env)"
  have "handlers op = Some (op_PUSH :: 'r handler)"
    by (rule handlers_push [OF assms(1,2)])
  with assms(3) have h: "h = op_PUSH"
    by simp
  have "length (getCode env) - ?pc < ?n"
    using assms(1,6) by arith
  then have short: "length ?rest < ?n"
    by simp
  then have sl: "slice (getCode env) ?pc (?pc + ?n) = ?rest"
    by (simp add: slice_def)
  have run: "op_PUSH env s
           = (Inr None,
              s\<lparr>vcm := vcm s @ [\<lparr>fname = ''_opPush'',
                                     params = (''pushBytes'', PNum ?n) # envFlags env\<rparr>],
                programCounter := ?pc + ?n,
                stack := bnOfBuffer ?rest # stack s\<rparr>)"
    using assms(4,5) sl by (simp add: op_PUSH_def monad_defs Let_def)
  have pad: "setLengthRight ?rest ?n = ?rest @ replicate (?n - length ?rest) 0"
    using short by (simp add: setLengthRight_def)
  have yp: "bnOfBuffer (setLengthRight ?rest ?n) = bnOfBuffer ?rest * 256 ^ (?n - length ?rest)"
    by (simp only: pad bnOfBuffer_pad_right)
  have "0 < ?n - length ?rest"
    using short by simp
  then have pos: "(1::nat) < 256 ^ (?n - length ?rest)"
    by (rule one_less_power [rotated]) simp
  have le: "bnOfBuffer ?rest \<le> bnOfBuffer ?rest * 256 ^ (?n - length ?rest)"
    by simp
  have lt: "bnOfBuffer ?rest < bnOfBuffer ?rest * 256 ^ (?n - length ?rest)
              \<longleftrightarrow> bnOfBuffer ?rest \<noteq> 0"
    using pos by simp
  show ?thesis
    using run yp le lt by (simp add: h)
qed

theorem push_past_end_witness:
  "op_PUSH (env0\<lparr>getCode := [0x61, 0xab]\<rparr>) (s0\<lparr>opCode := 0x61\<rparr>)
     = (Inr None,
        s0\<lparr>opCode := 0x61,
           vcm := [\<lparr>fname = ''_opPush'',
                    params = [(''pushBytes'', PNum 2), (''isCreate'', PBool False),
                              (''isDeploy'', PBool False)]\<rparr>],
           programCounter := 3, stack := [0xab]\<rparr>)
   \<and> bnOfBuffer (setLengthRight (drop 1 [0x61, 0xab]) 2) = 0xab00"
proof -
  let ?env = "env0\<lparr>getCode := [0x61, 0xab]\<rparr>"
  let ?s = "s0\<lparr>opCode := 0x61\<rparr>"
  have a: "(0x60::nat) \<le> 0x61" "(0x61::nat) \<le> 0x7f" by simp_all
  have h: "handlers 0x61 = Some (op_PUSH :: unit handler)"
    by (rule handlers_push [OF a])
  have s: "opCode ?s = 0x61" "length (stack ?s) < 1024"
      "length (getCode ?env) < programCounter ?s + (0x61 - 0x5f)"
    by (simp_all add: s0_def)
  have v: "programCounter ?s = 1" "getCode ?env = [0x61, 0xab]" "vcm ?s = []" "stack ?s = []"
     "envFlags ?env = [(''isCreate'', PBool False), (''isDeploy'', PBool False)]"
    "bnOfBuffer [0xab] = 0xab"
    by (simp_all add: s0_def env0_def envFlags_def bnOfBuffer_def)
  show ?thesis
    using push_past_end [OF a h s]
    by (simp add: v)
qed

text \<open>
  The claim as first stated says that the pushed value is smaller than the right-padded
  value. For \<open>PUSH2\<close> followed by the single byte \<open>0x00\<close> at the end of the code, the
  handler pushes 0 and the right-padded value \<open>0x0000\<close> is 0 as well: not smaller.
\<close>

theorem push_past_end_counterexample:
  "handlers 0x61 = Some (op_PUSH :: unit handler)
   \<and> length (getCode (env0\<lparr>getCode := [0x61, 0x00]\<rparr>))
        < programCounter (s0\<lparr>opCode := 0x61\<rparr>) + (0x61 - 0x5f)
   \<and> stack (snd (op_PUSH (env0\<lparr>getCode := [0x61, 0x00]\<rparr>) (s0\<lparr>opCode := 0x61\<rparr>))) = [0]
   \<and> bnOfBuffer (setLengthRight (drop 1 [0x61, 0x00]) 2) = 0
   \<and> \<not> hd (stack (snd (op_PUSH (env0\<lparr>getCode := [0x61, 0x00]\<rparr>) (s0\<lparr>opCode := 0x61\<rparr>))))
        < bnOfBuffer (setLengthRight (drop 1 [0x61, 0x00]) 2)"
proof -
  have "handlers 0x61 = Some (op_PUSH :: unit handler)"
    by (rule handlers_push) simp_all
  then show ?thesis
    by (simp add: op_PUSH_def monad_defs s0_def slice_def bnOfBuffer_def setLengthRight_def)
qed

section \<open>The P-256 precompile\<close>

lemma slice_append_exact:
  "length xs = a \<Longrightarrow> length ys = b - a \<Longrightarrow> a \<le> b \<Longrightarrow> slice (xs @ ys @ zs) a b = ys"
  by (simp add: slice_def)

lemma slice_0: "length xs = b \<Longrightarrow> slice (xs @ zs) 0 b = xs"
  by (simp add: slice_def)

lemma sample_lengths:
  "length sample_msgHash = 32" "length sample_r = 32" "length sample_s = 32"
  "length sample_pubKeyX = 32" "length sample_pubKeyY = 32"
  by (simp_all add: sample_msgHash_def sample_r_def sample_s_def sample_pubKeyX_def
        sample_pubKeyY_def)

lemma sample_slices:
  "setLengthRight sample_input 160 = sample_input"
  "slice sample_input 0 32 = sample_msgHash"
  "slice sample_input 32 64 = sample_r"
  "slice sample_input 64 96 = sample_s"
  "slice sample_input 96 128 = sample_pubKeyX"
  "slice sample_input 128 160 = sample_pubKeyY"
  by (simp_all add: sample_input_def slice_def setLengthRight_def sample_lengths)

lemma toHex_sample_differ: "toHex sample_s \<noteq> toHex sample_pubKeyX"
  by (simp add: toHex_def sample_s_def sample_pubKeyX_def hexDigit_def)

text \<open>What the precompile asks the curve library, for any library and any 160-byte input
  with enough gas: the key is \<open>(s, msgHash)\<close>, the hash is \<open>pubKeyX\<close> and the signature
  is \<open>(pubKeyY, r)\<close>, because the call passes \<open>(pubKeyX, pubKeyY, r, s, msg)\<close> to the
  parameters \<open>(msgHash, r, s, pubKeyX, pubKeyY)\<close>.\<close>

lemma p256verify_permuted_arguments:
  assumes "length (inputData opts) = 160" and "p256verifyGas penv \<le> gasLimit opts"
  shows "returnValue (p256verify penv opts)
           = (if ecVerify penv
                   (toHex (slice (inputData opts) 64 96), toHex (slice (inputData opts) 0 32))
                   (toHex (slice (inputData opts) 96 128))
                   (toHex (slice (inputData opts) 128 160), toHex (slice (inputData opts) 32 64))
                 = Some True
              then setLengthLeft [1] 32 else [])"
  using assms
  by (auto simp add: p256verify_def verifyP256Signature_def Let_def setLengthRight_def
        slice_def split: option.splits)

text \<open>
  Claim C9 says that for a 160-byte input \<open>msgHash \<parallel> r \<parallel> s \<parallel> pubKeyX \<parallel> pubKeyY\<close> with
  sufficient gas the precompile returns a 32-byte word with last byte 1 exactly when
  \<open>(r, s)\<close> is a valid signature of \<open>msgHash\<close> under \<open>(pubKeyX, pubKeyY)\<close>. On the sample
  input, whose signature the library accepts, the precompile charges the gas price and
  returns the empty byte string: it asks the library about the permuted arguments.
\<close>

theorem p256verify_rejects_valid_signature:
  "ecVerify penv0 (toHex sample_pubKeyX, toHex sample_pubKeyY) (toHex sample_msgHash)
      (toHex sample_r, toHex sample_s) = Some True
   \<and> p256verify penv0 \<lparr>inputData = sample_input, gasLimit = 3450\<rparr>
       = \<lparr>gasUsed = 3450, returnValue = [], exceptionError = None\<rparr>"
  using toHex_sample_differ
  by (simp add: p256verify_def verifyP256Signature_def penv0_def sample_slices sample_lengths)

section \<open>The flags stored with the counters\<close>

text \<open>Rules that follow the structure of a handler: the primitives leave \<open>vcm\<close> alone,
  \<open>computeFunctionCounters\<close> appends one counter, and sequencing appends in order.\<close>

named_theorems ro_intros

lemma ro_keep:
  assumes "\<And>s. vcm (snd (m s)) = vcm s"
  shows "recordsOnly G m"
  unfolding recordsOnly_def using assms by (intro allI exI [of _ "[]"]) simp

lemma ro_returnM [ro_intros]: "recordsOnly G (returnM x)"
  by (rule ro_keep) (simp add: returnM_def)

lemma ro_retVoid [ro_intros]: "recordsOnly G retVoid"
  by (rule ro_keep) (simp add: retVoid_def returnM_def)

lemma ro_trap [ro_intros]: "recordsOnly G (trap e)"
  by (rule ro_keep) (simp add: trap_def)

lemma ro_liftE [ro_intros]: "recordsOnly G (liftE r)"
  by (rule ro_keep) (simp add: liftE_def)

lemma ro_getS [ro_intros]: "recordsOnly G (getS f)"
  by (rule ro_keep) (simp add: getS_def)

lemma ro_push [ro_intros]: "recordsOnly G (push v)"
  by (rule ro_keep) (simp add: push_def)

lemma ro_pop [ro_intros]: "recordsOnly G pop"
  by (rule ro_keep) (simp add: pop_def split: list.splits)

lemma ro_popN [ro_intros]: "recordsOnly G (popN k)"
  by (rule ro_keep) (simp add: popN_def)

lemma ro_dup [ro_intros]: "recordsOnly G (dup n)"
  by (rule ro_keep) (simp add: dup_def push_def)

lemma ro_swap [ro_intros]: "recordsOnly G (swap n)"
  by (rule ro_keep) (simp add: swap_def)

lemma ro_memExtend [ro_intros]: "recordsOnly G (memExtend a b)"
  by (rule ro_keep) (simp add: memExtend_def modifyS_def Let_def)

lemma ro_memRead [ro_intros]: "recordsOnly G (memRead a b)"
  by (rule ro_keep) (simp add: memRead_def getS_def)

lemma ro_memWrite [ro_intros]: "recordsOnly G (memWrite a b d)"
  by (rule ro_keep) (simp add: memWrite_def modifyS_def)

lemma ro_useGas [ro_intros]: "recordsOnly G (useGas a)"
  by (rule ro_keep) (simp add: useGas_def)

lemma ro_eeiDo [ro_intros]: "recordsOnly G (eeiDo c)"
  by (rule ro_keep) (simp add: eeiDo_def modifyS_def)

lemma ro_eeiFinish [ro_intros]: "recordsOnly G (eeiFinish d)"
  by (rule ro_keep) (simp add: eeiFinish_def)

lemma ro_eeiRevert [ro_intros]: "recordsOnly G (eeiRevert d)"
  by (rule ro_keep) (simp add: eeiRevert_def)

lemma ro_eeiSelfDestruct [ro_intros]: "recordsOnly G (eeiSelfDestruct a)"
  by (rule ro_keep) (simp add: eeiSelfDestruct_def)

lemma ro_eeiSubCall [ro_intros]: "recordsOnly G (eeiSubCall env c)"
  by (rule ro_keep) (simp add: eeiSubCall_def)

lemma ro_takeMessageGasLimit [ro_intros]: "recordsOnly G takeMessageGasLimit"
  by (rule ro_keep) (simp add: takeMessageGasLimit_def)

lemma ro_setPC [ro_intros]: "recordsOnly G (modifyS (\<lambda>s. s\<lparr>programCounter := f s\<rparr>))"
  by (rule ro_keep) (simp add: modifyS_def)

lemma ro_setReturnStack [ro_intros]: "recordsOnly G (modifyS (\<lambda>s. s\<lparr>returnStack := f s\<rparr>))"
  by (rule ro_keep) (simp add: modifyS_def)

lemma ro_jumpsub [ro_intros]:
  "recordsOnly G (modifyS (\<lambda>s. s\<lparr>returnStack := f s, programCounter := g\<rparr>))"
  by (rule ro_keep) (simp add: modifyS_def)

lemma ro_record [ro_intros]:
  "G \<lparr>fname = name, params = ps\<rparr> \<Longrightarrow> recordsOnly G (computeFunctionCounters name ps)"
  unfolding recordsOnly_def computeFunctionCounters_def modifyS_def by simp

lemma ro_bindM [ro_intros]:
  assumes "recordsOnly G m" and "\<And>x. recordsOnly G (f x)"
  shows "recordsOnly G (bindM m f)"
  unfolding recordsOnly_def
proof
  fix s
  obtain cs where cs: "vcm (snd (m s)) = vcm s @ cs" "list_all G cs"
    using assms(1) unfolding recordsOnly_def by blast
  show "\<exists>cs. vcm (snd (bindM m f s)) = vcm s @ cs \<and> list_all G cs"
  proof (cases "m s")
    case (Pair r s1)
    show ?thesis
    proof (cases r)
      case (Inl e)
      with Pair cs show ?thesis by (auto simp add: bindM_def)
    next
      case (Inr x)
      obtain ds where ds: "vcm (snd (f x s1)) = vcm s1 @ ds" "list_all G ds"
        using assms(2) [of x] unfolding recordsOnly_def by blast
      with Pair Inr cs have "vcm (snd (bindM m f s)) = vcm s @ (cs @ ds)" "list_all G (cs @ ds)"
        by (simp_all add: bindM_def)
      then show ?thesis by blast
    qed
  qed
qed

lemma ro_thenM [ro_intros]:
  "recordsOnly G m \<Longrightarrow> recordsOnly G k \<Longrightarrow> recordsOnly G (thenM m k)"
  unfolding thenM_def by (rule ro_bindM)

lemma ro_whenM [ro_intros]: "recordsOnly G m \<Longrightarrow> recordsOnly G (whenM c m)"
  unfolding whenM_def by (simp add: ro_returnM)

lemma ro_if [ro_intros]:
  "recordsOnly G a \<Longrightarrow> recordsOnly G b \<Longrightarrow> recordsOnly G (if c then a else b)"
  by simp

lemma ro_case_list [ro_intros]:
  "recordsOnly G a \<Longrightarrow> (\<And>x xs. recordsOnly G (b x xs)) \<Longrightarrow>
     recordsOnly G (case l of [] \<Rightarrow> a | x # xs \<Rightarrow> b x xs)"
  by (cases l) simp_all

lemma ro_pushRet [ro_intros]: "recordsOnly G (pushRet v)"
  unfolding pushRet_def by (intro ro_intros)

lemma ro_readSlice [ro_intros]: "recordsOnly G (readSlice a b)"
  unfolding readSlice_def by (intro ro_intros)

lemma ro_writeCopied [ro_intros]: "recordsOnly G (writeCopied a b d)"
  unfolding writeCopied_def by (intro ro_intros)

lemma ro_writeCallOutput [ro_intros]: "recordsOnly G (writeCallOutput a b)"
  unfolding writeCallOutput_def Let_def by (intro ro_intros)

named_theorems ro_handlers

lemma ro_op_STOP [ro_handlers]: "recordsOnly (flagsAsDesigned env b) (op_STOP env)"
  unfolding op_STOP_def Let_def
  by (intro ro_intros)
     (simp_all add: flagsAsDesigned_def counterFlags_def envFlags_def
        processContractCallParams_def)?

lemma ro_op_ADD [ro_handlers]: "recordsOnly (flagsAsDesigned env b) (op_ADD env)"
  unfolding op_ADD_def Let_def
  by (intro ro_intros)
     (simp_all add: flagsAsDesigned_def counterFlags_def envFlags_def
        processContractCallParams_def)?

lemma ro_op_MUL [ro_handlers]: "recordsOnly (flagsAsDesigned env b) (op_MUL env)"
  unfolding op_MUL_def Let_def
  by (intro ro_intros)
     (simp_all add: flagsAsDesigned_def counterFlags_def envFlags_def
        processContractCallParams_def)?

lemma ro_op_SUB [ro_handlers]: "recordsOnly (flagsAsDesigned env b) (op_SUB env)"
  unfolding op_SUB_def Let_def
  by (intro ro_intros)
     (simp_all add: flagsAsDesigned_def counterFlags_def envFlags_def
        processContractCallParams_def)?

lemma ro_op_DIV [ro_handlers]: "recordsOnly (flagsAsDesigned env b) (op_DIV env)"
  unfolding op_DIV_def Let_def
  by (intro ro_intros)
     (simp_all add: flagsAsDesigned_def counterFlags_def envFlags_def
        processContractCallParams_def)?

lemma ro_op_SDIV [ro_handlers]: "recordsOnly (flagsAsDesigned env b) (op_SDIV env)"
  unfolding op_SDIV_def Let_def
  by (intro ro_intros)
     (simp_all add: flagsAsDesigned_def counterFlags_def envFlags_def
        processContractCallParams_def)?

lemma ro_op_MOD [ro_handlers]: "recordsOnly (flagsAsDesigned env b) (op_MOD env)"
  unfolding op_MOD_def Let_def
  by (intro ro_intros)
     (simp_all add: flagsAsDesigned_def counterFlags_def envFlags_def
        processContractCallParams_def)?

lemma ro_op_SMOD [ro_handlers]: "recordsOnly (flagsAsDesigned env b) (op_SMOD env)"
  unfolding op_SMOD_def Let_def
  by (intro ro_intros)
     (simp_all add: flagsAsDesigned_def counterFlags_def envFlags_def
        processContractCallParams_def)?

lemma ro_op_ADDMOD [ro_handlers]: "recordsOnly (flagsAsDesigned env b) (op_ADDMOD env)"
  unfolding op_ADDMOD_def Let_def
  by (intro ro_intros)
     (simp_all add: flagsAsDesigned_def counterFlags_def envFlags_def
        processContractCallParams_def)?

lemma ro_op_MULMOD [ro_handlers]: "recordsOnly (flagsAsDesigned env b) (op_MULMOD env)"
  unfolding op_MULMOD_def Let_def
  by (intro ro_intros)
     (simp_all add: flagsAsDesigned_def counterFlags_def envFlags_def
        processContractCallParams_def)?

lemma ro_op_EXP [ro_handlers]: "recordsOnly (flagsAsDesigned env b) (op_EXP env)"
  unfolding op_EXP_def Let_def
  by (intro ro_intros)
     (simp_all add: flagsAsDesigned_def counterFlags_def envFlags_def
        processContractCallParams_def)?

lemma ro_op_SIGNEXTEND [ro_handlers]: "recordsOnly (flagsAsDesigned env b) (op_SIGNEXTEND env)"
  unfolding op_SIGNEXTEND_def Let_def
  by (intro ro_intros)
     (simp_all add: flagsAsDesigned_def counterFlags_def envFlags_def
        processContractCallParams_def)?

lemma ro_op_LT [ro_handlers]: "recordsOnly (flagsAsDesigned env b) (op_LT env)"
  unfolding op_LT_def Let_def
  by (intro ro_intros)
     (simp_all add: flagsAsDesigned_def counterFlags_def envFlags_def
        processContractCallParams_def)?

lemma ro_op_GT [ro_handlers]: "recordsOnly (flagsAsDesigned env b) (op_GT env)"
  unfolding op_GT_def Let_def
  by (intro ro_intros)
     (simp_all add: flagsAsDesigned_def counterFlags_def envFlags_def
        processContractCallParams_def)?

lemma ro_op_SLT [ro_handlers]: "recordsOnly (flagsAsDesigned env b) (op_SLT env)"
  unfolding op_SLT_def Let_def
  by (intro ro_intros)
     (simp_all add: flagsAsDesigned_def counterFlags_def envFlags_def
        processContractCallParams_def)?

lemma ro_op_SGT [ro_handlers]: "recordsOnly (flagsAsDesigned env b) (op_SGT env)"
  unfolding op_SGT_def Let_def
  by (intro ro_intros)
     (simp_all add: flagsAsDesigned_def counterFlags_def envFlags_def
        processContractCallParams_def)?

lemma ro_op_EQ [ro_handlers]: "recordsOnly (flagsAsDesigned env b) (op_EQ env)"
  unfolding op_EQ_def Let_def
  by (intro ro_intros)
     (simp_all add: flagsAsDesigned_def counterFlags_def envFlags_def
        processContractCallParams_def)?

lemma ro_op_ISZERO [ro_handlers]: "recordsOnly (flagsAsDesigned env b) (op_ISZERO env)"
  unfolding op_ISZERO_def Let_def
  by (intro ro_intros)
     (simp_all add: flagsAsDesigned_def counterFlags_def envFlags_def
        processContractCallParams_def)?

lemma ro_op_AND [ro_handlers]: "recordsOnly (flagsAsDesigned env b) (op_AND env)"
  unfolding op_AND_def Let_def
  by (intro ro_intros)
     (simp_all add: flagsAsDesigned_def counterFlags_def envFlags_def
        processContractCallParams_def)?

lemma ro_op_OR [ro_handlers]: "recordsOnly (flagsAsDesigned env b) (op_OR env)"
  unfolding op_OR_def Let_def
  by (intro ro_intros)
     (simp_all add: flagsAsDesigned_def counterFlags_def envFlags_def
        processContractCallParams_def)?

lemma ro_op_XOR [ro_handlers]: "recordsOnly (flagsAsDesigned env b) (op_XOR env)"
  unfolding op_XOR_def Let_def
  by (intro ro_intros)
     (simp_all add: flagsAsDesigned_def counterFlags_def envFlags_def
        processContractCallParams_def)?

lemma ro_op_NOT [ro_handlers]: "recordsOnly (flagsAsDesigned env b) (op_NOT env)"
  unfolding op_NOT_def Let_def
  by (intro ro_intros)
     (simp_all add: flagsAsDesigned_def counterFlags_def envFlags_def
        processContractCallParams_def)?

lemma ro_op_BYTE [ro_handlers]: "recordsOnly (flagsAsDesigned env b) (op_BYTE env)"
  unfolding op_BYTE_def Let_def
  by (intro ro_intros)
     (simp_all add: flagsAsDesigned_def counterFlags_def envFlags_def
        processContractCallParams_def)?

lemma ro_op_SHL [ro_handlers]: "recordsOnly (flagsAsDesigned env b) (op_SHL env)"
  unfolding op_SHL_def Let_def
  by (intro ro_intros)
     (simp_all add: flagsAsDesigned_def counterFlags_def envFlags_def
        processContractCallParams_def)?

lemma ro_op_SHR [ro_handlers]: "recordsOnly (flagsAsDesigned env b) (op_SHR env)"
  unfolding op_SHR_def Let_def
  by (intro ro_intros)
     (simp_all add: flagsAsDesigned_def counterFlags_def envFlags_def
        processContractCallParams_def)?

lemma ro_op_SAR [ro_handlers]: "recordsOnly (flagsAsDesigned env b) (op_SAR env)"
  unfolding op_SAR_def Let_def
  by (intro ro_intros)
     (simp_all add: flagsAsDesigned_def counterFlags_def envFlags_def
        processContractCallParams_def)?

lemma ro_op_SHA3 [ro_handlers]: "recordsOnly (flagsAsDesigned env b) (op_SHA3 env)"
  unfolding op_SHA3_def Let_def
  by (intro ro_intros)
     (simp_all add: flagsAsDesigned_def counterFlags_def envFlags_def
        processContractCallParams_def)?

lemma ro_op_ADDRESS [ro_handlers]: "recordsOnly (flagsAsDesigned env b) (op_ADDRESS env)"
  unfolding op_ADDRESS_def Let_def
  by (intro ro_intros)
     (simp_all add: flagsAsDesigned_def counterFlags_def envFlags_def
        processContractCallParams_def)?

lemma ro_op_BALANCE [ro_handlers]: "recordsOnly (flagsAsDesigned env b) (op_BALANCE env)"
  unfolding op_BALANCE_def Let_def
  by (intro ro_intros)
     (simp_all add: flagsAsDesigned_def counterFlags_def envFlags_def
        processContractCallParams_def)?

lemma ro_op_ORIGIN [ro_handlers]: "recordsOnly (flagsAsDesigned env b) (op_ORIGIN env)"
  unfolding op_ORIGIN_def Let_def
  by (intro ro_intros)
     (simp_all add: flagsAsDesigned_def counterFlags_def envFlags_def
        processContractCallParams_def)?

lemma ro_op_CALLER [ro_handlers]: "recordsOnly (flagsAsDesigned env b) (op_CALLER env)"
  unfolding op_CALLER_def Let_def
  by (intro ro_intros)
     (simp_all add: flagsAsDesigned_def counterFlags_def envFlags_def
        processContractCallParams_def)?

lemma ro_op_CALLVALUE [ro_handlers]: "recordsOnly (flagsAsDesigned env b) (op_CALLVALUE env)"
  unfolding op_CALLVALUE_def Let_def
  by (intro ro_intros)
     (simp_all add: flagsAsDesigned_def counterFlags_def envFlags_def
        processContractCallParams_def)?

lemma ro_op_CALLDATALOAD [ro_handlers]: "recordsOnly (flagsAsDesigned env b) (op_CALLDATALOAD env)"
  unfolding op_CALLDATALOAD_def Let_def
  by (intro ro_intros)
     (simp_all add: flagsAsDesigned_def counterFlags_def envFlags_def
        processContractCallParams_def)?

lemma ro_op_CALLDATASIZE [ro_handlers]: "recordsOnly (flagsAsDesigned env b) (op_CALLDATASIZE env)"
  unfolding op_CALLDATASIZE_def Let_def
  by (intro ro_intros)
     (simp_all add: flagsAsDesigned_def counterFlags_def envFlags_def
        processContractCallParams_def)?

lemma ro_op_CALLDATACOPY [ro_handlers]: "recordsOnly (flagsAsDesigned env b) (op_CALLDATACOPY env)"
  unfolding op_CALLDATACOPY_def Let_def
  by (intro ro_intros)
     (simp_all add: flagsAsDesigned_def counterFlags_def envFlags_def
        processContractCallParams_def)?

lemma ro_op_CODESIZE [ro_handlers]: "recordsOnly (flagsAsDesigned env b) (op_CODESIZE env)"
  unfolding op_CODESIZE_def Let_def
  by (intro ro_intros)
     (simp_all add: flagsAsDesigned_def counterFlags_def envFlags_def
        processContractCallParams_def)?

lemma ro_op_CODECOPY [ro_handlers]: "recordsOnly (flagsAsDesigned env b) (op_CODECOPY env)"
  unfolding op_CODECOPY_def Let_def
  by (intro ro_intros)
     (simp_all add: flagsAsDesigned_def counterFlags_def envFlags_def
        processContractCallParams_def)?

lemma ro_op_EXTCODESIZE [ro_handlers]: "recordsOnly (flagsAsDesigned env b) (op_EXTCODESIZE env)"
  unfolding op_EXTCODESIZE_def Let_def
  by (intro ro_intros)
     (simp_all add: flagsAsDesigned_def counterFlags_def envFlags_def
        processContractCallParams_def)?

lemma ro_op_EXTCODECOPY [ro_handlers]: "recordsOnly (flagsAsDesigned env b) (op_EXTCODECOPY env)"
  unfolding op_EXTCODECOPY_def Let_def
  by (intro ro_intros)
     (simp_all add: flagsAsDesigned_def counterFlags_def envFlags_def
        processContractCallParams_def)?

lemma ro_op_EXTCODEHASH [ro_handlers]: "recordsOnly (flagsAsDesigned env b) (op_EXTCODEHASH env)"
  unfolding op_EXTCODEHASH_def Let_def
  by (intro ro_intros)
     (simp_all add: flagsAsDesigned_def counterFlags_def envFlags_def
        processContractCallParams_def)?

lemma ro_op_RETURNDATASIZE [ro_handlers]: "recordsOnly (flagsAsDesigned env b) (op_RETURNDATASIZE env)"
  unfolding op_RETURNDATASIZE_def Let_def
  by (intro ro_intros)
     (simp_all add: flagsAsDesigned_def counterFlags_def envFlags_def
        processContractCallParams_def)?

lemma ro_op_RETURNDATACOPY [ro_handlers]: "recordsOnly (flagsAsDesigned env b) (op_RETURNDATACOPY env)"
  unfolding op_RETURNDATACOPY_def Let_def
  by (intro ro_intros)
     (simp_all add: flagsAsDesigned_def counterFlags_def envFlags_def
        processContractCallParams_def)?

lemma ro_op_GASPRICE [ro_handlers]: "recordsOnly (flagsAsDesigned env b) (op_GASPRICE env)"
  unfolding op_GASPRICE_def Let_def
  by (intro ro_intros)
     (simp_all add: flagsAsDesigned_def counterFlags_def envFlags_def
        processContractCallParams_def)?

lemma ro_op_BLOCKHASH [ro_handlers]: "recordsOnly (flagsAsDesigned env b) (op_BLOCKHASH env)"
  unfolding op_BLOCKHASH_def Let_def
  by (intro ro_intros)
     (simp_all add: flagsAsDesigned_def counterFlags_def envFlags_def
        processContractCallParams_def)?

lemma ro_op_COINBASE [ro_handlers]: "recordsOnly (flagsAsDesigned env b) (op_COINBASE env)"
  unfolding op_COINBASE_def Let_def
  by (intro ro_intros)
     (simp_all add: flagsAsDesigned_def counterFlags_def envFlags_def
        processContractCallParams_def)?

lemma ro_op_TIMESTAMP [ro_handlers]: "recordsOnly (flagsAsDesigned env b) (op_TIMESTAMP env)"
  unfolding op_TIMESTAMP_def Let_def
  by (intro ro_intros)
     (simp_all add: flagsAsDesigned_def counterFlags_def envFlags_def
        processContractCallParams_def)?

lemma ro_op_NUMBER [ro_handlers]: "recordsOnly (flagsAsDesigned env b) (op_NUMBER env)"
  unfolding op_NUMBER_def Let_def
  by (intro ro_intros)
     (simp_all add: flagsAsDesigned_def counterFlags_def envFlags_def
        processContractCallParams_def)?

lemma ro_op_DIFFICULTY [ro_handlers]: "recordsOnly (flagsAsDesigned env b) (op_DIFFICULTY env)"
  unfolding op_DIFFICULTY_def Let_def
  by (intro ro_intros)
     (simp_all add: flagsAsDesigned_def counterFlags_def envFlags_def
        processContractCallParams_def)?

lemma ro_op_GASLIMIT [ro_handlers]: "recordsOnly (flagsAsDesigned env b) (op_GASLIMIT env)"
  unfolding op_GASLIMIT_def Let_def
  by (intro ro_intros)
     (simp_all add: flagsAsDesigned_def counterFlags_def envFlags_def
        processContractCallParams_def)?

lemma ro_op_CHAINID [ro_handlers]: "recordsOnly (flagsAsDesigned env b) (op_CHAINID env)"
  unfolding op_CHAINID_def Let_def
  by (intro ro_intros)
     (simp_all add: flagsAsDesigned_def counterFlags_def envFlags_def
        processContractCallParams_def)?

lemma ro_op_SELFBALANCE [ro_handlers]: "recordsOnly (flagsAsDesigned env b) (op_SELFBALANCE env)"
  unfolding op_SELFBALANCE_def Let_def
  by (intro ro_intros)
     (simp_all add: flagsAsDesigned_def counterFlags_def envFlags_def
        processContractCallParams_def)?

lemma ro_op_BASEFEE [ro_handlers]: "recordsOnly (flagsAsDesigned env b) (op_BASEFEE env)"
  unfolding op_BASEFEE_def Let_def
  by (intro ro_intros)
     (simp_all add: flagsAsDesigned_def counterFlags_def envFlags_def
        processContractCallParams_def)?

lemma ro_op_POP [ro_handlers]: "recordsOnly (flagsAsDesigned env b) (op_POP env)"
  unfolding op_POP_def Let_def
  by (intro ro_intros)
     (simp_all add: flagsAsDesigned_def counterFlags_def envFlags_def
        processContractCallParams_def)?

lemma ro_op_MLOAD [ro_handlers]: "recordsOnly (flagsAsDesigned env b) (op_MLOAD env)"
  unfolding op_MLOAD_def Let_def
  by (intro ro_intros)
     (simp_all add: flagsAsDesigned_def counterFlags_def envFlags_def
        processContractCallParams_def)?

lemma ro_op_MSTORE [ro_handlers]: "recordsOnly (flagsAsDesigned env b) (op_MSTORE env)"
  unfolding op_MSTORE_def Let_def
  by (intro ro_intros)
     (simp_all add: flagsAsDesigned_def counterFlags_def envFlags_def
        processContractCallParams_def)?

lemma ro_op_MSTORE8 [ro_handlers]: "recordsOnly (flagsAsDesigned env b) (op_MSTORE8 env)"
  unfolding op_MSTORE8_def Let_def
  by (intro ro_intros)
     (simp_all add: flagsAsDesigned_def counterFlags_def envFlags_def
        processContractCallParams_def)?

lemma ro_op_SLOAD [ro_handlers]: "recordsOnly (flagsAsDesigned env b) (op_SLOAD env)"
  unfolding op_SLOAD_def Let_def
  by (intro ro_intros)
     (simp_all add: flagsAsDesigned_def counterFlags_def envFlags_def
        processContractCallParams_def)?

lemma ro_op_SSTORE [ro_handlers]: "recordsOnly (flagsAsDesigned env b) (op_SSTORE env)"
  unfolding op_SSTORE_def Let_def
  by (intro ro_intros)
     (simp_all add: flagsAsDesigned_def counterFlags_def envFlags_def
        processContractCallParams_def)?

lemma ro_op_JUMP [ro_handlers]: "recordsOnly (flagsAsDesigned env b) (op_JUMP env)"
  unfolding op_JUMP_def Let_def
  by (intro ro_intros)
     (simp_all add: flagsAsDesigned_def counterFlags_def envFlags_def
        processContractCallParams_def)?

lemma ro_op_JUMPI [ro_handlers]: "recordsOnly (flagsAsDesigned env b) (op_JUMPI env)"
  unfolding op_JUMPI_def Let_def
  by (intro ro_intros)
     (simp_all add: flagsAsDesigned_def counterFlags_def envFlags_def
        processContractCallParams_def)?

lemma ro_op_PC [ro_handlers]: "recordsOnly (flagsAsDesigned env b) (op_PC env)"
  unfolding op_PC_def Let_def
  by (intro ro_intros)
     (simp_all add: flagsAsDesigned_def counterFlags_def envFlags_def
        processContractCallParams_def)?

lemma ro_op_MSIZE [ro_handlers]: "recordsOnly (flagsAsDesigned env b) (op_MSIZE env)"
  unfolding op_MSIZE_def Let_def
  by (intro ro_intros)
     (simp_all add: flagsAsDesigned_def counterFlags_def envFlags_def
        processContractCallParams_def)?

lemma ro_op_GAS [ro_handlers]: "recordsOnly (flagsAsDesigned env b) (op_GAS env)"
  unfolding op_GAS_def Let_def
  by (intro ro_intros)
     (simp_all add: flagsAsDesigned_def counterFlags_def envFlags_def
        processContractCallParams_def)?

lemma ro_op_JUMPDEST [ro_handlers]: "recordsOnly (flagsAsDesigned env b) (op_JUMPDEST env)"
  unfolding op_JUMPDEST_def Let_def
  by (intro ro_intros)
     (simp_all add: flagsAsDesigned_def counterFlags_def envFlags_def
        processContractCallParams_def)?

lemma ro_op_BEGINSUB [ro_handlers]: "recordsOnly (flagsAsDesigned env b) (op_BEGINSUB env)"
  unfolding op_BEGINSUB_def Let_def
  by (intro ro_intros)
     (simp_all add: flagsAsDesigned_def counterFlags_def envFlags_def
        processContractCallParams_def)?

lemma ro_op_RETURNSUB [ro_handlers]: "recordsOnly (flagsAsDesigned env b) (op_RETURNSUB env)"
  unfolding op_RETURNSUB_def Let_def
  by (intro ro_intros)
     (simp_all add: flagsAsDesigned_def counterFlags_def envFlags_def
        processContractCallParams_def)?

lemma ro_op_JUMPSUB [ro_handlers]: "recordsOnly (flagsAsDesigned env b) (op_JUMPSUB env)"
  unfolding op_JUMPSUB_def Let_def
  by (intro ro_intros)
     (simp_all add: flagsAsDesigned_def counterFlags_def envFlags_def
        processContractCallParams_def)?

lemma ro_op_PUSH0 [ro_handlers]: "recordsOnly (flagsAsDesigned env b) (op_PUSH0 env)"
  unfolding op_PUSH0_def Let_def
  by (intro ro_intros)
     (simp_all add: flagsAsDesigned_def counterFlags_def envFlags_def
        processContractCallParams_def)?

lemma ro_op_PUSH [ro_handlers]: "recordsOnly (flagsAsDesigned env b) (op_PUSH env)"
  unfolding op_PUSH_def Let_def
  by (intro ro_intros)
     (simp_all add: flagsAsDesigned_def counterFlags_def envFlags_def
        processContractCallParams_def)?

lemma ro_op_DUP [ro_handlers]: "recordsOnly (flagsAsDesigned env b) (op_DUP env)"
  unfolding op_DUP_def Let_def
  by (intro ro_intros)
     (simp_all add: flagsAsDesigned_def counterFlags_def envFlags_def
        processContractCallParams_def)?

lemma ro_op_SWAP [ro_handlers]: "recordsOnly (flagsAsDesigned env b) (op_SWAP env)"
  unfolding op_SWAP_def Let_def
  by (intro ro_intros)
     (simp_all add: flagsAsDesigned_def counterFlags_def envFlags_def
        processContractCallParams_def)?

lemma ro_op_LOG [ro_handlers]: "recordsOnly (flagsAsDesigned env b) (op_LOG env)"
  unfolding op_LOG_def Let_def
  by (intro ro_intros)
     (simp_all add: flagsAsDesigned_def counterFlags_def envFlags_def
        processContractCallParams_def)?

lemma ro_op_CREATE [ro_handlers]: "recordsOnly (flagsAsDesigned env True) (op_CREATE env)"
  unfolding op_CREATE_def Let_def
  by (intro ro_intros)
     (simp_all add: flagsAsDesigned_def counterFlags_def envFlags_def
        processContractCallParams_def)?

lemma ro_op_CREATE2 [ro_handlers]: "recordsOnly (flagsAsDesigned env False) (op_CREATE2 env)"
  unfolding op_CREATE2_def Let_def
  by (intro ro_intros)
     (simp_all add: flagsAsDesigned_def counterFlags_def envFlags_def
        processContractCallParams_def)?

lemma ro_op_CALL [ro_handlers]: "recordsOnly (flagsAsDesigned env False) (op_CALL env)"
  unfolding op_CALL_def Let_def
  by (intro ro_intros)
     (simp_all add: flagsAsDesigned_def counterFlags_def envFlags_def
        processContractCallParams_def)?

lemma ro_op_CALLCODE [ro_handlers]: "recordsOnly (flagsAsDesigned env False) (op_CALLCODE env)"
  unfolding op_CALLCODE_def Let_def
  by (intro ro_intros)
     (simp_all add: flagsAsDesigned_def counterFlags_def envFlags_def
        processContractCallParams_def)?

lemma ro_op_DELEGATECALL [ro_handlers]: "recordsOnly (flagsAsDesigned env False) (op_DELEGATECALL env)"
  unfolding op_DELEGATECALL_def Let_def
  by (intro ro_intros)
     (simp_all add: flagsAsDesigned_def counterFlags_def envFlags_def
        processContractCallParams_def)?

lemma ro_op_STATICCALL [ro_handlers]: "recordsOnly (flagsAsDesigned env False) (op_STATICCALL env)"
  unfolding op_STATICCALL_def Let_def
  by (intro ro_intros)
     (simp_all add: flagsAsDesigned_def counterFlags_def envFlags_def
        processContractCallParams_def)?

lemma ro_op_RETURN [ro_handlers]: "recordsOnly (flagsAsDesigned env b) (op_RETURN env)"
  unfolding op_RETURN_def Let_def
  by (intro ro_intros)
     (simp_all add: flagsAsDesigned_def counterFlags_def envFlags_def
        processContractCallParams_def)?

lemma ro_op_REVERT [ro_handlers]: "recordsOnly (flagsAsDesigned env b) (op_REVERT env)"
  unfolding op_REVERT_def Let_def
  by (intro ro_intros)
     (simp_all add: flagsAsDesigned_def counterFlags_def envFlags_def
        processContractCallParams_def)?

lemma ro_op_SELFDESTRUCT [ro_handlers]: "recordsOnly (flagsAsDesigned env b) (op_SELFDESTRUCT env)"
  unfolding op_SELFDESTRUCT_def Let_def
  by (intro ro_intros)
     (simp_all add: flagsAsDesigned_def counterFlags_def envFlags_def
        processContractCallParams_def)?

text \<open>Every entry of the initial table records counters with the designed flags;
  \<open>subCreate\<close> is true for \<open>CREATE\<close> (0xf0) only.\<close>

lemma handlers_init_flags:
  "list_all (\<lambda>(op, h). recordsOnly (flagsAsDesigned env (op = 0xf0)) (h env)) handlers_init"
  by (simp add: handlers_init_def ro_handlers)

text \<open>Where an entry of the final table comes from.\<close>

lemma handlers_in_init:
  assumes "handlers op = Some h"
  shows "(op, h) \<in> set handlers_init
       \<or> (0x61 \<le> op \<and> op < 0x80 \<and> h = op_PUSH)
       \<or> (0x81 \<le> op \<and> op < 0x90 \<and> h = op_DUP)
       \<or> (0x91 \<le> op \<and> op < 0xa0 \<and> h = op_SWAP)
       \<or> (0xa1 \<le> op \<and> op < 0xa5 \<and> h = op_LOG)"
proof -
  have "map_of handlers_init op = Some h \<Longrightarrow> (op, h) \<in> set handlers_init"
    by (rule map_of_SomeD)
  with assms show ?thesis
    unfolding handlers_apply by (simp split: if_splits)
qed

lemma family_members:
  "(0x60, op_PUSH) \<in> set handlers_init" "(0x80, op_DUP) \<in> set handlers_init"
  "(0x90, op_SWAP) \<in> set handlers_init" "(0xa0, op_LOG) \<in> set handlers_init"
  by (simp_all add: handlers_init_def)

lemma handlers_closures:
  "(handlers :: nat \<rightharpoonup> 'r handler) 0xf0 = Some op_CREATE"
  "(handlers :: nat \<rightharpoonup> 'r handler) 0xf1 = Some op_CALL"
  "(handlers :: nat \<rightharpoonup> 'r handler) 0x37 = Some op_CALLDATACOPY"
  "(handlers :: nat \<rightharpoonup> 'r handler) 0x01 = Some op_ADD"
  by (simp_all add: handlers_apply handlers_init_def)

lemmas run_defs =
  monad_defs eeiDo_def eeiSubCall_def takeMessageGasLimit_def readSlice_def
  writeCallOutput_def toNumber_def toArrayLikeLen_def toArrayLike_def byteLength_def
  beBytes_pos setLengthLeft_def envFlags_def Let_def

text \<open>
  Claim C2, as amended. For every opcode the table has a handler for, every frame
  environment and every run state, the handler only appends counters, and every
  counter it appends, whether the handler returns or traps afterwards, carries these
  flags: a self-counter stores the \<open>isCreate\<close> and \<open>isDeploy\<close> flags of the frame
  environment that executes the opcode; the \<open>_processContractCall\<close> counter that the
  call and create handlers record in addition stores constants that describe the
  sub-call, \<open>isDeploy\<close> false and \<open>isCreate\<close> true for \<open>CREATE\<close> (0xf0) and false for
  \<open>CREATE2\<close> and the four calls.
\<close>

theorem counter_flags:
  assumes "handlers op = Some h"
  shows "\<exists>cs. vcm (snd (h env s)) = vcm s @ cs
              \<and> list_all (flagsAsDesigned env (op = 0xf0)) cs"
proof -
  have all: "recordsOnly (flagsAsDesigned env (op' = 0xf0)) (h' env)"
    if "(op', h') \<in> set handlers_init" for op' and h' :: "'a handler"
    using handlers_init_flags [of env] that unfolding list_all_iff by blast
  have "recordsOnly (flagsAsDesigned env (op = 0xf0)) (h env)"
    using handlers_in_init [OF assms]
  proof (elim disjE conjE)
    assume "(op, h) \<in> set handlers_init"
    then show ?thesis by (rule all)
  next
    assume "0x61 \<le> op" "op < 0x80" "h = op_PUSH"
    then show ?thesis using all [OF family_members(1)] by simp
  next
    assume "0x81 \<le> op" "op < 0x90" "h = op_DUP"
    then show ?thesis using all [OF family_members(2)] by simp
  next
    assume "0x91 \<le> op" "op < 0xa0" "h = op_SWAP"
    then show ?thesis using all [OF family_members(3)] by simp
  next
    assume "0xa1 \<le> op" "op < 0xa5" "h = op_LOG"
    then show ?thesis using all [OF family_members(4)] by simp
  qed
  then show ?thesis
    unfolding recordsOnly_def by blast
qed

theorem counter_flags_witness:
  "(\<exists>cs. vcm (snd (op_CREATE env0 (s0\<lparr>stack := [0, 0, 0]\<rparr>))) = vcm s0 @ cs
         \<and> list_all (flagsAsDesigned env0 True) cs)
   \<and> (\<exists>cs. vcm (snd (op_ADD env0 (s0\<lparr>stack := [1, 2]\<rparr>))) = vcm s0 @ cs
         \<and> list_all (flagsAsDesigned env0 False) cs)"
  using counter_flags [OF handlers_closures(1), where env = env0 and s = "s0\<lparr>stack := [0, 0, 0]\<rparr>"]
        counter_flags [OF handlers_closures(4), where env = env0 and s = "s0\<lparr>stack := [1, 2]\<rparr>"]
  by simp

text \<open>
  The claim as first stated says that every counter stores the flags of the frame.
  \<open>CREATE\<close> in a frame whose \<open>isCreate\<close> flag is false records \<open>_processContractCall\<close>
  with \<open>isCreate\<close> true, and \<open>CALL\<close> in a frame whose two flags are true records it
  with both false.
\<close>

theorem counter_flags_counterexample:
  "handlers 0xf0 = Some (op_CREATE :: unit handler)
   \<and> (isCreate env0, isDeploy env0) = (False, False)
   \<and> map (\<lambda>c. (fname c, counterFlags c))
         (vcm (snd (op_CREATE env0 (s0\<lparr>stack := [0, 0, 0]\<rparr>))))
       = [(''opCreate'', Some (PBool False), Some (PBool False)),
          (''_processContractCall'', Some (PBool True), Some (PBool False))]
   \<and> handlers 0xf1 = Some (op_CALL :: unit handler)
   \<and> map (\<lambda>c. (fname c, counterFlags c))
         (vcm (snd (op_CALL (env0\<lparr>isCreate := True, isDeploy := True\<rparr>)
                            (s0\<lparr>stack := [0, 5, 0, 0, 0, 0, 0]\<rparr>))))
       = [(''opCall'', Some (PBool True), Some (PBool True)),
          (''_processContractCall'', Some (PBool False), Some (PBool False))]"
  by (simp add: handlers_closures op_CREATE_def op_CALL_def run_defs counterFlags_def
        processContractCallParams_def env0_def s0_def)

section \<open>State changes in a static frame\<close>

text \<open>Of the handlers, only \<open>CREATE2\<close> tests \<open>runState.eei.isStatic()\<close> itself: in a
  static frame it traps with the run state untouched.\<close>

lemma create2_static_traps:
  "isStatic env \<Longrightarrow> op_CREATE2 env s = (Inl STATIC_STATE_CHANGE, s)"
  by (simp add: op_CREATE2_def monad_defs)

text \<open>The other state-changing handlers never read the static flag: for them the
  test is made before the handler is invoked.\<close>

lemma static_flag_not_read:
  "op_SSTORE (env\<lparr>isStatic := b\<rparr>) = op_SSTORE env"
  "op_LOG (env\<lparr>isStatic := b\<rparr>) = op_LOG env"
  "op_CREATE (env\<lparr>isStatic := b\<rparr>) = op_CREATE env"
  "op_SELFDESTRUCT (env\<lparr>isStatic := b\<rparr>) = op_SELFDESTRUCT env"
  "op_CALL (env\<lparr>isStatic := b\<rparr>) = op_CALL env"
  by (simp_all add: op_SSTORE_def op_LOG_def op_CREATE_def op_SELFDESTRUCT_def op_CALL_def
        envFlags_def eeiSubCall_def Let_def cong: if_cong)




section \<open>The number of counters an opcode records\<close>

text \<open>Rules that follow the structure of a handler, with the names recorded so far
  carried along: the primitives leave \<open>vcm\<close> alone and trap with known codes,
  \<open>computeFunctionCounters\<close> adds its name.\<close>

lemma mapE_toArrayLikeLen_error:
  "mapE (\<lambda>a. toArrayLikeLen a n) xs = Inl e \<Longrightarrow> e = JS_ASSERT"
  by (induction xs arbitrary: e)
     (auto simp add: toArrayLikeLen_def Let_def split: if_splits sum.splits)

lemma bnOfHexFrom_error: "bnOfHexFrom acc str = Inl e \<Longrightarrow> e = JS_ASSERT"
  by (induction str arbitrary: acc) (auto split: option.splits)

lemma quiet_prims:
  "quiet {} (returnM x)"
  "quiet {} (getS g)"
  "quiet {STACK_OVERFLOW} (push v)"
  "quiet {STACK_UNDERFLOW} pop"
  "quiet {STACK_UNDERFLOW} (popN k)"
  "quiet {STACK_UNDERFLOW, STACK_OVERFLOW} (dup n)"
  "quiet {STACK_UNDERFLOW} (swap n)"
  "quiet {} (memExtend a b)"
  "quiet {} (memRead a b)"
  "quiet {} (memWrite a b d)"
  "quiet {OUT_OF_GAS} (useGas amount)"
  "quiet {} (eeiDo c)"
  "quiet {} (eeiSubCall env c')"
  "quiet {} takeMessageGasLimit"
  "quiet {e} (whenM cond (trap e))"
  "quiet {} (modifyS (\<lambda>s. s\<lparr>programCounter := pc s\<rparr>))"
  "quiet {} (modifyS (\<lambda>s. s\<lparr>returnStack := rs s\<rparr>))"
  "quiet {} (modifyS (\<lambda>s. s\<lparr>returnStack := rs s, programCounter := j\<rparr>))"
  "quiet {STOP} (eeiFinish buf)"
  "quiet {REVERT} (eeiRevert buf)"
  "quiet {STOP} (eeiSelfDestruct buf)"
  "quiet {JS_ASSERT} (liftE (toNumber n))"
  "quiet {JS_ASSERT} (liftE (toArrayLikeLen n len))"
  "quiet UNIV (liftE (getDataSlice env buf off len))"
  by (simp_all add: quiet_def returnM_def trap_def liftE_def getS_def push_def pop_def
        popN_def dup_def swap_def memExtend_def memRead_def memWrite_def useGas_def
        eeiDo_def eeiSubCall_def takeMessageGasLimit_def whenM_def modifyS_def Let_def
        eeiFinish_def eeiRevert_def eeiSelfDestruct_def toNumber_def toArrayLikeLen_def
        split: list.splits)

lemma quiet_lifted:
  "quiet {JS_ASSERT} (liftE (bnOfHex str))"
  "quiet {JS_ASSERT} (liftE (mapE (\<lambda>a. toArrayLikeLen a n) xs))"
  by (auto simp add: quiet_def liftE_def bnOfHex_def
        dest: bnOfHexFrom_error mapE_toArrayLikeLen_error)

lemma quiet_helpers:
  "quiet {JS_ASSERT} (readSlice a b)"
  "quiet {JS_ASSERT} (writeCopied a b d)"
  "quiet {JS_ASSERT} (writeCallOutput a b)"
  by (auto simp add: quiet_def readSlice_def writeCopied_def writeCallOutput_def Let_def
        bindM_def thenM_def liftE_def toNumber_def memRead_def memExtend_def memWrite_def
        getS_def modifyS_def returnM_def whenM_def)

lemma emitsAfterD:
  "emitsAfter pre ns E m \<Longrightarrow> m s = (r, s') \<Longrightarrow>
     \<exists>cs rest. vcm s' = vcm s @ cs \<and> pre @ map fname cs @ rest = ns
              \<and> (rest = [] \<or> (\<exists>e. r = Inl e \<and> e \<in> E))"
  unfolding emitsAfter_def by (elim allE impE) assumption

text \<open>A trap that leaves names unrecorded must be one of \<open>E\<close>, and the names recorded
  so far must begin \<open>ns\<close>.\<close>

lemma ea_stop_here:
  assumes "pre = ns \<or> (e \<in> E \<and> take (length pre) ns = pre)"
  shows "\<exists>cs rest. vcm s = vcm s @ cs \<and> pre @ map fname cs @ rest = ns
                  \<and> (rest = [] \<or> (\<exists>e'. (Inl e :: ERROR + 'a) = Inl e' \<and> e' \<in> E))"
proof (cases "pre = ns")
  case True
  then show ?thesis by simp
next
  case False
  with assms have e: "e \<in> E" and p: "take (length pre) ns = pre" by simp_all
  have "pre @ drop (length pre) ns = ns"
    using append_take_drop_id [of "length pre" ns] p by simp
  with e have "vcm s = vcm s @ [] \<and> pre @ map fname [] @ drop (length pre) ns = ns
             \<and> (drop (length pre) ns = [] \<or> (\<exists>e'. (Inl e :: ERROR + 'a) = Inl e' \<and> e' \<in> E))"
    by simp
  then show ?thesis by blast
qed

lemma ea_bind:
  assumes q: "quiet X m"
    and side: "pre = ns \<or> (X \<subseteq> E \<and> take (length pre) ns = pre)"
    and k: "\<And>x. emitsAfter pre ns E (f x)"
  shows "emitsAfter pre ns E (bindM m f)"
  unfolding emitsAfter_def
proof (intro allI impI)
  fix s r s'
  assume run: "bindM m f s = (r, s')"
  obtain r1 s1 where m: "m s = (r1, s1)" by (cases "m s")
  from q m have v: "vcm s1 = vcm s" and x: "\<And>e. r1 = Inl e \<Longrightarrow> e \<in> X"
    unfolding quiet_def by (metis snd_conv, metis fst_conv)
  show "\<exists>cs rest. vcm s' = vcm s @ cs \<and> pre @ map fname cs @ rest = ns
                 \<and> (rest = [] \<or> (\<exists>e. r = Inl e \<and> e \<in> E))"
  proof (cases r1)
    case (Inl e)
    with run m have r: "r = Inl e" "s' = s1" by (simp_all add: bindM_def)
    from x [OF Inl] side have "pre = ns \<or> (e \<in> E \<and> take (length pre) ns = pre)" by blast
    from ea_stop_here [OF this, of s1] show ?thesis
      unfolding r v by (simp only: v)
  next
    case (Inr y)
    with run m have "f y s1 = (r, s')" by (simp add: bindM_def)
    from emitsAfterD [OF k this] show ?thesis unfolding v .
  qed
qed

lemma ea_bind_total:
  assumes q: "quiet {} m" and k: "\<And>x. emitsAfter pre ns E (f x)"
  shows "emitsAfter pre ns E (bindM m f)"
  unfolding emitsAfter_def
proof (intro allI impI)
  fix s r s'
  assume run: "bindM m f s = (r, s')"
  obtain r1 s1 where m: "m s = (r1, s1)" by (cases "m s")
  from q m have v: "vcm s1 = vcm s" and x: "\<And>e. r1 \<noteq> Inl e"
    unfolding quiet_def by (metis snd_conv, metis fst_conv empty_iff)
  from x obtain y where "r1 = Inr y" by (cases r1) auto
  with run m have "f y s1 = (r, s')" by (simp add: bindM_def)
  from emitsAfterD [OF k this]
  show "\<exists>cs rest. vcm s' = vcm s @ cs \<and> pre @ map fname cs @ rest = ns
                 \<and> (rest = [] \<or> (\<exists>e. r = Inl e \<and> e \<in> E))"
    unfolding v .
qed

lemma ea_then:
  "quiet X m \<Longrightarrow> pre = ns \<or> (X \<subseteq> E \<and> take (length pre) ns = pre) \<Longrightarrow>
     emitsAfter pre ns E k \<Longrightarrow> emitsAfter pre ns E (thenM m k)"
  unfolding thenM_def by (rule ea_bind)

lemma ea_then_total:
  "quiet {} m \<Longrightarrow> emitsAfter pre ns E k \<Longrightarrow> emitsAfter pre ns E (thenM m k)"
  unfolding thenM_def by (rule ea_bind_total)

lemma ea_then_record:
  assumes "emitsAfter (pre @ [name]) ns E k"
  shows "emitsAfter pre ns E (thenM (computeFunctionCounters name ps) k)"
  unfolding emitsAfter_def
proof (intro allI impI)
  fix s r s'
  let ?c = "\<lparr>fname = name, params = ps\<rparr>"
  assume "thenM (computeFunctionCounters name ps) k s = (r, s')"
  then have "k (s\<lparr>vcm := vcm s @ [?c]\<rparr>) = (r, s')"
    by (simp add: thenM_def bindM_def computeFunctionCounters_def modifyS_def)
  from emitsAfterD [OF assms this]
  obtain cs rest where "vcm s' = vcm s @ ?c # cs" "pre @ map fname (?c # cs) @ rest = ns"
      "rest = [] \<or> (\<exists>e. r = Inl e \<and> e \<in> E)"
    by auto
  then show "\<exists>cs rest. vcm s' = vcm s @ cs \<and> pre @ map fname cs @ rest = ns
                 \<and> (rest = [] \<or> (\<exists>e. r = Inl e \<and> e \<in> E))"
    by blast
qed

lemma ea_trap:
  assumes "pre = ns \<or> (e \<in> E \<and> take (length pre) ns = pre)"
  shows "emitsAfter pre ns E (trap e)"
  unfolding emitsAfter_def
proof (intro allI impI)
  fix s :: RunState and r :: "ERROR + 'a" and s'
  assume "trap e s = (r, s')"
  then have r: "r = Inl e" "s' = s" by (simp_all add: trap_def)
  from ea_stop_here [OF assms, of s]
  show "\<exists>cs rest. vcm s' = vcm s @ cs \<and> pre @ map fname cs @ rest = ns
                 \<and> (rest = [] \<or> (\<exists>e. r = Inl e \<and> e \<in> E))"
    unfolding r .
qed

lemma ea_leaf:
  "pre = ns \<Longrightarrow> emitsAfter pre ns E (returnM x)"
  "pre = ns \<Longrightarrow> emitsAfter pre ns E retVoid"
  "pre = ns \<Longrightarrow> emitsAfter pre ns E (pushRet v)"
  by (auto simp add: emitsAfter_def returnM_def retVoid_def pushRet_def thenM_def bindM_def
        push_def split: if_splits)

lemma ea_if:
  "emitsAfter pre ns E a \<Longrightarrow> emitsAfter pre ns E b \<Longrightarrow>
     emitsAfter pre ns E (if c then a else b)"
  by simp

lemma ea_case_list:
  "emitsAfter pre ns E a \<Longrightarrow> (\<And>x xs. emitsAfter pre ns E (b x xs)) \<Longrightarrow>
     emitsAfter pre ns E (case l of [] \<Rightarrow> a | x # xs \<Rightarrow> b x xs)"
  by (cases l) simp_all

lemmas ea_intros =
  ea_then_record ea_leaf ea_trap ea_if ea_case_list
  ea_then_total [OF quiet_prims(8)]
  ea_then_total [OF quiet_prims(10)]
  ea_then_total [OF quiet_prims(12)]
  ea_then_total [OF quiet_prims(16)]
  ea_then_total [OF quiet_prims(17)]
  ea_then_total [OF quiet_prims(18)]
  ea_then [OF quiet_prims(3)]
  ea_then [OF quiet_prims(6)]
  ea_then [OF quiet_prims(7)]
  ea_then [OF quiet_prims(11)]
  ea_then [OF quiet_prims(15)]
  ea_then [OF quiet_prims(19)]
  ea_then [OF quiet_prims(20)]
  ea_then [OF quiet_prims(21)]
  ea_then [OF quiet_helpers(2)]
  ea_then [OF quiet_helpers(3)]
  ea_bind_total [OF quiet_prims(1)]
  ea_bind_total [OF quiet_prims(2)]
  ea_bind_total [OF quiet_prims(9)]
  ea_bind_total [OF quiet_prims(13)]
  ea_bind_total [OF quiet_prims(14)]
  ea_bind [OF quiet_prims(4)]
  ea_bind [OF quiet_prims(5)]
  ea_bind [OF quiet_prims(22)]
  ea_bind [OF quiet_prims(23)]
  ea_bind [OF quiet_prims(24)]
  ea_bind [OF quiet_lifted(1)]
  ea_bind [OF quiet_lifted(2)]
  ea_bind [OF quiet_helpers(1)]

text \<open>A copy handler: nothing is recorded when the length operand is zero, and the
  length operand is the last one popped.\<close>

lemma ea_copy:
  assumes body: "\<And>xs. emitsAfter [] [name] E (A xs)"
    and n: "n = Suc k"
    and run: "bindM (popN n) (\<lambda>xs. if xs ! k \<noteq> 0 then A xs else retVoid) s = (r, s')"
  shows "\<exists>cs rest. vcm s' = vcm s @ cs
           \<and> [] @ map fname cs @ rest = (if operand k s = 0 then [] else [name])
           \<and> (rest = [] \<or> (\<exists>e. r = Inl e \<and> e \<in> E))"
proof (cases "length (stack s) < n")
  case True
  with run have "s' = s" by (simp add: bindM_def popN_def)
  moreover from True n have "operand k s = 0" by (simp add: operand_def)
  ultimately show ?thesis by simp
next
  case False
  let ?xs = "take n (stack s)"
  let ?s1 = "s\<lparr>stack := drop n (stack s)\<rparr>"
  have op: "operand k s = ?xs ! k"
    using False n by (simp add: operand_def)
  from run False have r: "(if ?xs ! k \<noteq> 0 then A ?xs else retVoid) ?s1 = (r, s')"
    by (simp add: bindM_def popN_def)
  show ?thesis
  proof (cases "?xs ! k = 0")
    case True
    with r have "s' = ?s1" by (simp add: retVoid_def returnM_def)
    with True op show ?thesis by simp
  next
    case False
    with r have a: "A ?xs ?s1 = (r, s')" by simp
    from emitsAfterD [OF body a] obtain cs rest where "vcm s' = vcm ?s1 @ cs"
        "[] @ map fname cs @ rest = [name]" "rest = [] \<or> (\<exists>e. r = Inl e \<and> e \<in> E)"
      by blast
    with False op show ?thesis by auto
  qed
qed

named_theorems ea_handlers


lemma ea_op_STOP [ea_handlers]: "emitsAfter [] [''opStop''] {} (op_STOP env)"
  unfolding op_STOP_def Let_def
  by (intro ea_intros) simp_all?

lemma ea_op_ADD [ea_handlers]: "emitsAfter [] [''opAdd''] {} (op_ADD env)"
  unfolding op_ADD_def Let_def
  by (intro ea_intros) simp_all?

lemma ea_op_MUL [ea_handlers]: "emitsAfter [] [''opMul''] {} (op_MUL env)"
  unfolding op_MUL_def Let_def
  by (intro ea_intros) simp_all?

lemma ea_op_SUB [ea_handlers]: "emitsAfter [] [''opSub''] {} (op_SUB env)"
  unfolding op_SUB_def Let_def
  by (intro ea_intros) simp_all?

lemma ea_op_DIV [ea_handlers]: "emitsAfter [] [''opDiv''] {} (op_DIV env)"
  unfolding op_DIV_def Let_def
  by (intro ea_intros) simp_all?

lemma ea_op_SDIV [ea_handlers]: "emitsAfter [] [''opSDiv''] {} (op_SDIV env)"
  unfolding op_SDIV_def Let_def
  by (intro ea_intros) simp_all?

lemma ea_op_MOD [ea_handlers]: "emitsAfter [] [''opMod''] {} (op_MOD env)"
  unfolding op_MOD_def Let_def
  by (intro ea_intros) simp_all?

lemma ea_op_SMOD [ea_handlers]: "emitsAfter [] [''opSMod''] {} (op_SMOD env)"
  unfolding op_SMOD_def Let_def
  by (intro ea_intros) simp_all?

lemma ea_op_ADDMOD [ea_handlers]: "emitsAfter [] [''opAddMod''] {} (op_ADDMOD env)"
  unfolding op_ADDMOD_def Let_def
  by (intro ea_intros) simp_all?

lemma ea_op_MULMOD [ea_handlers]: "emitsAfter [] [''opMulMod''] {} (op_MULMOD env)"
  unfolding op_MULMOD_def Let_def
  by (intro ea_intros) simp_all?

lemma ea_op_EXP [ea_handlers]: "emitsAfter [] [''opExp''] {STACK_UNDERFLOW} (op_EXP env)"
  unfolding op_EXP_def Let_def
  by (intro ea_intros) simp_all?

lemma ea_op_SIGNEXTEND [ea_handlers]: "emitsAfter [] [''opSignExtend''] {} (op_SIGNEXTEND env)"
  unfolding op_SIGNEXTEND_def Let_def
  by (intro ea_intros) simp_all?

lemma ea_op_LT [ea_handlers]: "emitsAfter [] [''opLT''] {} (op_LT env)"
  unfolding op_LT_def Let_def
  by (intro ea_intros) simp_all?

lemma ea_op_GT [ea_handlers]: "emitsAfter [] [''opGT''] {} (op_GT env)"
  unfolding op_GT_def Let_def
  by (intro ea_intros) simp_all?

lemma ea_op_SLT [ea_handlers]: "emitsAfter [] [''opSLT''] {} (op_SLT env)"
  unfolding op_SLT_def Let_def
  by (intro ea_intros) simp_all?

lemma ea_op_SGT [ea_handlers]: "emitsAfter [] [''opSGT''] {} (op_SGT env)"
  unfolding op_SGT_def Let_def
  by (intro ea_intros) simp_all?

lemma ea_op_EQ [ea_handlers]: "emitsAfter [] [''opEq''] {} (op_EQ env)"
  unfolding op_EQ_def Let_def
  by (intro ea_intros) simp_all?

lemma ea_op_ISZERO [ea_handlers]: "emitsAfter [] [''opIsZero''] {} (op_ISZERO env)"
  unfolding op_ISZERO_def Let_def
  by (intro ea_intros) simp_all?

lemma ea_op_AND [ea_handlers]: "emitsAfter [] [''opAnd''] {} (op_AND env)"
  unfolding op_AND_def Let_def
  by (intro ea_intros) simp_all?

lemma ea_op_OR [ea_handlers]: "emitsAfter [] [''opOr''] {} (op_OR env)"
  unfolding op_OR_def Let_def
  by (intro ea_intros) simp_all?

lemma ea_op_XOR [ea_handlers]: "emitsAfter [] [''opXor''] {} (op_XOR env)"
  unfolding op_XOR_def Let_def
  by (intro ea_intros) simp_all?

lemma ea_op_NOT [ea_handlers]: "emitsAfter [] [''opNot''] {} (op_NOT env)"
  unfolding op_NOT_def Let_def
  by (intro ea_intros) simp_all?

lemma ea_op_BYTE [ea_handlers]: "emitsAfter [] [''opByte''] {} (op_BYTE env)"
  unfolding op_BYTE_def Let_def
  by (intro ea_intros) simp_all?

lemma ea_op_SHL [ea_handlers]: "emitsAfter [] [''opSHL''] {} (op_SHL env)"
  unfolding op_SHL_def Let_def
  by (intro ea_intros) simp_all?

lemma ea_op_SHR [ea_handlers]: "emitsAfter [] [''opSHR''] {} (op_SHR env)"
  unfolding op_SHR_def Let_def
  by (intro ea_intros) simp_all?

lemma ea_op_SAR [ea_handlers]: "emitsAfter [] [''opSAR''] {} (op_SAR env)"
  unfolding op_SAR_def Let_def
  by (intro ea_intros) simp_all?

lemma ea_op_SHA3 [ea_handlers]:
  "emitsAfter [] [''opSha3''] {STACK_UNDERFLOW, JS_ASSERT} (op_SHA3 env)"
  unfolding op_SHA3_def Let_def
  by (intro ea_intros) simp_all?

lemma ea_op_ADDRESS [ea_handlers]: "emitsAfter [] [''opAddress''] {} (op_ADDRESS env)"
  unfolding op_ADDRESS_def Let_def
  by (intro ea_intros) simp_all?

lemma ea_op_BALANCE [ea_handlers]: "emitsAfter [] [''opBalance''] {} (op_BALANCE env)"
  unfolding op_BALANCE_def Let_def
  by (intro ea_intros) simp_all?

lemma ea_op_ORIGIN [ea_handlers]: "emitsAfter [] [''opOrigin''] {} (op_ORIGIN env)"
  unfolding op_ORIGIN_def Let_def
  by (intro ea_intros) simp_all?

lemma ea_op_CALLER [ea_handlers]: "emitsAfter [] [''opCaller''] {} (op_CALLER env)"
  unfolding op_CALLER_def Let_def
  by (intro ea_intros) simp_all?

lemma ea_op_CALLVALUE [ea_handlers]: "emitsAfter [] [''opCallValue''] {} (op_CALLVALUE env)"
  unfolding op_CALLVALUE_def Let_def
  by (intro ea_intros) simp_all?

lemma ea_op_CALLDATALOAD [ea_handlers]:
  "emitsAfter [] [''opCalldataLoad''] {} (op_CALLDATALOAD env)"
  unfolding op_CALLDATALOAD_def Let_def
  by (intro ea_intros) simp_all?

lemma ea_op_CALLDATASIZE [ea_handlers]:
  "emitsAfter [] [''opCalldataSize''] {} (op_CALLDATASIZE env)"
  unfolding op_CALLDATASIZE_def Let_def
  by (intro ea_intros) simp_all?

lemma ea_op_CODESIZE [ea_handlers]: "emitsAfter [] [''opCodeSize''] {} (op_CODESIZE env)"
  unfolding op_CODESIZE_def Let_def
  by (intro ea_intros) simp_all?

lemma ea_op_EXTCODESIZE [ea_handlers]:
  "emitsAfter [] [''opExtCodeSize''] {} (op_EXTCODESIZE env)"
  unfolding op_EXTCODESIZE_def Let_def
  by (intro ea_intros) simp_all?

lemma ea_op_EXTCODEHASH [ea_handlers]:
  "emitsAfter [] [''opExtCodeHash''] {} (op_EXTCODEHASH env)"
  unfolding op_EXTCODEHASH_def Let_def
  by (intro ea_intros) simp_all?

lemma ea_op_RETURNDATASIZE [ea_handlers]:
  "emitsAfter [] [''opReturnDataSize''] {} (op_RETURNDATASIZE env)"
  unfolding op_RETURNDATASIZE_def Let_def
  by (intro ea_intros) simp_all?

lemma ea_op_GASPRICE [ea_handlers]: "emitsAfter [] [''opGasPrice''] {} (op_GASPRICE env)"
  unfolding op_GASPRICE_def Let_def
  by (intro ea_intros) simp_all?

lemma ea_op_BLOCKHASH [ea_handlers]: "emitsAfter [] [''opBlockHash''] {} (op_BLOCKHASH env)"
  unfolding op_BLOCKHASH_def Let_def
  by (intro ea_intros) simp_all?

lemma ea_op_COINBASE [ea_handlers]: "emitsAfter [] [''opCoinbase''] {} (op_COINBASE env)"
  unfolding op_COINBASE_def Let_def
  by (intro ea_intros) simp_all?

lemma ea_op_TIMESTAMP [ea_handlers]: "emitsAfter [] [''opTimestamp''] {} (op_TIMESTAMP env)"
  unfolding op_TIMESTAMP_def Let_def
  by (intro ea_intros) simp_all?

lemma ea_op_NUMBER [ea_handlers]: "emitsAfter [] [''opNumber''] {} (op_NUMBER env)"
  unfolding op_NUMBER_def Let_def
  by (intro ea_intros) simp_all?

lemma ea_op_DIFFICULTY [ea_handlers]: "emitsAfter [] [''opDifficulty''] {} (op_DIFFICULTY env)"
  unfolding op_DIFFICULTY_def Let_def
  by (intro ea_intros) simp_all?

lemma ea_op_GASLIMIT [ea_handlers]: "emitsAfter [] [''opGasLimit''] {} (op_GASLIMIT env)"
  unfolding op_GASLIMIT_def Let_def
  by (intro ea_intros) simp_all?

lemma ea_op_CHAINID [ea_handlers]: "emitsAfter [] [''opChainId''] {} (op_CHAINID env)"
  unfolding op_CHAINID_def Let_def
  by (intro ea_intros) simp_all?

lemma ea_op_SELFBALANCE [ea_handlers]:
  "emitsAfter [] [''opSelfBalance''] {} (op_SELFBALANCE env)"
  unfolding op_SELFBALANCE_def Let_def
  by (intro ea_intros) simp_all?

lemma ea_op_BASEFEE [ea_handlers]: "emitsAfter [] [''opBaseFee''] {} (op_BASEFEE env)"
  unfolding op_BASEFEE_def Let_def
  by (intro ea_intros) simp_all?

lemma ea_op_POP [ea_handlers]: "emitsAfter [] [''opPop''] {} (op_POP env)"
  unfolding op_POP_def Let_def
  by (intro ea_intros) simp_all?

lemma ea_op_MLOAD [ea_handlers]: "emitsAfter [] [''opMLoad''] {} (op_MLOAD env)"
  unfolding op_MLOAD_def Let_def
  by (intro ea_intros) simp_all?

lemma ea_op_MSTORE [ea_handlers]: "emitsAfter [] [''opMStore''] {} (op_MSTORE env)"
  unfolding op_MSTORE_def Let_def
  by (intro ea_intros) simp_all?

lemma ea_op_MSTORE8 [ea_handlers]: "emitsAfter [] [''opMStore8''] {} (op_MSTORE8 env)"
  unfolding op_MSTORE8_def Let_def
  by (intro ea_intros) simp_all?

lemma ea_op_SLOAD [ea_handlers]: "emitsAfter [] [''opSLoad''] {} (op_SLOAD env)"
  unfolding op_SLOAD_def Let_def
  by (intro ea_intros) simp_all?

lemma ea_op_SSTORE [ea_handlers]: "emitsAfter [] [''opSStore''] {} (op_SSTORE env)"
  unfolding op_SSTORE_def Let_def
  by (intro ea_intros) simp_all?

lemma ea_op_JUMP [ea_handlers]: "emitsAfter [] [''opJump''] {} (op_JUMP env)"
  unfolding op_JUMP_def Let_def
  by (intro ea_intros) simp_all?

lemma ea_op_JUMPI [ea_handlers]: "emitsAfter [] [''opJumpI''] {} (op_JUMPI env)"
  unfolding op_JUMPI_def Let_def
  by (intro ea_intros) simp_all?

lemma ea_op_PC [ea_handlers]: "emitsAfter [] [''opPC''] {} (op_PC env)"
  unfolding op_PC_def Let_def
  by (intro ea_intros) simp_all?

lemma ea_op_MSIZE [ea_handlers]: "emitsAfter [] [''opMSize''] {} (op_MSIZE env)"
  unfolding op_MSIZE_def Let_def
  by (intro ea_intros) simp_all?

lemma ea_op_GAS [ea_handlers]: "emitsAfter [] [''opGas''] {} (op_GAS env)"
  unfolding op_GAS_def Let_def
  by (intro ea_intros) simp_all?

lemma ea_op_JUMPDEST [ea_handlers]: "emitsAfter [] [''opJumpDest''] {} (op_JUMPDEST env)"
  unfolding op_JUMPDEST_def Let_def
  by (intro ea_intros) simp_all?

lemma ea_op_BEGINSUB [ea_handlers]: "emitsAfter [] [] {} (op_BEGINSUB env)"
  unfolding op_BEGINSUB_def Let_def
  by (intro ea_intros) simp_all?

lemma ea_op_RETURNSUB [ea_handlers]: "emitsAfter [] [] {} (op_RETURNSUB env)"
  unfolding op_RETURNSUB_def Let_def
  by (intro ea_intros) simp_all?

lemma ea_op_JUMPSUB [ea_handlers]: "emitsAfter [] [] {} (op_JUMPSUB env)"
  unfolding op_JUMPSUB_def Let_def
  by (intro ea_intros) simp_all?

lemma ea_op_PUSH0 [ea_handlers]: "emitsAfter [] [''opPush0''] {} (op_PUSH0 env)"
  unfolding op_PUSH0_def Let_def
  by (intro ea_intros) simp_all?

lemma ea_op_PUSH [ea_handlers]: "emitsAfter [] [''_opPush''] {} (op_PUSH env)"
  unfolding op_PUSH_def Let_def
  by (intro ea_intros) simp_all?

lemma ea_op_DUP [ea_handlers]: "emitsAfter [] [''_opDup''] {} (op_DUP env)"
  unfolding op_DUP_def Let_def
  by (intro ea_intros) simp_all?

lemma ea_op_SWAP [ea_handlers]: "emitsAfter [] [''_opSwap''] {} (op_SWAP env)"
  unfolding op_SWAP_def Let_def
  by (intro ea_intros) simp_all?

lemma ea_op_LOG [ea_handlers]:
  "emitsAfter [] [''_opLog''] {STACK_UNDERFLOW, JS_ASSERT} (op_LOG env)"
  unfolding op_LOG_def Let_def
  by (intro ea_intros) simp_all?

lemma ea_op_CREATE [ea_handlers]:
  "emitsAfter [] [''opCreate'', ''_processContractCall''] {STACK_UNDERFLOW, JS_ASSERT} (op_CREATE env)"
  unfolding op_CREATE_def Let_def
  by (intro ea_intros) simp_all?

lemma ea_op_CREATE2 [ea_handlers]:
  "emitsAfter [] [''opCreate2'', ''_processContractCall''] {STATIC_STATE_CHANGE, STACK_UNDERFLOW, JS_ASSERT} (op_CREATE2 env)"
  unfolding op_CREATE2_def Let_def
  by (intro ea_intros) simp_all?

lemma ea_op_CALL [ea_handlers]:
  "emitsAfter [] [''opCall'', ''_processContractCall''] {STACK_UNDERFLOW, JS_ASSERT} (op_CALL env)"
  unfolding op_CALL_def Let_def
  by (intro ea_intros) simp_all?

lemma ea_op_CALLCODE [ea_handlers]:
  "emitsAfter [] [''opCallCode'', ''_processContractCall''] {STACK_UNDERFLOW, JS_ASSERT} (op_CALLCODE env)"
  unfolding op_CALLCODE_def Let_def
  by (intro ea_intros) simp_all?

lemma ea_op_DELEGATECALL [ea_handlers]:
  "emitsAfter [] [''opDelegateCall'', ''_processContractCall''] {STACK_UNDERFLOW, JS_ASSERT} (op_DELEGATECALL env)"
  unfolding op_DELEGATECALL_def Let_def
  by (intro ea_intros) simp_all?

lemma ea_op_STATICCALL [ea_handlers]:
  "emitsAfter [] [''opStaticCall'', ''_processContractCall''] {STACK_UNDERFLOW, JS_ASSERT} (op_STATICCALL env)"
  unfolding op_STATICCALL_def Let_def
  by (intro ea_intros) simp_all?

lemma ea_op_RETURN [ea_handlers]:
  "emitsAfter [] [''opReturn''] {STACK_UNDERFLOW, JS_ASSERT} (op_RETURN env)"
  unfolding op_RETURN_def Let_def
  by (intro ea_intros) simp_all?

lemma ea_op_REVERT [ea_handlers]:
  "emitsAfter [] [''opRevert''] {STACK_UNDERFLOW, JS_ASSERT} (op_REVERT env)"
  unfolding op_REVERT_def Let_def
  by (intro ea_intros) simp_all?

lemma ea_op_SELFDESTRUCT [ea_handlers]:
  "emitsAfter [] [''opSendAll''] {} (op_SELFDESTRUCT env)"
  unfolding op_SELFDESTRUCT_def Let_def
  by (intro ea_intros) simp_all?

lemma ea_op_CALLDATACOPY:
  assumes "op_CALLDATACOPY env s = (r, s')"
  shows "\<exists>cs rest. vcm s' = vcm s @ cs
           \<and> [] @ map fname cs @ rest = (if operand 2 s = 0 then [] else [''opCalldataCopy''])
           \<and> (rest = [] \<or> (\<exists>e. r = Inl e \<and> e \<in> (UNIV :: ERROR set)))"
  using assms unfolding op_CALLDATACOPY_def Let_def
  by (rule ea_copy [rotated 2]) ((intro ea_intros, simp_all?)[1], simp)

lemma ea_op_CODECOPY:
  assumes "op_CODECOPY env s = (r, s')"
  shows "\<exists>cs rest. vcm s' = vcm s @ cs
           \<and> [] @ map fname cs @ rest = (if operand 2 s = 0 then [] else [''opCodeCopy''])
           \<and> (rest = [] \<or> (\<exists>e. r = Inl e \<and> e \<in> (UNIV :: ERROR set)))"
  using assms unfolding op_CODECOPY_def Let_def
  by (rule ea_copy [rotated 2]) ((intro ea_intros, simp_all?)[1], simp)

lemma ea_op_RETURNDATACOPY:
  assumes "op_RETURNDATACOPY env s = (r, s')"
  shows "\<exists>cs rest. vcm s' = vcm s @ cs
           \<and> [] @ map fname cs @ rest = (if operand 2 s = 0 then [] else [''opReturnDataCopy''])
           \<and> (rest = [] \<or> (\<exists>e. r = Inl e \<and> e \<in> (UNIV :: ERROR set)))"
  using assms unfolding op_RETURNDATACOPY_def Let_def
  by (rule ea_copy [rotated 2]) ((intro ea_intros, simp_all?)[1], simp)

lemma ea_op_EXTCODECOPY:
  assumes "op_EXTCODECOPY env s = (r, s')"
  shows "\<exists>cs rest. vcm s' = vcm s @ cs
           \<and> [] @ map fname cs @ rest = (if operand 3 s = 0 then [] else [''opExtCodeCopy''])
           \<and> (rest = [] \<or> (\<exists>e. r = Inl e \<and> e \<in> (UNIV :: ERROR set)))"
  using assms unfolding op_EXTCODECOPY_def Let_def
  by (rule ea_copy [rotated 2]) ((intro ea_intros, simp_all?)[1], simp)

text \<open>From the names a handler emits to the count of its table entry.\<close>

lemma names_of_pair:
  assumes "map fname cs @ rest = [a, ''_processContractCall'']"
    and "a \<noteq> ''_processContractCall''"
  shows "list_all (\<lambda>c. fname c \<noteq> ''_processContractCall'') (take 1 cs)
       \<and> list_all (\<lambda>c. fname c = ''_processContractCall'') (drop 1 cs)"
proof (cases cs)
  case Nil
  then show ?thesis by simp
next
  case (Cons c1 cs1)
  with assms have c1: "fname c1 = a" and r: "map fname cs1 @ rest = [''_processContractCall'']"
    by simp_all
  show ?thesis
  proof (cases cs1)
    case Nil
    with Cons c1 assms(2) show ?thesis by simp
  next
    case (Cons c2 cs2)
    with r have "fname c2 = ''_processContractCall''" "cs2 = []" by simp_all
    with Cons \<open>cs = c1 # cs1\<close> c1 assms(2) show ?thesis by simp
  qed
qed

lemma entry_names:
  assumes em: "\<And>env s r s'. h env s = (r, s') \<Longrightarrow>
                 \<exists>cs rest. vcm s' = vcm s @ cs \<and> [] @ map fname cs @ rest = nsf s
                          \<and> (rest = [] \<or> (\<exists>e. r = Inl e \<and> e \<in> E))"
    and n: "\<And>s. expectedCounters op s = length (nsf s)"
    and E: "E \<subseteq> earlyTraps op"
    and cc: "\<And>s. isCallOrCreate op \<Longrightarrow>
               \<exists>a. nsf s = [a, ''_processContractCall''] \<and> a \<noteq> ''_processContractCall''"
  shows "countsAsDesigned op h"
  unfolding countsAsDesigned_def
proof (intro allI impI)
  fix env s r s'
  assume "h env s = (r, s')"
  from em [OF this] obtain cs rest where cs: "vcm s' = vcm s @ cs"
      "map fname cs @ rest = nsf s" "rest = [] \<or> (\<exists>e. r = Inl e \<and> e \<in> E)"
    by auto
  have "length (map fname cs @ rest) = expectedCounters op s"
    unfolding cs(2) n ..
  then have len: "length cs + length rest = expectedCounters op s" by simp
  have count: "length cs = expectedCounters op s
             \<or> (\<exists>e. r = Inl e \<and> e \<in> earlyTraps op \<and> length cs < expectedCounters op s)"
  proof (cases "rest = []")
    case True
    with len show ?thesis by simp
  next
    case False
    with cs(3) E obtain e where "r = Inl e" "e \<in> earlyTraps op" by blast
    moreover from False len have "length cs < expectedCounters op s"
      by (cases rest) simp_all
    ultimately show ?thesis by blast
  qed
  have "list_all (\<lambda>c. fname c \<noteq> ''_processContractCall'') (take 1 cs)
      \<and> list_all (\<lambda>c. fname c = ''_processContractCall'') (drop 1 cs)"
    if "isCallOrCreate op"
  proof -
    from cc [OF that, of s] obtain a where "nsf s = [a, ''_processContractCall'']"
        "a \<noteq> ''_processContractCall''" by blast
    with cs(2) show ?thesis by (intro names_of_pair [of cs rest a]) simp_all
  qed
  with cs(1) count
  show "\<exists>cs. vcm s' = vcm s @ cs
           \<and> (length cs = expectedCounters op s
                \<or> (\<exists>e. r = Inl e \<and> e \<in> earlyTraps op \<and> length cs < expectedCounters op s))
           \<and> (isCallOrCreate op \<longrightarrow>
                 list_all (\<lambda>c. fname c \<noteq> ''_processContractCall'') (take 1 cs)
                 \<and> list_all (\<lambda>c. fname c = ''_processContractCall'') (drop 1 cs))"
    by blast
qed

lemma entry_fixed:
  assumes em: "\<And>env. emitsAfter [] ns E (h env)"
    and n: "\<And>s. expectedCounters op s = length ns"
    and E: "E \<subseteq> earlyTraps op"
    and cc: "isCallOrCreate op \<Longrightarrow>
               \<exists>a. ns = [a, ''_processContractCall''] \<and> a \<noteq> ''_processContractCall''"
  shows "countsAsDesigned op h"
  by (rule entry_names [where nsf = "\<lambda>_. ns" and E = E])
     (rule emitsAfterD [OF em], assumption, rule n, rule E, rule cc)

named_theorems cd_handlers

lemma cd_op_STOP [cd_handlers]: "countsAsDesigned 0x00 op_STOP"
  by (rule entry_fixed [OF ea_op_STOP])
     (simp_all add: expectedCounters_def isCallOrCreate_def earlyTraps_def)

lemma cd_op_ADD [cd_handlers]: "countsAsDesigned 0x01 op_ADD"
  by (rule entry_fixed [OF ea_op_ADD])
     (simp_all add: expectedCounters_def isCallOrCreate_def earlyTraps_def)

lemma cd_op_MUL [cd_handlers]: "countsAsDesigned 0x02 op_MUL"
  by (rule entry_fixed [OF ea_op_MUL])
     (simp_all add: expectedCounters_def isCallOrCreate_def earlyTraps_def)

lemma cd_op_SUB [cd_handlers]: "countsAsDesigned 0x03 op_SUB"
  by (rule entry_fixed [OF ea_op_SUB])
     (simp_all add: expectedCounters_def isCallOrCreate_def earlyTraps_def)

lemma cd_op_DIV [cd_handlers]: "countsAsDesigned 0x04 op_DIV"
  by (rule entry_fixed [OF ea_op_DIV])
     (simp_all add: expectedCounters_def isCallOrCreate_def earlyTraps_def)

lemma cd_op_SDIV [cd_handlers]: "countsAsDesigned 0x05 op_SDIV"
  by (rule entry_fixed [OF ea_op_SDIV])
     (simp_all add: expectedCounters_def isCallOrCreate_def earlyTraps_def)

lemma cd_op_MOD [cd_handlers]: "countsAsDesigned 0x06 op_MOD"
  by (rule entry_fixed [OF ea_op_MOD])
     (simp_all add: expectedCounters_def isCallOrCreate_def earlyTraps_def)

lemma cd_op_SMOD [cd_handlers]: "countsAsDesigned 0x07 op_SMOD"
  by (rule entry_fixed [OF ea_op_SMOD])
     (simp_all add: expectedCounters_def isCallOrCreate_def earlyTraps_def)

lemma cd_op_ADDMOD [cd_handlers]: "countsAsDesigned 0x08 op_ADDMOD"
  by (rule entry_fixed [OF ea_op_ADDMOD])
     (simp_all add: expectedCounters_def isCallOrCreate_def earlyTraps_def)

lemma cd_op_MULMOD [cd_handlers]: "countsAsDesigned 0x09 op_MULMOD"
  by (rule entry_fixed [OF ea_op_MULMOD])
     (simp_all add: expectedCounters_def isCallOrCreate_def earlyTraps_def)

lemma cd_op_EXP [cd_handlers]: "countsAsDesigned 0x0a op_EXP"
  by (rule entry_fixed [OF ea_op_EXP])
     (simp_all add: expectedCounters_def isCallOrCreate_def earlyTraps_def)

lemma cd_op_SIGNEXTEND [cd_handlers]: "countsAsDesigned 0x0b op_SIGNEXTEND"
  by (rule entry_fixed [OF ea_op_SIGNEXTEND])
     (simp_all add: expectedCounters_def isCallOrCreate_def earlyTraps_def)

lemma cd_op_LT [cd_handlers]: "countsAsDesigned 0x10 op_LT"
  by (rule entry_fixed [OF ea_op_LT])
     (simp_all add: expectedCounters_def isCallOrCreate_def earlyTraps_def)

lemma cd_op_GT [cd_handlers]: "countsAsDesigned 0x11 op_GT"
  by (rule entry_fixed [OF ea_op_GT])
     (simp_all add: expectedCounters_def isCallOrCreate_def earlyTraps_def)

lemma cd_op_SLT [cd_handlers]: "countsAsDesigned 0x12 op_SLT"
  by (rule entry_fixed [OF ea_op_SLT])
     (simp_all add: expectedCounters_def isCallOrCreate_def earlyTraps_def)

lemma cd_op_SGT [cd_handlers]: "countsAsDesigned 0x13 op_SGT"
  by (rule entry_fixed [OF ea_op_SGT])
     (simp_all add: expectedCounters_def isCallOrCreate_def earlyTraps_def)

lemma cd_op_EQ [cd_handlers]: "countsAsDesigned 0x14 op_EQ"
  by (rule entry_fixed [OF ea_op_EQ])
     (simp_all add: expectedCounters_def isCallOrCreate_def earlyTraps_def)

lemma cd_op_ISZERO [cd_handlers]: "countsAsDesigned 0x15 op_ISZERO"
  by (rule entry_fixed [OF ea_op_ISZERO])
     (simp_all add: expectedCounters_def isCallOrCreate_def earlyTraps_def)

lemma cd_op_AND [cd_handlers]: "countsAsDesigned 0x16 op_AND"
  by (rule entry_fixed [OF ea_op_AND])
     (simp_all add: expectedCounters_def isCallOrCreate_def earlyTraps_def)

lemma cd_op_OR [cd_handlers]: "countsAsDesigned 0x17 op_OR"
  by (rule entry_fixed [OF ea_op_OR])
     (simp_all add: expectedCounters_def isCallOrCreate_def earlyTraps_def)

lemma cd_op_XOR [cd_handlers]: "countsAsDesigned 0x18 op_XOR"
  by (rule entry_fixed [OF ea_op_XOR])
     (simp_all add: expectedCounters_def isCallOrCreate_def earlyTraps_def)

lemma cd_op_NOT [cd_handlers]: "countsAsDesigned 0x19 op_NOT"
  by (rule entry_fixed [OF ea_op_NOT])
     (simp_all add: expectedCounters_def isCallOrCreate_def earlyTraps_def)

lemma cd_op_BYTE [cd_handlers]: "countsAsDesigned 0x1a op_BYTE"
  by (rule entry_fixed [OF ea_op_BYTE])
     (simp_all add: expectedCounters_def isCallOrCreate_def earlyTraps_def)

lemma cd_op_SHL [cd_handlers]: "countsAsDesigned 0x1b op_SHL"
  by (rule entry_fixed [OF ea_op_SHL])
     (simp_all add: expectedCounters_def isCallOrCreate_def earlyTraps_def)

lemma cd_op_SHR [cd_handlers]: "countsAsDesigned 0x1c op_SHR"
  by (rule entry_fixed [OF ea_op_SHR])
     (simp_all add: expectedCounters_def isCallOrCreate_def earlyTraps_def)

lemma cd_op_SAR [cd_handlers]: "countsAsDesigned 0x1d op_SAR"
  by (rule entry_fixed [OF ea_op_SAR])
     (simp_all add: expectedCounters_def isCallOrCreate_def earlyTraps_def)

lemma cd_op_SHA3 [cd_handlers]: "countsAsDesigned 0x20 op_SHA3"
  by (rule entry_fixed [OF ea_op_SHA3])
     (simp_all add: expectedCounters_def isCallOrCreate_def earlyTraps_def)

lemma cd_op_ADDRESS [cd_handlers]: "countsAsDesigned 0x30 op_ADDRESS"
  by (rule entry_fixed [OF ea_op_ADDRESS])
     (simp_all add: expectedCounters_def isCallOrCreate_def earlyTraps_def)

lemma cd_op_BALANCE [cd_handlers]: "countsAsDesigned 0x31 op_BALANCE"
  by (rule entry_fixed [OF ea_op_BALANCE])
     (simp_all add: expectedCounters_def isCallOrCreate_def earlyTraps_def)

lemma cd_op_ORIGIN [cd_handlers]: "countsAsDesigned 0x32 op_ORIGIN"
  by (rule entry_fixed [OF ea_op_ORIGIN])
     (simp_all add: expectedCounters_def isCallOrCreate_def earlyTraps_def)

lemma cd_op_CALLER [cd_handlers]: "countsAsDesigned 0x33 op_CALLER"
  by (rule entry_fixed [OF ea_op_CALLER])
     (simp_all add: expectedCounters_def isCallOrCreate_def earlyTraps_def)

lemma cd_op_CALLVALUE [cd_handlers]: "countsAsDesigned 0x34 op_CALLVALUE"
  by (rule entry_fixed [OF ea_op_CALLVALUE])
     (simp_all add: expectedCounters_def isCallOrCreate_def earlyTraps_def)

lemma cd_op_CALLDATALOAD [cd_handlers]: "countsAsDesigned 0x35 op_CALLDATALOAD"
  by (rule entry_fixed [OF ea_op_CALLDATALOAD])
     (simp_all add: expectedCounters_def isCallOrCreate_def earlyTraps_def)

lemma cd_op_CALLDATASIZE [cd_handlers]: "countsAsDesigned 0x36 op_CALLDATASIZE"
  by (rule entry_fixed [OF ea_op_CALLDATASIZE])
     (simp_all add: expectedCounters_def isCallOrCreate_def earlyTraps_def)

lemma cd_op_CALLDATACOPY [cd_handlers]: "countsAsDesigned 0x37 op_CALLDATACOPY"
  by (rule entry_names [OF ea_op_CALLDATACOPY])
     (simp_all add: expectedCounters_def isCallOrCreate_def earlyTraps_def)

lemma cd_op_CODESIZE [cd_handlers]: "countsAsDesigned 0x38 op_CODESIZE"
  by (rule entry_fixed [OF ea_op_CODESIZE])
     (simp_all add: expectedCounters_def isCallOrCreate_def earlyTraps_def)

lemma cd_op_CODECOPY [cd_handlers]: "countsAsDesigned 0x39 op_CODECOPY"
  by (rule entry_names [OF ea_op_CODECOPY])
     (simp_all add: expectedCounters_def isCallOrCreate_def earlyTraps_def)

lemma cd_op_EXTCODESIZE [cd_handlers]: "countsAsDesigned 0x3b op_EXTCODESIZE"
  by (rule entry_fixed [OF ea_op_EXTCODESIZE])
     (simp_all add: expectedCounters_def isCallOrCreate_def earlyTraps_def)

lemma cd_op_EXTCODECOPY [cd_handlers]: "countsAsDesigned 0x3c op_EXTCODECOPY"
  by (rule entry_names [OF ea_op_EXTCODECOPY])
     (simp_all add: expectedCounters_def isCallOrCreate_def earlyTraps_def)

lemma cd_op_EXTCODEHASH [cd_handlers]: "countsAsDesigned 0x3f op_EXTCODEHASH"
  by (rule entry_fixed [OF ea_op_EXTCODEHASH])
     (simp_all add: expectedCounters_def isCallOrCreate_def earlyTraps_def)

lemma cd_op_RETURNDATASIZE [cd_handlers]: "countsAsDesigned 0x3d op_RETURNDATASIZE"
  by (rule entry_fixed [OF ea_op_RETURNDATASIZE])
     (simp_all add: expectedCounters_def isCallOrCreate_def earlyTraps_def)

lemma cd_op_RETURNDATACOPY [cd_handlers]: "countsAsDesigned 0x3e op_RETURNDATACOPY"
  by (rule entry_names [OF ea_op_RETURNDATACOPY])
     (simp_all add: expectedCounters_def isCallOrCreate_def earlyTraps_def)

lemma cd_op_GASPRICE [cd_handlers]: "countsAsDesigned 0x3a op_GASPRICE"
  by (rule entry_fixed [OF ea_op_GASPRICE])
     (simp_all add: expectedCounters_def isCallOrCreate_def earlyTraps_def)

lemma cd_op_BLOCKHASH [cd_handlers]: "countsAsDesigned 0x40 op_BLOCKHASH"
  by (rule entry_fixed [OF ea_op_BLOCKHASH])
     (simp_all add: expectedCounters_def isCallOrCreate_def earlyTraps_def)

lemma cd_op_COINBASE [cd_handlers]: "countsAsDesigned 0x41 op_COINBASE"
  by (rule entry_fixed [OF ea_op_COINBASE])
     (simp_all add: expectedCounters_def isCallOrCreate_def earlyTraps_def)

lemma cd_op_TIMESTAMP [cd_handlers]: "countsAsDesigned 0x42 op_TIMESTAMP"
  by (rule entry_fixed [OF ea_op_TIMESTAMP])
     (simp_all add: expectedCounters_def isCallOrCreate_def earlyTraps_def)

lemma cd_op_NUMBER [cd_handlers]: "countsAsDesigned 0x43 op_NUMBER"
  by (rule entry_fixed [OF ea_op_NUMBER])
     (simp_all add: expectedCounters_def isCallOrCreate_def earlyTraps_def)

lemma cd_op_DIFFICULTY [cd_handlers]: "countsAsDesigned 0x44 op_DIFFICULTY"
  by (rule entry_fixed [OF ea_op_DIFFICULTY])
     (simp_all add: expectedCounters_def isCallOrCreate_def earlyTraps_def)

lemma cd_op_GASLIMIT [cd_handlers]: "countsAsDesigned 0x45 op_GASLIMIT"
  by (rule entry_fixed [OF ea_op_GASLIMIT])
     (simp_all add: expectedCounters_def isCallOrCreate_def earlyTraps_def)

lemma cd_op_CHAINID [cd_handlers]: "countsAsDesigned 0x46 op_CHAINID"
  by (rule entry_fixed [OF ea_op_CHAINID])
     (simp_all add: expectedCounters_def isCallOrCreate_def earlyTraps_def)

lemma cd_op_SELFBALANCE [cd_handlers]: "countsAsDesigned 0x47 op_SELFBALANCE"
  by (rule entry_fixed [OF ea_op_SELFBALANCE])
     (simp_all add: expectedCounters_def isCallOrCreate_def earlyTraps_def)

lemma cd_op_BASEFEE [cd_handlers]: "countsAsDesigned 0x48 op_BASEFEE"
  by (rule entry_fixed [OF ea_op_BASEFEE])
     (simp_all add: expectedCounters_def isCallOrCreate_def earlyTraps_def)

lemma cd_op_POP [cd_handlers]: "countsAsDesigned 0x50 op_POP"
  by (rule entry_fixed [OF ea_op_POP])
     (simp_all add: expectedCounters_def isCallOrCreate_def earlyTraps_def)

lemma cd_op_MLOAD [cd_handlers]: "countsAsDesigned 0x51 op_MLOAD"
  by (rule entry_fixed [OF ea_op_MLOAD])
     (simp_all add: expectedCounters_def isCallOrCreate_def earlyTraps_def)

lemma cd_op_MSTORE [cd_handlers]: "countsAsDesigned 0x52 op_MSTORE"
  by (rule entry_fixed [OF ea_op_MSTORE])
     (simp_all add: expectedCounters_def isCallOrCreate_def earlyTraps_def)

lemma cd_op_MSTORE8 [cd_handlers]: "countsAsDesigned 0x53 op_MSTORE8"
  by (rule entry_fixed [OF ea_op_MSTORE8])
     (simp_all add: expectedCounters_def isCallOrCreate_def earlyTraps_def)

lemma cd_op_SLOAD [cd_handlers]: "countsAsDesigned 0x54 op_SLOAD"
  by (rule entry_fixed [OF ea_op_SLOAD])
     (simp_all add: expectedCounters_def isCallOrCreate_def earlyTraps_def)

lemma cd_op_SSTORE [cd_handlers]: "countsAsDesigned 0x55 op_SSTORE"
  by (rule entry_fixed [OF ea_op_SSTORE])
     (simp_all add: expectedCounters_def isCallOrCreate_def earlyTraps_def)

lemma cd_op_JUMP [cd_handlers]: "countsAsDesigned 0x56 op_JUMP"
  by (rule entry_fixed [OF ea_op_JUMP])
     (simp_all add: expectedCounters_def isCallOrCreate_def earlyTraps_def)

lemma cd_op_JUMPI [cd_handlers]: "countsAsDesigned 0x57 op_JUMPI"
  by (rule entry_fixed [OF ea_op_JUMPI])
     (simp_all add: expectedCounters_def isCallOrCreate_def earlyTraps_def)

lemma cd_op_PC [cd_handlers]: "countsAsDesigned 0x58 op_PC"
  by (rule entry_fixed [OF ea_op_PC])
     (simp_all add: expectedCounters_def isCallOrCreate_def earlyTraps_def)

lemma cd_op_MSIZE [cd_handlers]: "countsAsDesigned 0x59 op_MSIZE"
  by (rule entry_fixed [OF ea_op_MSIZE])
     (simp_all add: expectedCounters_def isCallOrCreate_def earlyTraps_def)

lemma cd_op_GAS [cd_handlers]: "countsAsDesigned 0x5a op_GAS"
  by (rule entry_fixed [OF ea_op_GAS])
     (simp_all add: expectedCounters_def isCallOrCreate_def earlyTraps_def)

lemma cd_op_JUMPDEST [cd_handlers]: "countsAsDesigned 0x5b op_JUMPDEST"
  by (rule entry_fixed [OF ea_op_JUMPDEST])
     (simp_all add: expectedCounters_def isCallOrCreate_def earlyTraps_def)

lemma cd_op_BEGINSUB [cd_handlers]: "countsAsDesigned 0x5c op_BEGINSUB"
  by (rule entry_fixed [OF ea_op_BEGINSUB])
     (simp_all add: expectedCounters_def isCallOrCreate_def earlyTraps_def)

lemma cd_op_RETURNSUB [cd_handlers]: "countsAsDesigned 0x5d op_RETURNSUB"
  by (rule entry_fixed [OF ea_op_RETURNSUB])
     (simp_all add: expectedCounters_def isCallOrCreate_def earlyTraps_def)

lemma cd_op_JUMPSUB [cd_handlers]: "countsAsDesigned 0x5e op_JUMPSUB"
  by (rule entry_fixed [OF ea_op_JUMPSUB])
     (simp_all add: expectedCounters_def isCallOrCreate_def earlyTraps_def)

lemma cd_op_PUSH0 [cd_handlers]: "countsAsDesigned 0x5f op_PUSH0"
  by (rule entry_fixed [OF ea_op_PUSH0])
     (simp_all add: expectedCounters_def isCallOrCreate_def earlyTraps_def)

lemma cd_op_PUSH [cd_handlers]: "countsAsDesigned 0x60 op_PUSH"
  by (rule entry_fixed [OF ea_op_PUSH])
     (simp_all add: expectedCounters_def isCallOrCreate_def earlyTraps_def)

lemma cd_op_DUP [cd_handlers]: "countsAsDesigned 0x80 op_DUP"
  by (rule entry_fixed [OF ea_op_DUP])
     (simp_all add: expectedCounters_def isCallOrCreate_def earlyTraps_def)

lemma cd_op_SWAP [cd_handlers]: "countsAsDesigned 0x90 op_SWAP"
  by (rule entry_fixed [OF ea_op_SWAP])
     (simp_all add: expectedCounters_def isCallOrCreate_def earlyTraps_def)

lemma cd_op_LOG [cd_handlers]: "countsAsDesigned 0xa0 op_LOG"
  by (rule entry_fixed [OF ea_op_LOG])
     (simp_all add: expectedCounters_def isCallOrCreate_def earlyTraps_def)

lemma cd_op_CREATE [cd_handlers]: "countsAsDesigned 0xf0 op_CREATE"
  by (rule entry_fixed [OF ea_op_CREATE])
     (simp_all add: expectedCounters_def isCallOrCreate_def earlyTraps_def)

lemma cd_op_CREATE2 [cd_handlers]: "countsAsDesigned 0xf5 op_CREATE2"
  by (rule entry_fixed [OF ea_op_CREATE2])
     (simp_all add: expectedCounters_def isCallOrCreate_def earlyTraps_def)

lemma cd_op_CALL [cd_handlers]: "countsAsDesigned 0xf1 op_CALL"
  by (rule entry_fixed [OF ea_op_CALL])
     (simp_all add: expectedCounters_def isCallOrCreate_def earlyTraps_def)

lemma cd_op_CALLCODE [cd_handlers]: "countsAsDesigned 0xf2 op_CALLCODE"
  by (rule entry_fixed [OF ea_op_CALLCODE])
     (simp_all add: expectedCounters_def isCallOrCreate_def earlyTraps_def)

lemma cd_op_DELEGATECALL [cd_handlers]: "countsAsDesigned 0xf4 op_DELEGATECALL"
  by (rule entry_fixed [OF ea_op_DELEGATECALL])
     (simp_all add: expectedCounters_def isCallOrCreate_def earlyTraps_def)

lemma cd_op_STATICCALL [cd_handlers]: "countsAsDesigned 0xfa op_STATICCALL"
  by (rule entry_fixed [OF ea_op_STATICCALL])
     (simp_all add: expectedCounters_def isCallOrCreate_def earlyTraps_def)

lemma cd_op_RETURN [cd_handlers]: "countsAsDesigned 0xf3 op_RETURN"
  by (rule entry_fixed [OF ea_op_RETURN])
     (simp_all add: expectedCounters_def isCallOrCreate_def earlyTraps_def)

lemma cd_op_REVERT [cd_handlers]: "countsAsDesigned 0xfd op_REVERT"
  by (rule entry_fixed [OF ea_op_REVERT])
     (simp_all add: expectedCounters_def isCallOrCreate_def earlyTraps_def)

lemma cd_op_SELFDESTRUCT [cd_handlers]: "countsAsDesigned 0xff op_SELFDESTRUCT"
  by (rule entry_fixed [OF ea_op_SELFDESTRUCT])
     (simp_all add: expectedCounters_def isCallOrCreate_def earlyTraps_def)







end
